theory Spec2Isabelle
  imports Complex_Main "HOL-Library.AList"
begin

section \<open>JavaScript values used by the handlers\<close>

text \<open>
  A JavaScript number with the IEEE special values the quote arithmetic can produce.
  Finite values are exact rationals: rounding to binary64 and the sign of zero are not
  modelled. Division by a finite zero follows IEEE 754: a non-zero dividend gives an
  infinity, a zero dividend gives NaN; nothing is thrown.
\<close>

datatype jsnum = Num rat | PosInf | NegInf | NaN

fun js_sub :: "jsnum \<Rightarrow> jsnum \<Rightarrow> jsnum" where
  "js_sub (Num a) (Num b) = Num (a - b)"
| "js_sub NaN y = NaN"
| "js_sub x NaN = NaN"
| "js_sub PosInf PosInf = NaN"
| "js_sub NegInf NegInf = NaN"
| "js_sub PosInf y = PosInf"
| "js_sub NegInf y = NegInf"
| "js_sub (Num a) PosInf = NegInf"
| "js_sub (Num a) NegInf = PosInf"

fun js_div :: "jsnum \<Rightarrow> jsnum \<Rightarrow> jsnum" where
  "js_div (Num a) (Num b) =
     (if b = 0 then (if a = 0 then NaN else if 0 < a then PosInf else NegInf)
      else Num (a / b))"
| "js_div NaN y = NaN"
| "js_div x NaN = NaN"
| "js_div PosInf (Num b) = (if 0 \<le> b then PosInf else NegInf)"
| "js_div NegInf (Num b) = (if 0 \<le> b then NegInf else PosInf)"
| "js_div (Num a) y = Num 0"
| "js_div x y = NaN"

fun js_mul :: "jsnum \<Rightarrow> jsnum \<Rightarrow> jsnum" where
  "js_mul (Num a) (Num b) = Num (a * b)"
| "js_mul NaN y = NaN"
| "js_mul x NaN = NaN"
| "js_mul PosInf (Num b) = (if b = 0 then NaN else if 0 < b then PosInf else NegInf)"
| "js_mul NegInf (Num b) = (if b = 0 then NaN else if 0 < b then NegInf else PosInf)"
| "js_mul (Num a) PosInf = (if a = 0 then NaN else if 0 < a then PosInf else NegInf)"
| "js_mul (Num a) NegInf = (if a = 0 then NaN else if 0 < a then NegInf else PosInf)"
| "js_mul PosInf PosInf = PosInf"
| "js_mul NegInf NegInf = PosInf"
| "js_mul x y = NegInf"

fun is_finite :: "jsnum \<Rightarrow> bool" where
  "is_finite (Num a) = True"
| "is_finite x = False"

text \<open>Truthiness of a string-valued property that may be absent (\<open>undefined\<close>).\<close>

fun truthy :: "string option \<Rightarrow> bool" where
  "truthy None = False"
| "truthy (Some s) = (s \<noteq> [])"

text \<open>An \<open>Error\<close> object; only its \<open>message\<close> is ever read.\<close>

datatype js_error = JsError (message: string)

text \<open>Template-literal rendering of a non-negative integer (\<open>${response.status}\<close>).\<close>

fun show_nat :: "nat \<Rightarrow> string" where
  "show_nat n =
     (if n < 10 then [''0123456789'' ! n]
      else show_nat (n div 10) @ [''0123456789'' ! (n mod 10)])"

declare show_nat.simps [simp del]

section \<open>The upstream service\<close>

text \<open>
  What \<open>fetch\<close> delivers for one request. A response carries its status, what
  \<open>response.text()\<close> gives (\<open>None\<close> when reading the body rejects) and what
  \<open>response.json()\<close> gives (\<open>Inl m\<close> when it rejects with message \<open>m\<close>).
  A reply is the outcome of the exchange with the time it takes in milliseconds.
\<close>

record 'p response =
  status :: nat
  body_text :: "string option"
  body_json :: "string + 'p"

definition ok :: "'p response \<Rightarrow> bool" where
  "ok response = (200 \<le> status response \<and> status response \<le> 299)"

datatype 'p fetch_outcome = Rejects string | Resolves "'p response"

datatype 'p reply = Reply (latency: nat) (outcome: "'p fetch_outcome")

text \<open>
  \<open>await fetch(url, {signal})\<close> together with the reading of the body. With
  \<open>AbortSignal.timeout(t)\<close> an exchange that takes longer than \<open>t\<close> ms rejects
  with the runtime's timeout error; without a signal the call waits as long as it takes.
\<close>

definition timeout_error :: js_error where
  "timeout_error = JsError ''The operation was aborted due to timeout''"

fun js_fetch :: "nat option \<Rightarrow> 'p reply \<Rightarrow> js_error + 'p response" where
  "js_fetch signal (Reply ms out) =
     (if (case signal of None \<Rightarrow> False | Some t \<Rightarrow> t < ms) then Inl timeout_error
      else (case out of Rejects m \<Rightarrow> Inl (JsError m) | Resolves response \<Rightarrow> Inr response))"

text \<open>The upstream answers within the time limit of the retrying fetchers with status 429.\<close>

fun rate_limited :: "'p reply \<Rightarrow> bool" where
  "rate_limited (Reply ms out) =
     (ms \<le> 5000 \<and> (case out of Rejects m \<Rightarrow> False | Resolves response \<Rightarrow> status response = 429))"

text \<open>The Finnhub quote payload \<open>{c, h, l, pc, t}\<close> and the API Ninjas payload.\<close>

record finnhub_data =
  data_c :: jsnum
  data_h :: jsnum
  data_l :: jsnum
  data_pc :: jsnum
  data_t :: jsnum

record ninjas_data =
  data_price :: jsnum

text \<open>Observable effects of a fetcher: outbound requests (url, headers, timeout) and timer waits.\<close>

datatype event = Request string "(string \<times> string) list" "nat option" | Sleep nat

fun is_request :: "event \<Rightarrow> bool" where
  "is_request (Request u h s) = True"
| "is_request (Sleep ms) = False"

section \<open>Quote results\<close>

text \<open>
  The object a fetcher or a handler's \<open>.catch\<close> builds. One record serves the three
  pipelines: \<open>q_symbol\<close> is \<open>symbol\<close>/\<open>ticker\<close>, \<open>q_name\<close> is \<open>name\<close>/\<open>companyName\<close>,
  \<open>q_category\<close> is \<open>type\<close>/\<open>sector\<close>, \<open>q_val\<close> is \<open>value\<close>/\<open>price\<close>. A property that
  the object does not have, or that is \<open>undefined\<close>, is \<open>None\<close>; for \<open>q_val\<close>,
  \<open>None\<close> is the \<open>null\<close> of a failure object.
\<close>

record quote =
  q_symbol :: string
  q_name :: "string option"
  q_category :: "string option"
  q_description :: "string option"
  q_val :: "jsnum option"
  q_previousClose :: "jsnum option"
  q_change :: "jsnum option"
  q_changePercent :: "jsnum option"
  q_high :: "jsnum option"
  q_low :: "jsnum option"
  q_error :: "string option"
  q_timestamp :: string

text \<open>What an \<open>async\<close> fetcher call settles to.\<close>

datatype fetch_result = Returns quote | Throws js_error | ReturnsUndefined

text \<open>How one pass through the \<open>try\<close> block of the attempt loop ends.\<close>

datatype try_result = Return quote | Continue nat | Throw js_error

fun prepend :: "event list \<Rightarrow> event list \<times> fetch_result \<Rightarrow> event list \<times> fetch_result" where
  "prepend es (tr, r) = (es @ tr, r)"

section \<open>Symbol registries\<close>

record indicator_info =
  info_name :: string
  info_type :: string
  info_description :: string

record company_info =
  co_name :: string
  co_sector :: string

text \<open>
  A registry object is the list of its properties in declaration order;
  \<open>Object.keys\<close> is \<open>map fst\<close> and \<open>REG[k]\<close> is \<open>map_of REG k\<close> (symbols are not
  integer-like strings, which \<open>Object.keys\<close> would move to the front).
\<close>

definition INDICATORS :: "(string \<times> indicator_info) list" where
  "INDICATORS =
    [(''^GSPC'', \<lparr>info_name = ''S&P 500'', info_type = ''Index'', info_description = ''US Large Cap Index''\<rparr>),
     (''^DJI'', \<lparr>info_name = ''Dow Jones Industrial Average'', info_type = ''Index'', info_description = ''US Blue Chip Index''\<rparr>),
     (''^IXIC'', \<lparr>info_name = ''NASDAQ Composite'', info_type = ''Index'', info_description = ''US Tech-Heavy Index''\<rparr>),
     (''^RUT'', \<lparr>info_name = ''Russell 2000'', info_type = ''Index'', info_description = ''US Small Cap Index''\<rparr>),
     (''^VIX'', \<lparr>info_name = ''CBOE Volatility Index'', info_type = ''Volatility'', info_description = ''Market Fear Gauge''\<rparr>),
     (''^TNX'', \<lparr>info_name = ''US 10-Year Treasury Yield'', info_type = ''Bonds'', info_description = ''10-Year Bond Yield''\<rparr>),
     (''GC=F'', \<lparr>info_name = ''Gold Futures'', info_type = ''Commodities'', info_description = ''Gold Price''\<rparr>),
     (''CL=F'', \<lparr>info_name = ''Crude Oil WTI'', info_type = ''Commodities'', info_description = ''Oil Price''\<rparr>)]"

definition COMPANIES :: "(string \<times> company_info) list" where
  "COMPANIES =
    [(''AAPL'', \<lparr>co_name = ''Apple Inc.'', co_sector = ''Technology''\<rparr>),
     (''MSFT'', \<lparr>co_name = ''Microsoft Corporation'', co_sector = ''Technology''\<rparr>),
     (''GOOGL'', \<lparr>co_name = ''Alphabet Inc.'', co_sector = ''Technology''\<rparr>),
     (''META'', \<lparr>co_name = ''Meta Platforms Inc.'', co_sector = ''Technology''\<rparr>),
     (''NVDA'', \<lparr>co_name = ''NVIDIA Corporation'', co_sector = ''Technology''\<rparr>),
     (''JNJ'', \<lparr>co_name = ''Johnson & Johnson'', co_sector = ''Healthcare''\<rparr>),
     (''UNH'', \<lparr>co_name = ''UnitedHealth Group'', co_sector = ''Healthcare''\<rparr>),
     (''PFE'', \<lparr>co_name = ''Pfizer Inc.'', co_sector = ''Healthcare''\<rparr>),
     (''JPM'', \<lparr>co_name = ''JPMorgan Chase & Co.'', co_sector = ''Finance''\<rparr>),
     (''BAC'', \<lparr>co_name = ''Bank of America Corp.'', co_sector = ''Finance''\<rparr>),
     (''GS'', \<lparr>co_name = ''Goldman Sachs Group'', co_sector = ''Finance''\<rparr>),
     (''XOM'', \<lparr>co_name = ''Exxon Mobil Corporation'', co_sector = ''Energy''\<rparr>),
     (''CVX'', \<lparr>co_name = ''Chevron Corporation'', co_sector = ''Energy''\<rparr>),
     (''AMZN'', \<lparr>co_name = ''Amazon.com Inc.'', co_sector = ''Consumer''\<rparr>),
     (''WMT'', \<lparr>co_name = ''Walmart Inc.'', co_sector = ''Consumer''\<rparr>),
     (''COST'', \<lparr>co_name = ''Costco Wholesale'', co_sector = ''Consumer''\<rparr>),
     (''BA'', \<lparr>co_name = ''Boeing Company'', co_sector = ''Industrial''\<rparr>),
     (''CAT'', \<lparr>co_name = ''Caterpillar Inc.'', co_sector = ''Industrial''\<rparr>)]"

text \<open>The registry of \<open>src/api/stocks.js\<close>: ticker to company name.\<close>

definition COMPANIES_api :: "(string \<times> string) list" where
  "COMPANIES_api =
    [(''AAPL'', ''Apple Inc.''),
     (''MSFT'', ''Microsoft Corporation''),
     (''GOOGL'', ''Alphabet Inc.''),
     (''META'', ''Meta Platforms Inc.''),
     (''AMZN'', ''Amazon.com Inc.'')]"

section \<open>The Quote Fetchers\<close>

definition finnhub_url :: "string \<Rightarrow> string \<Rightarrow> string" where
  "finnhub_url symbol apiKey =
     ''https://finnhub.io/api/v1/quote?symbol='' @ symbol @ ''&token='' @ apiKey"

definition finnhub_request :: "string \<Rightarrow> string \<Rightarrow> event" where
  "finnhub_request symbol apiKey =
     Request (finnhub_url symbol apiKey) [(''Accept'', ''application/json'')] (Some 5000)"

definition undefined_name_error :: js_error where
  "undefined_name_error = JsError ''Cannot read properties of undefined (reading 'name')''"

subsection \<open>\<open>fetchIndicator\<close> (economic indicators)\<close>

text \<open>
  The \<open>try\<close> block of one attempt. \<open>now\<close> is the clock reading used if this attempt
  builds the result; \<open>r\<close> is the upstream's reply to this attempt's request.
\<close>

definition fetchIndicator_try ::
  "(string \<times> indicator_info) list \<Rightarrow> string \<Rightarrow> string \<Rightarrow> rat \<Rightarrow> nat \<Rightarrow> finnhub_data reply \<Rightarrow> try_result" where
  "fetchIndicator_try reg now symbol retries attempt r =
     (case js_fetch (Some 5000) r of
        Inl e \<Rightarrow> Throw e
      | Inr response \<Rightarrow>
          if \<not> ok response then
            (if status response = 429 \<and> of_nat attempt < retries then Continue (1000 * (attempt + 1))
             else Throw (JsError (''API request failed for '' @ symbol @ '': '' @
                    show_nat (status response) @ '' - '' @
                    (case body_text response of None \<Rightarrow> ''Unknown error'' | Some errorText \<Rightarrow> errorText))))
          else
            (case body_json response of
               Inl m \<Rightarrow> Throw (JsError m)
             | Inr data \<Rightarrow>
                 if data_c data = Num 0 \<and> data_t data = Num 0
                 then Throw (JsError (''No data available for '' @ symbol))
                 else
                   (case map_of reg symbol of
                      None \<Rightarrow> Throw undefined_name_error
                    | Some indicatorInfo \<Rightarrow>
                        Return \<lparr>q_symbol = symbol,
                          q_name = Some (info_name indicatorInfo),
                          q_category = Some (info_type indicatorInfo),
                          q_description = Some (info_description indicatorInfo),
                          q_val = Some (data_c data),
                          q_previousClose = Some (data_pc data),
                          q_change = Some (js_sub (data_c data) (data_pc data)),
                          q_changePercent = Some (js_mul (js_div (js_sub (data_c data) (data_pc data)) (data_pc data)) (Num 100)),
                          q_high = Some (data_h data),
                          q_low = Some (data_l data),
                          q_error = None,
                          q_timestamp = now\<rparr>)))"

text \<open>
  The attempt loop \<open>for (let attempt = 0; attempt <= retries; attempt++)\<close>, entered at
  \<open>attempt\<close>. \<open>upstream k\<close> is the reply to the request of attempt \<open>k\<close>, \<open>clock k\<close> the
  clock reading of attempt \<open>k\<close>. When the loop condition fails the function body ends
  without a \<open>return\<close>. \<open>retries\<close> is a JavaScript number, here a rational (not
  \<open>NaN\<close> or an infinity), compared with the attempt counter by \<open><=\<close>, \<open><\<close> and
  \<open>===\<close>. \<open>Sleep ms\<close> records \<open>setTimeout(resolve, ms)\<close> with the delay passed.
\<close>

function fetchIndicator_loop ::
  "(string \<times> indicator_info) list \<Rightarrow> (nat \<Rightarrow> finnhub_data reply) \<Rightarrow> (nat \<Rightarrow> string) \<Rightarrow>
   string \<Rightarrow> string \<Rightarrow> rat \<Rightarrow> nat \<Rightarrow> event list \<times> fetch_result" where
  "fetchIndicator_loop reg upstream clock symbol apiKey retries attempt =
     (if of_nat attempt \<le> retries then
        (case fetchIndicator_try reg (clock attempt) symbol retries attempt (upstream attempt) of
           Return q \<Rightarrow> ([finnhub_request symbol apiKey], Returns q)
         | Continue ms \<Rightarrow>
             prepend [finnhub_request symbol apiKey, Sleep ms]
               (fetchIndicator_loop reg upstream clock symbol apiKey retries (Suc attempt))
         | Throw e \<Rightarrow>
             if of_nat attempt = retries then ([finnhub_request symbol apiKey], Throws e)
             else prepend [finnhub_request symbol apiKey, Sleep (500 * 2 ^ attempt)]
                    (fetchIndicator_loop reg upstream clock symbol apiKey retries (Suc attempt)))
      else ([], ReturnsUndefined))"
  by pat_completeness auto
termination
  by (relation "measure (\<lambda>(reg, upstream, clock, symbol, apiKey, retries, attempt). nat (\<lfloor>retries\<rfloor> + 1 - int attempt))")
    (auto simp: le_floor_iff)

declare fetchIndicator_loop.simps [simp del]

definition fetchIndicator ::
  "(string \<times> indicator_info) list \<Rightarrow> (nat \<Rightarrow> finnhub_data reply) \<Rightarrow> (nat \<Rightarrow> string) \<Rightarrow>
   string \<Rightarrow> string \<Rightarrow> rat \<Rightarrow> event list \<times> fetch_result" where
  "fetchIndicator reg upstream clock symbol apiKey retries =
     fetchIndicator_loop reg upstream clock symbol apiKey retries 0"

text \<open>The default of the third parameter: \<open>retries = 2\<close>.\<close>

definition fetchIndicator_default ::
  "(string \<times> indicator_info) list \<Rightarrow> (nat \<Rightarrow> finnhub_data reply) \<Rightarrow> (nat \<Rightarrow> string) \<Rightarrow>
   string \<Rightarrow> string \<Rightarrow> event list \<times> fetch_result" where
  "fetchIndicator_default reg upstream clock symbol apiKey =
     fetchIndicator reg upstream clock symbol apiKey 2"

subsection \<open>\<open>fetchStockPrice\<close> with retry (Finnhub stock quotes)\<close>

definition fetchStockPrice_try ::
  "(string \<times> company_info) list \<Rightarrow> string \<Rightarrow> string \<Rightarrow> rat \<Rightarrow> nat \<Rightarrow> finnhub_data reply \<Rightarrow> try_result" where
  "fetchStockPrice_try reg now ticker retries attempt r =
     (case js_fetch (Some 5000) r of
        Inl e \<Rightarrow> Throw e
      | Inr response \<Rightarrow>
          if \<not> ok response then
            (if status response = 429 \<and> of_nat attempt < retries then Continue (1000 * (attempt + 1))
             else Throw (JsError (''API request failed for '' @ ticker @ '': '' @
                    show_nat (status response) @ '' - '' @
                    (case body_text response of None \<Rightarrow> ''Unknown error'' | Some errorText \<Rightarrow> errorText))))
          else
            (case body_json response of
               Inl m \<Rightarrow> Throw (JsError m)
             | Inr data \<Rightarrow>
                 if data_c data = Num 0 \<and> data_t data = Num 0
                 then Throw (JsError (''No data available for '' @ ticker @
                        '' (market may be closed or invalid ticker)''))
                 else
                   (case map_of reg ticker of
                      None \<Rightarrow> Throw undefined_name_error
                    | Some companyInfo \<Rightarrow>
                        Return \<lparr>q_symbol = ticker,
                          q_name = Some (co_name companyInfo),
                          q_category = Some (co_sector companyInfo),
                          q_description = None,
                          q_val = Some (data_c data),
                          q_previousClose = Some (data_pc data),
                          q_change = Some (js_sub (data_c data) (data_pc data)),
                          q_changePercent = Some (js_mul (js_div (js_sub (data_c data) (data_pc data)) (data_pc data)) (Num 100)),
                          q_high = Some (data_h data),
                          q_low = Some (data_l data),
                          q_error = None,
                          q_timestamp = now\<rparr>)))"

function fetchStockPrice_loop ::
  "(string \<times> company_info) list \<Rightarrow> (nat \<Rightarrow> finnhub_data reply) \<Rightarrow> (nat \<Rightarrow> string) \<Rightarrow>
   string \<Rightarrow> string \<Rightarrow> rat \<Rightarrow> nat \<Rightarrow> event list \<times> fetch_result" where
  "fetchStockPrice_loop reg upstream clock ticker apiKey retries attempt =
     (if of_nat attempt \<le> retries then
        (case fetchStockPrice_try reg (clock attempt) ticker retries attempt (upstream attempt) of
           Return q \<Rightarrow> ([finnhub_request ticker apiKey], Returns q)
         | Continue ms \<Rightarrow>
             prepend [finnhub_request ticker apiKey, Sleep ms]
               (fetchStockPrice_loop reg upstream clock ticker apiKey retries (Suc attempt))
         | Throw e \<Rightarrow>
             if of_nat attempt = retries then ([finnhub_request ticker apiKey], Throws e)
             else prepend [finnhub_request ticker apiKey, Sleep (500 * 2 ^ attempt)]
                    (fetchStockPrice_loop reg upstream clock ticker apiKey retries (Suc attempt)))
      else ([], ReturnsUndefined))"
  by pat_completeness auto
termination
  by (relation "measure (\<lambda>(reg, upstream, clock, ticker, apiKey, retries, attempt). nat (\<lfloor>retries\<rfloor> + 1 - int attempt))")
    (auto simp: le_floor_iff)

declare fetchStockPrice_loop.simps [simp del]

definition fetchStockPrice ::
  "(string \<times> company_info) list \<Rightarrow> (nat \<Rightarrow> finnhub_data reply) \<Rightarrow> (nat \<Rightarrow> string) \<Rightarrow>
   string \<Rightarrow> string \<Rightarrow> rat \<Rightarrow> event list \<times> fetch_result" where
  "fetchStockPrice reg upstream clock ticker apiKey retries =
     fetchStockPrice_loop reg upstream clock ticker apiKey retries 0"

definition fetchStockPrice_default ::
  "(string \<times> company_info) list \<Rightarrow> (nat \<Rightarrow> finnhub_data reply) \<Rightarrow> (nat \<Rightarrow> string) \<Rightarrow>
   string \<Rightarrow> string \<Rightarrow> event list \<times> fetch_result" where
  "fetchStockPrice_default reg upstream clock ticker apiKey =
     fetchStockPrice reg upstream clock ticker apiKey 2"

subsection \<open>\<open>fetchStockPrice\<close> of \<open>src/api/stocks.js\<close> (API Ninjas, single request)\<close>

definition api_request :: "string \<Rightarrow> string \<Rightarrow> event" where
  "api_request ticker apiKey =
     Request (''https://api.api-ninjas.com/v1/stockprice?ticker='' @ ticker)
       [(''X-Api-Key'', apiKey)] None"

definition api_fetchStockPrice ::
  "(string \<times> string) list \<Rightarrow> ninjas_data reply \<Rightarrow> string \<Rightarrow> string \<Rightarrow> string \<Rightarrow>
   event list \<times> (js_error + quote)" where
  "api_fetchStockPrice reg r now ticker apiKey =
     ([api_request ticker apiKey],
      (case js_fetch None r of
         Inl e \<Rightarrow> Inl e
       | Inr response \<Rightarrow>
           if \<not> ok response
           then Inl (JsError (''API request failed for '' @ ticker @ '': '' @ show_nat (status response)))
           else
             (case body_json response of
                Inl m \<Rightarrow> Inl (JsError m)
              | Inr data \<Rightarrow>
                  Inr \<lparr>q_symbol = ticker,
                    q_name = map_of reg ticker,
                    q_category = None,
                    q_description = None,
                    q_val = Some (data_price data),
                    q_previousClose = None,
                    q_change = None,
                    q_changePercent = None,
                    q_high = None,
                    q_low = None,
                    q_error = None,
                    q_timestamp = now\<rparr>)))"

section \<open>The HTTP handlers\<close>

text \<open>
  The request, the response object and the process configuration. A JSON body is one of
  \<open>{error, message}\<close>, \<open>{error, message, data}\<close>,
  \<open>{success: true, timestamp, data, grouped?}\<close> and \<open>{error, message, details?}\<close>;
  \<open>res.status(n).end()\<close> sends none. \<open>setHeader\<close> replaces a header of the same name.

  The repository holds a further variant of the stock handler (Finnhub, a single request
  without timeout or retry); its handler text is that of \<open>src/api/stocks.js\<close> and it is
  not modelled separately.
\<close>

record req =
  req_method :: string

datatype body =
    ErrorBody string string
  | UnavailableBody string string "quote list"
  | SuccessBody string "quote list" "(string \<times> quote list) list option"
  | InternalErrorBody string string "string option"

record res =
  res_headers :: "(string \<times> string) list"
  res_statusCode :: nat
  res_body :: "body option"
  res_finished :: bool

text \<open>The \<open>data\<close> property of a body, empty where the body has none.\<close>

fun body_data :: "body \<Rightarrow> quote list" where
  "body_data (UnavailableBody e m d) = d"
| "body_data (SuccessBody ts d g) = d"
| "body_data b = []"

definition sent_data :: "res \<Rightarrow> quote list" where
  "sent_data r = (case res_body r of None \<Rightarrow> [] | Some b \<Rightarrow> body_data b)"

definition setHeader :: "string \<Rightarrow> string \<Rightarrow> res \<Rightarrow> res" where
  "setHeader k v r = r\<lparr>res_headers := AList.update k v (res_headers r)\<rparr>"

definition res_status :: "nat \<Rightarrow> res \<Rightarrow> res" where
  "res_status code r = r\<lparr>res_statusCode := code\<rparr>"

definition res_json :: "body \<Rightarrow> res \<Rightarrow> res" where
  "res_json b r = r\<lparr>res_body := Some b, res_finished := True\<rparr>"

definition res_end :: "res \<Rightarrow> res" where
  "res_end r = r\<lparr>res_finished := True\<rparr>"

text \<open>The three \<open>setHeader\<close> calls every handler starts with.\<close>

definition cors :: "res \<Rightarrow> res" where
  "cors r0 =
     setHeader ''Access-Control-Allow-Headers'' ''Content-Type''
       (setHeader ''Access-Control-Allow-Methods'' ''GET, OPTIONS''
         (setHeader ''Access-Control-Allow-Origin'' ''*'' r0))"

record process_env =
  API_KEY :: "string option"
  NODE_ENV :: "string option"

text \<open>
  Everything outside the handler during one invocation: the process configuration, the
  upstream's reply to the request of attempt \<open>k\<close> for a symbol (with its latency), the
  clock reading when that attempt builds its result, and the clock reading when the
  handler takes its own \<open>timestamp\<close>.
\<close>

record 'p world =
  w_env :: process_env
  w_upstream :: "string \<Rightarrow> nat \<Rightarrow> 'p reply"
  w_clock :: "string \<Rightarrow> nat \<Rightarrow> string"
  w_now :: string

text \<open>
  \<open>Promise.all\<close>: the fulfilment values in the order of the promises passed, or the
  rejection of one of them (taken in list order).
\<close>

fun promise_all :: "(js_error + 'a) list \<Rightarrow> js_error + 'a list" where
  "promise_all [] = Inr []"
| "promise_all (p # ps) =
     (case p of
        Inl e \<Rightarrow> Inl e
      | Inr v \<Rightarrow> (case promise_all ps of Inl e \<Rightarrow> Inl e | Inr vs \<Rightarrow> Inr (v # vs)))"

text \<open>
  Reading \<open>.error\<close> of every element, as \<open>every\<close>, \<open>reduce\<close> and \<open>filter\<close> do between
  them: an \<open>undefined\<close> element makes the read throw.
\<close>

definition undefined_error_error :: js_error where
  "undefined_error_error = JsError ''Cannot read properties of undefined (reading 'error')''"

fun read_all :: "quote option list \<Rightarrow> js_error + quote list" where
  "read_all [] = Inr []"
| "read_all (x # xs) =
     (case x of
        None \<Rightarrow> Inl undefined_error_error
      | Some q \<Rightarrow> (case read_all xs of Inl e \<Rightarrow> Inl e | Inr qs \<Rightarrow> Inr (q # qs)))"

definition config_error_body :: body where
  "config_error_body =
     ErrorBody ''Configuration error''
       ''API key not configured. Please set API_KEY environment variable.''"

definition method_not_allowed_body :: body where
  "method_not_allowed_body = ErrorBody ''Method not allowed'' ''Only GET requests are supported''"

definition error_details :: "process_env \<Rightarrow> js_error \<Rightarrow> string option" where
  "error_details env e = (if NODE_ENV env = Some ''development'' then Some (message e) else None)"

subsection \<open>Economic indicators handler\<close>

text \<open>The object the \<open>.catch\<close> callback returns for a symbol whose registry entry is \<open>indicatorInfo\<close>.\<close>

definition indicator_failure :: "string \<Rightarrow> indicator_info \<Rightarrow> js_error \<Rightarrow> string \<Rightarrow> quote" where
  "indicator_failure symbol indicatorInfo e ts =
     \<lparr>q_symbol = symbol,
      q_name = Some (info_name indicatorInfo),
      q_category = Some (info_type indicatorInfo),
      q_description = Some (info_description indicatorInfo),
      q_val = None,
      q_previousClose = None,
      q_change = None,
      q_changePercent = None,
      q_high = None,
      q_low = None,
      q_error = Some (message e),
      q_timestamp = ts\<rparr>"

text \<open>
  One element of \<open>indicatorPromises\<close>: the fetch with its \<open>.catch\<close> callback, which
  itself throws when the registry has no entry to read \<open>.name\<close> from.
\<close>

definition indicatorPromise ::
  "(string \<times> indicator_info) list \<Rightarrow> finnhub_data world \<Rightarrow> string \<Rightarrow> string \<Rightarrow> string \<Rightarrow>
   js_error + quote option" where
  "indicatorPromise reg w apiKey ts symbol =
     (case snd (fetchIndicator_default reg (w_upstream w symbol) (w_clock w symbol) symbol apiKey) of
        Returns q \<Rightarrow> Inr (Some q)
      | ReturnsUndefined \<Rightarrow> Inr None
      | Throws e \<Rightarrow>
          (case map_of reg symbol of
             None \<Rightarrow> Inl undefined_name_error
           | Some indicatorInfo \<Rightarrow> Inr (Some (indicator_failure symbol indicatorInfo e ts))))"

text \<open>\<open>await Promise.all(indicatorPromises)\<close> over \<open>Object.keys(INDICATORS)\<close>.\<close>

definition indicatorData ::
  "(string \<times> indicator_info) list \<Rightarrow> finnhub_data world \<Rightarrow> string \<Rightarrow> string \<Rightarrow>
   js_error + quote option list" where
  "indicatorData reg w apiKey ts = promise_all (map (indicatorPromise reg w apiKey ts) (map fst reg))"

text \<open>
  The reducer that builds \<open>groupedData\<close>; the accumulator object is the list of its
  properties in insertion order.
\<close>

definition type_key :: "quote \<Rightarrow> string" where
  "type_key indicator = (case q_category indicator of None \<Rightarrow> ''undefined'' | Some t \<Rightarrow> t)"

definition group_step :: "(string \<times> quote list) list \<Rightarrow> quote \<Rightarrow> (string \<times> quote list) list" where
  "group_step acc indicator =
     (if \<not> truthy (q_error indicator) then
        (case map_of acc (type_key indicator) of
           None \<Rightarrow> acc @ [(type_key indicator, [indicator])]
         | Some xs \<Rightarrow> AList.update (type_key indicator) (xs @ [indicator]) acc)
      else acc)"

text \<open>The \<open>try\<close> block: the response it sends or the error it throws, and the fetcher calls made.\<close>

definition economic_try ::
  "(string \<times> indicator_info) list \<Rightarrow> finnhub_data world \<Rightarrow> res \<Rightarrow>
   (js_error + res) \<times> (string \<times> event list) list" where
  "economic_try reg w r =
     (case API_KEY (w_env w) of
        None \<Rightarrow> (Inr (res_json config_error_body (res_status 500 r)), [])
      | Some apiKey \<Rightarrow>
          if apiKey = [] then (Inr (res_json config_error_body (res_status 500 r)), [])
          else
            (let symbols = map fst reg;
                 ts = w_now w;
                 calls = map (\<lambda>symbol. (symbol,
                   fst (fetchIndicator_default reg (w_upstream w symbol) (w_clock w symbol) symbol apiKey))) symbols
             in case indicatorData reg w apiKey ts of
                  Inl e \<Rightarrow> (Inl e, calls)
                | Inr settled \<Rightarrow>
                    (case read_all settled of
                       Inl e \<Rightarrow> (Inl e, calls)
                     | Inr indicators \<Rightarrow>
                         if list_all (\<lambda>indicator. truthy (q_error indicator)) indicators
                         then (Inr (res_json (UnavailableBody ''Service unavailable''
                                 ''Unable to fetch economic indicator data from API'' indicators)
                                 (res_status 503 r)), calls)
                         else (Inr (res_json (SuccessBody ts indicators
                                 (Some (foldl group_step [] indicators)))
                                 (res_status 200 r)), calls))))"

definition economic_handler ::
  "(string \<times> indicator_info) list \<Rightarrow> finnhub_data world \<Rightarrow> req \<Rightarrow> res \<Rightarrow>
   res \<times> (string \<times> event list) list" where
  "economic_handler reg w rq r0 =
     (let r = cors r0
      in if req_method rq = ''OPTIONS'' then (res_end (res_status 200 r), [])
         else if req_method rq \<noteq> ''GET'' then (res_json method_not_allowed_body (res_status 405 r), [])
         else
           (case economic_try reg w r of
              (Inr sent, calls) \<Rightarrow> (sent, calls)
            | (Inl e, calls) \<Rightarrow>
                (res_json (InternalErrorBody ''Internal server error''
                   ''An unexpected error occurred while fetching economic data''
                   (error_details (w_env w) e)) (res_status 500 r), calls)))"

subsection \<open>Stock handler with retrying fetcher\<close>

definition stock_failure :: "string \<Rightarrow> company_info \<Rightarrow> js_error \<Rightarrow> string \<Rightarrow> quote" where
  "stock_failure ticker companyInfo e ts =
     \<lparr>q_symbol = ticker,
      q_name = Some (co_name companyInfo),
      q_category = Some (co_sector companyInfo),
      q_description = None,
      q_val = None,
      q_previousClose = None,
      q_change = None,
      q_changePercent = None,
      q_high = None,
      q_low = None,
      q_error = Some (message e),
      q_timestamp = ts\<rparr>"

definition stockPromise ::
  "(string \<times> company_info) list \<Rightarrow> finnhub_data world \<Rightarrow> string \<Rightarrow> string \<Rightarrow> string \<Rightarrow>
   js_error + quote option" where
  "stockPromise reg w apiKey ts ticker =
     (case snd (fetchStockPrice_default reg (w_upstream w ticker) (w_clock w ticker) ticker apiKey) of
        Returns q \<Rightarrow> Inr (Some q)
      | ReturnsUndefined \<Rightarrow> Inr None
      | Throws e \<Rightarrow>
          (case map_of reg ticker of
             None \<Rightarrow> Inl undefined_name_error
           | Some companyInfo \<Rightarrow> Inr (Some (stock_failure ticker companyInfo e ts))))"

definition stockData ::
  "(string \<times> company_info) list \<Rightarrow> finnhub_data world \<Rightarrow> string \<Rightarrow> string \<Rightarrow>
   js_error + quote option list" where
  "stockData reg w apiKey ts = promise_all (map (stockPromise reg w apiKey ts) (map fst reg))"

definition stocks_try ::
  "(string \<times> company_info) list \<Rightarrow> finnhub_data world \<Rightarrow> res \<Rightarrow>
   (js_error + res) \<times> (string \<times> event list) list" where
  "stocks_try reg w r =
     (case API_KEY (w_env w) of
        None \<Rightarrow> (Inr (res_json config_error_body (res_status 500 r)), [])
      | Some apiKey \<Rightarrow>
          if apiKey = [] then (Inr (res_json config_error_body (res_status 500 r)), [])
          else
            (let tickers = map fst reg;
                 ts = w_now w;
                 calls = map (\<lambda>ticker. (ticker,
                   fst (fetchStockPrice_default reg (w_upstream w ticker) (w_clock w ticker) ticker apiKey))) tickers
             in case stockData reg w apiKey ts of
                  Inl e \<Rightarrow> (Inl e, calls)
                | Inr settled \<Rightarrow>
                    (case read_all settled of
                       Inl e \<Rightarrow> (Inl e, calls)
                     | Inr stocks \<Rightarrow>
                         if list_all (\<lambda>stock. truthy (q_error stock)) stocks
                         then (Inr (res_json (UnavailableBody ''Service unavailable''
                                 ''Unable to fetch stock data from API'' stocks)
                                 (res_status 503 r)), calls)
                         else (Inr (res_json (SuccessBody ts stocks None)
                                 (res_status 200 r)), calls))))"

definition stocks_handler ::
  "(string \<times> company_info) list \<Rightarrow> finnhub_data world \<Rightarrow> req \<Rightarrow> res \<Rightarrow>
   res \<times> (string \<times> event list) list" where
  "stocks_handler reg w rq r0 =
     (let r = cors r0
      in if req_method rq = ''OPTIONS'' then (res_end (res_status 200 r), [])
         else if req_method rq \<noteq> ''GET'' then (res_json method_not_allowed_body (res_status 405 r), [])
         else
           (case stocks_try reg w r of
              (Inr sent, calls) \<Rightarrow> (sent, calls)
            | (Inl e, calls) \<Rightarrow>
                (res_json (InternalErrorBody ''Internal server error''
                   ''An unexpected error occurred while fetching stock data''
                   (error_details (w_env w) e)) (res_status 500 r), calls)))"

subsection \<open>Stock handler of \<open>src/api/stocks.js\<close>\<close>

definition api_failure :: "(string \<times> string) list \<Rightarrow> string \<Rightarrow> js_error \<Rightarrow> string \<Rightarrow> quote" where
  "api_failure reg ticker e ts =
     \<lparr>q_symbol = ticker,
      q_name = map_of reg ticker,
      q_category = None,
      q_description = None,
      q_val = None,
      q_previousClose = None,
      q_change = None,
      q_changePercent = None,
      q_high = None,
      q_low = None,
      q_error = Some (message e),
      q_timestamp = ts\<rparr>"

text \<open>
  The fetcher here has no attempt loop and its \<open>.catch\<close> callback reads no property of
  a registry entry, so every element of \<open>stockPromises\<close> fulfils with an object.
\<close>

definition api_stockPromise ::
  "(string \<times> string) list \<Rightarrow> ninjas_data world \<Rightarrow> string \<Rightarrow> string \<Rightarrow> string \<Rightarrow> quote" where
  "api_stockPromise reg w apiKey ts ticker =
     (case snd (api_fetchStockPrice reg (w_upstream w ticker 0) (w_clock w ticker 0) ticker apiKey) of
        Inr q \<Rightarrow> q
      | Inl e \<Rightarrow> api_failure reg ticker e ts)"

definition api_stockData ::
  "(string \<times> string) list \<Rightarrow> ninjas_data world \<Rightarrow> string \<Rightarrow> string \<Rightarrow> quote list" where
  "api_stockData reg w apiKey ts = map (api_stockPromise reg w apiKey ts) (map fst reg)"

definition api_try ::
  "(string \<times> string) list \<Rightarrow> ninjas_data world \<Rightarrow> res \<Rightarrow>
   (js_error + res) \<times> (string \<times> event list) list" where
  "api_try reg w r =
     (case API_KEY (w_env w) of
        None \<Rightarrow> (Inr (res_json config_error_body (res_status 500 r)), [])
      | Some apiKey \<Rightarrow>
          if apiKey = [] then (Inr (res_json config_error_body (res_status 500 r)), [])
          else
            (let tickers = map fst reg;
                 ts = w_now w;
                 calls = map (\<lambda>ticker. (ticker,
                   fst (api_fetchStockPrice reg (w_upstream w ticker 0) (w_clock w ticker 0) ticker apiKey))) tickers;
                 stocks = api_stockData reg w apiKey ts
             in if list_all (\<lambda>stock. truthy (q_error stock)) stocks
                then (Inr (res_json (UnavailableBody ''Service unavailable''
                        ''Unable to fetch stock data from API'' stocks)
                        (res_status 503 r)), calls)
                else (Inr (res_json (SuccessBody ts stocks None) (res_status 200 r)), calls)))"

definition api_handler ::
  "(string \<times> string) list \<Rightarrow> ninjas_data world \<Rightarrow> req \<Rightarrow> res \<Rightarrow>
   res \<times> (string \<times> event list) list" where
  "api_handler reg w rq r0 =
     (let r = cors r0
      in if req_method rq = ''OPTIONS'' then (res_end (res_status 200 r), [])
         else if req_method rq \<noteq> ''GET'' then (res_json method_not_allowed_body (res_status 405 r), [])
         else
           (case api_try reg w r of
              (Inr sent, calls) \<Rightarrow> (sent, calls)
            | (Inl e, calls) \<Rightarrow>
                (res_json (InternalErrorBody ''Internal server error''
                   ''An unexpected error occurred while fetching stock data''
                   (error_details (w_env w) e)) (res_status 500 r), calls)))"

section \<open>Notions used in the statements\<close>

text \<open>
  \<open>settles_to result failure q\<close>: \<open>q\<close> is what a fetch with its \<open>.catch\<close> callback
  hands to \<open>Promise.all\<close>, namely the returned quote, or \<open>failure e\<close> for the thrown
  error \<open>e\<close>.
\<close>

fun settles_to :: "fetch_result \<Rightarrow> (js_error \<Rightarrow> quote) \<Rightarrow> quote \<Rightarrow> bool" where
  "settles_to (Returns q') failure q = (q = q')"
| "settles_to (Throws e) failure q = (q = failure e)"
| "settles_to ReturnsUndefined failure q = False"

text \<open>
  The time a fetcher call takes, read off its effects: a request entered at attempt \<open>k\<close>
  takes the latency of the reply to attempt \<open>k\<close>, cut at the timeout if there is one;
  a timer takes its delay.
\<close>

fun elapsed :: "(nat \<Rightarrow> 'p reply) \<Rightarrow> nat \<Rightarrow> event list \<Rightarrow> nat" where
  "elapsed upstream k [] = 0"
| "elapsed upstream k (Request u h signal # es) =
     (case signal of None \<Rightarrow> latency (upstream k) | Some t \<Rightarrow> min t (latency (upstream k)))
       + elapsed upstream (Suc k) es"
| "elapsed upstream k (Sleep ms # es) = ms + elapsed upstream k es"

section \<open>Sample inputs\<close>

text \<open>Concrete replies and clock readings at which the theorems below are instantiated.\<close>

definition quote_reply :: "nat \<Rightarrow> rat \<Rightarrow> rat \<Rightarrow> finnhub_data reply" where
  "quote_reply ms c pc =
     Reply ms (Resolves \<lparr>status = 200, body_text = Some ''{}'',
       body_json = Inr \<lparr>data_c = Num c, data_h = Num c, data_l = Num pc, data_pc = Num pc, data_t = Num 1700000000\<rparr>\<rparr>)"

definition status_reply :: "nat \<Rightarrow> string \<Rightarrow> finnhub_data reply" where
  "status_reply code txt =
     Reply 80 (Resolves \<lparr>status = code, body_text = Some txt, body_json = Inl ''Unexpected token''\<rparr>)"

definition down_reply :: "string \<Rightarrow> finnhub_data reply" where
  "down_reply m = Reply 30 (Rejects m)"

definition sample_clock :: "nat \<Rightarrow> string" where
  "sample_clock k = ''2024-01-02T03:04:0'' @ show_nat k @ ''.000Z''"

definition limited_then_ok :: "nat \<Rightarrow> finnhub_data reply" where
  "limited_then_ok k = (if k < 2 then status_reply 429 ''slow down'' else quote_reply 120 150 100)"

definition failing_upstream :: "nat \<Rightarrow> finnhub_data reply" where
  "failing_upstream k =
     (if k = 0 then down_reply ''fetch failed''
      else if k = 1 then status_reply 500 ''first''
      else status_reply 503 ''last'')"



definition sample_world :: "finnhub_data world" where
  "sample_world =
     \<lparr>w_env = \<lparr>API_KEY = Some ''key'', NODE_ENV = Some ''production''\<rparr>,
      w_upstream = (\<lambda>symbol k.
        if symbol = ''^VIX'' \<or> symbol = ''MSFT'' then status_reply 500 ''oops''
        else if symbol = ''^GSPC'' \<or> symbol = ''AAPL'' then quote_reply 4000 150 100
        else quote_reply 100 150 100),
      w_clock = (\<lambda>symbol. sample_clock),
      w_now = ''2024-01-02T03:03:59.000Z''\<rparr>"

definition get_req :: req where
  "get_req = \<lparr>req_method = ''GET''\<rparr>"

definition fresh_res :: res where
  "fresh_res = \<lparr>res_headers = [], res_statusCode = 200, res_body = None, res_finished = False\<rparr>"

definition unconfigured_world :: "'p reply \<Rightarrow> 'p world" where
  "unconfigured_world r =
     \<lparr>w_env = \<lparr>API_KEY = None, NODE_ENV = None\<rparr>,
      w_upstream = (\<lambda>symbol k. r),
      w_clock = (\<lambda>symbol. sample_clock),
      w_now = ''2024-01-02T03:03:59.000Z''\<rparr>"

definition outage_world :: "'p world" where
  "outage_world =
     \<lparr>w_env = \<lparr>API_KEY = Some ''key'', NODE_ENV = Some ''production''\<rparr>,
      w_upstream = (\<lambda>symbol k. Reply 30 (Rejects ''fetch failed'')),
      w_clock = (\<lambda>symbol. sample_clock),
      w_now = ''2024-01-02T03:03:59.000Z''\<rparr>"

definition api_sample_world :: "ninjas_data world" where
  "api_sample_world =
     \<lparr>w_env = \<lparr>API_KEY = Some ''key'', NODE_ENV = Some ''production''\<rparr>,
      w_upstream = (\<lambda>ticker k.
        if ticker = ''META'' then Reply 30 (Rejects ''fetch failed'')
        else Reply 200 (Resolves \<lparr>status = 200, body_text = Some ''{}'',
               body_json = Inr \<lparr>data_price = Num 190\<rparr>\<rparr>)),
      w_clock = (\<lambda>ticker. sample_clock),
      w_now = ''2024-01-02T03:03:59.000Z''\<rparr>"

definition zero_close_world :: "finnhub_data world" where
  "zero_close_world =
     \<lparr>w_env = \<lparr>API_KEY = Some ''key'', NODE_ENV = Some ''production''\<rparr>,
      w_upstream = (\<lambda>symbol k.
        if symbol = ''^VIX'' then quote_reply 100 0 0
        else if symbol = ''^TNX'' then quote_reply 100 5 0
        else status_reply 500 ''oops''),
      w_clock = (\<lambda>symbol. sample_clock),
      w_now = ''2024-01-02T03:03:59.000Z''\<rparr>"

section \<open>Properties of the attempt loops\<close>

lemma prepend_snd [simp]: "snd (prepend es p) = snd p"
  by (cases p) simp

lemma prepend_fst [simp]: "fst (prepend es p) = es @ fst p"
  by (cases p) simp


lemma fetchIndicator_try_Continue:
  assumes "fetchIndicator_try reg now symbol retries attempt r = Continue ms"
  shows "of_nat attempt < retries" and "ms = 1000 * (attempt + 1)"
  using assms
  by (auto simp: fetchIndicator_try_def split: sum.splits if_splits option.splits)

lemma fetchIndicator_try_Return:
  assumes "fetchIndicator_try reg now symbol retries attempt r = Return q"
  shows "q_error q = None" and "q_val q \<noteq> None" and "q_symbol q = symbol"
  using assms
  by (auto simp: fetchIndicator_try_def split: sum.splits if_splits option.splits)


lemma fetchIndicator_try_rate_limited:
  "rate_limited r \<Longrightarrow> of_nat attempt < retries \<Longrightarrow>
   fetchIndicator_try reg now symbol retries attempt r = Continue (1000 * (attempt + 1))"
  by (cases r) (auto simp: fetchIndicator_try_def ok_def split: fetch_outcome.splits)

lemma fetchIndicator_try_rate_limited_last:
  "rate_limited r \<Longrightarrow> \<not> of_nat attempt < retries \<Longrightarrow>
   fetchIndicator_try reg now symbol retries attempt r =
     Throw (JsError (''API request failed for '' @ symbol @ '': 429 - '' @
       (case outcome r of Rejects m \<Rightarrow> [] | Resolves response \<Rightarrow>
          (case body_text response of None \<Rightarrow> ''Unknown error'' | Some errorText \<Rightarrow> errorText))))"
  by (cases r) (auto simp: fetchIndicator_try_def ok_def show_nat.simps split: fetch_outcome.splits)

lemma fetchIndicator_loop_exit:
  "\<not> of_nat attempt \<le> retries \<Longrightarrow>
   fetchIndicator_loop reg upstream clock symbol apiKey retries attempt = ([], ReturnsUndefined)"
  by (simp add: fetchIndicator_loop.simps)

lemma fetchIndicator_loop_Return:
  "of_nat attempt \<le> retries \<Longrightarrow>
   fetchIndicator_try reg (clock attempt) symbol retries attempt (upstream attempt) = Return q \<Longrightarrow>
   fetchIndicator_loop reg upstream clock symbol apiKey retries attempt =
     ([finnhub_request symbol apiKey], Returns q)"
  by (simp add: fetchIndicator_loop.simps [of _ _ _ _ _ _ attempt])

lemma fetchIndicator_loop_Continue:
  "fetchIndicator_try reg (clock attempt) symbol retries attempt (upstream attempt) = Continue ms \<Longrightarrow>
   fetchIndicator_loop reg upstream clock symbol apiKey retries attempt =
     prepend [finnhub_request symbol apiKey, Sleep ms]
       (fetchIndicator_loop reg upstream clock symbol apiKey retries (Suc attempt))"
  using fetchIndicator_try_Continue(1) [of reg "clock attempt" symbol retries attempt "upstream attempt" ms]
  by (simp add: fetchIndicator_loop.simps [of _ _ _ _ _ _ attempt])

lemma fetchIndicator_loop_Throw_last:
  "of_nat attempt = retries \<Longrightarrow>
   fetchIndicator_try reg (clock attempt) symbol retries attempt (upstream attempt) = Throw e \<Longrightarrow>
   fetchIndicator_loop reg upstream clock symbol apiKey retries attempt =
     ([finnhub_request symbol apiKey], Throws e)"
  by (simp add: fetchIndicator_loop.simps [of _ _ _ _ _ _ attempt])

lemma fetchIndicator_loop_Throw_retry:
  "of_nat attempt < retries \<Longrightarrow>
   fetchIndicator_try reg (clock attempt) symbol retries attempt (upstream attempt) = Throw e \<Longrightarrow>
   fetchIndicator_loop reg upstream clock symbol apiKey retries attempt =
     prepend [finnhub_request symbol apiKey, Sleep (500 * 2 ^ attempt)]
       (fetchIndicator_loop reg upstream clock symbol apiKey retries (Suc attempt))"
  by (simp add: fetchIndicator_loop.simps [of _ _ _ _ _ _ attempt])

lemma fetchIndicator_loop_defined:
  "retries = of_nat n \<Longrightarrow> attempt \<le> n \<Longrightarrow>
   snd (fetchIndicator_loop reg upstream clock symbol apiKey retries attempt) \<noteq> ReturnsUndefined"
proof (induction reg upstream clock symbol apiKey retries attempt rule: fetchIndicator_loop.induct)
  case (1 reg upstream clock symbol apiKey retries attempt)
  note n = "1.prems"(1)
  from "1.prems" have le: "of_nat attempt \<le> retries" by simp
  show ?case
  proof (cases "fetchIndicator_try reg (clock attempt) symbol retries attempt (upstream attempt)")
    case (Return q)
    with le show ?thesis by (simp add: fetchIndicator_loop_Return)
  next
    case (Continue ms)
    from fetchIndicator_try_Continue(1) [OF Continue] n have "Suc attempt \<le> n" by simp
    from "1.IH"(1) [OF le Continue n this] Continue
    show ?thesis by (simp add: fetchIndicator_loop_Continue)
  next
    case (Throw e)
    show ?thesis
    proof (cases "of_nat attempt = retries")
      case True
      with Throw show ?thesis by (simp add: fetchIndicator_loop_Throw_last)
    next
      case False
      with le have lt: "of_nat attempt < retries" by simp
      with n have "Suc attempt \<le> n" by simp
      from "1.IH"(2) [OF le Throw False n this] lt Throw show ?thesis
        by (simp add: fetchIndicator_loop_Throw_retry)
    qed
  qed
qed

lemma fetchIndicator_loop_requests:
  "length (filter is_request (fst (fetchIndicator_loop reg upstream clock symbol apiKey retries attempt)))
     \<le> nat (\<lfloor>retries\<rfloor> + 1 - int attempt)"
proof (induction reg upstream clock symbol apiKey retries attempt rule: fetchIndicator_loop.induct)
  case (1 reg upstream clock symbol apiKey retries attempt)
  show ?case
  proof (cases "of_nat attempt \<le> retries")
    case False
    then show ?thesis by (simp add: fetchIndicator_loop_exit)
  next
    case le: True
    then have fl: "int attempt \<le> \<lfloor>retries\<rfloor>" by (simp add: le_floor_iff)
    show ?thesis
    proof (cases "fetchIndicator_try reg (clock attempt) symbol retries attempt (upstream attempt)")
      case (Return q)
      with le fl show ?thesis
        by (simp add: fetchIndicator_loop_Return finnhub_request_def)
    next
      case (Continue ms)
      with fl "1.IH"(1) [OF le Continue]
      show ?thesis
        by (simp add: fetchIndicator_loop_Continue finnhub_request_def)
    next
      case (Throw e)
      show ?thesis
      proof (cases "of_nat attempt = retries")
        case True
        with Throw fl show ?thesis by (simp add: fetchIndicator_loop_Throw_last finnhub_request_def)
      next
        case False
        with le have lt: "of_nat attempt < retries" by simp
        with fl Throw "1.IH"(2) [OF le Throw False] show ?thesis
          by (simp add: fetchIndicator_loop_Throw_retry finnhub_request_def)
      qed
    qed
  qed
qed


lemma fetchIndicator_loop_Throws:
  "snd (fetchIndicator_loop reg upstream clock symbol apiKey retries attempt) = Throws e \<Longrightarrow>
   \<exists>n. retries = of_nat n \<and> attempt \<le> n \<and>
       fetchIndicator_try reg (clock n) symbol retries n (upstream n) = Throw e"
proof (induction reg upstream clock symbol apiKey retries attempt rule: fetchIndicator_loop.induct)
  case (1 reg upstream clock symbol apiKey retries attempt)
  show ?case
  proof (cases "of_nat attempt \<le> retries")
    case False
    with "1.prems" show ?thesis by (simp add: fetchIndicator_loop_exit)
  next
    case le: True
    show ?thesis
    proof (cases "fetchIndicator_try reg (clock attempt) symbol retries attempt (upstream attempt)")
      case (Return q)
      with le "1.prems" show ?thesis
        by (simp add: fetchIndicator_loop_Return)
    next
      case (Continue ms)
      with "1.prems" have "snd (fetchIndicator_loop reg upstream clock symbol apiKey retries (Suc attempt)) = Throws e"
        by (simp add: fetchIndicator_loop_Continue)
      from "1.IH"(1) [OF le Continue this] show ?thesis
        by (auto intro: Suc_leD)
    next
      case (Throw e')
      show ?thesis
      proof (cases "of_nat attempt = retries")
        case True
        with Throw "1.prems" have "e' = e" by (simp add: fetchIndicator_loop_Throw_last)
        with True Throw show ?thesis by auto
      next
        case False
        with le have lt: "of_nat attempt < retries" by simp
        with Throw "1.prems" have "snd (fetchIndicator_loop reg upstream clock symbol apiKey retries (Suc attempt)) = Throws e"
          by (simp add: fetchIndicator_loop_Throw_retry)
        from "1.IH"(2) [OF le Throw False this] show ?thesis
          by (auto intro: Suc_leD)
      qed
    qed
  qed
qed

lemma fetchIndicator_loop_Returns:
  "snd (fetchIndicator_loop reg upstream clock symbol apiKey retries attempt) = Returns q \<Longrightarrow>
   \<exists>k. attempt \<le> k \<and> of_nat k \<le> retries \<and>
       fetchIndicator_try reg (clock k) symbol retries k (upstream k) = Return q"
proof (induction reg upstream clock symbol apiKey retries attempt rule: fetchIndicator_loop.induct)
  case (1 reg upstream clock symbol apiKey retries attempt)
  show ?case
  proof (cases "of_nat attempt \<le> retries")
    case False
    with "1.prems" show ?thesis by (simp add: fetchIndicator_loop_exit)
  next
    case le: True
    show ?thesis
    proof (cases "fetchIndicator_try reg (clock attempt) symbol retries attempt (upstream attempt)")
      case (Return q')
      with le "1.prems" show ?thesis
        by (auto simp: fetchIndicator_loop_Return)
    next
      case (Continue ms)
      with "1.prems" have "snd (fetchIndicator_loop reg upstream clock symbol apiKey retries (Suc attempt)) = Returns q"
        by (simp add: fetchIndicator_loop_Continue)
      from "1.IH"(1) [OF le Continue this] show ?thesis
        by (auto intro: Suc_leD)
    next
      case (Throw e')
      show ?thesis
      proof (cases "of_nat attempt = retries")
        case True
        with Throw "1.prems" show ?thesis by (simp add: fetchIndicator_loop_Throw_last)
      next
        case False
        with le have lt: "of_nat attempt < retries" by simp
        with Throw "1.prems" have "snd (fetchIndicator_loop reg upstream clock symbol apiKey retries (Suc attempt)) = Returns q"
          by (simp add: fetchIndicator_loop_Throw_retry)
        from "1.IH"(2) [OF le Throw False this] show ?thesis
          by (auto intro: Suc_leD)
      qed
    qed
  qed
qed

lemma fetchIndicator_loop_all_fail:
  "retries = of_nat n \<Longrightarrow> attempt \<le> n \<Longrightarrow>
   (\<And>k q. attempt \<le> k \<Longrightarrow> k \<le> n \<Longrightarrow>
      fetchIndicator_try reg (clock k) symbol retries k (upstream k) \<noteq> Return q) \<Longrightarrow>
   \<exists>e. fetchIndicator_try reg (clock n) symbol retries n (upstream n) = Throw e \<and>
       snd (fetchIndicator_loop reg upstream clock symbol apiKey retries attempt) = Throws e"
proof (induction reg upstream clock symbol apiKey retries attempt rule: fetchIndicator_loop.induct)
  case (1 reg upstream clock symbol apiKey retries attempt)
  note n = "1.prems"(1)
  from "1.prems"(1,2) have le: "of_nat attempt \<le> retries" by simp
  have later: "\<And>k q. Suc attempt \<le> k \<Longrightarrow> k \<le> n \<Longrightarrow>
      fetchIndicator_try reg (clock k) symbol retries k (upstream k) \<noteq> Return q"
    using "1.prems"(3) by simp
  show ?case
  proof (cases "fetchIndicator_try reg (clock attempt) symbol retries attempt (upstream attempt)")
    case (Return q)
    with "1.prems"(3) [of attempt q] "1.prems"(2) show ?thesis by simp
  next
    case (Continue ms)
    from fetchIndicator_try_Continue(1) [OF Continue] n have "Suc attempt \<le> n" by simp
    from "1.IH"(1) [OF le Continue n this later] Continue
    show ?thesis
      by (simp add: fetchIndicator_loop_Continue)
  next
    case (Throw e')
    show ?thesis
    proof (cases "of_nat attempt = retries")
      case True
      with n have "n = attempt" by simp
      with True Throw show ?thesis by (simp add: fetchIndicator_loop_Throw_last)
    next
      case False
      with le have lt: "of_nat attempt < retries" by simp
      with n have "Suc attempt \<le> n" by simp
      from "1.IH"(2) [OF le Throw False n this later] Throw lt show ?thesis
        by (simp add: fetchIndicator_loop_Throw_retry)
    qed
  qed
qed

lemma fetchIndicator_loop_all_throw_trace:
  "retries = of_nat n \<Longrightarrow> attempt \<le> n \<Longrightarrow>
   (\<And>k. attempt \<le> k \<Longrightarrow> k \<le> n \<Longrightarrow>
      \<exists>e. fetchIndicator_try reg (clock k) symbol retries k (upstream k) = Throw e) \<Longrightarrow>
   fst (fetchIndicator_loop reg upstream clock symbol apiKey retries attempt) =
     concat (map (\<lambda>k. [finnhub_request symbol apiKey, Sleep (500 * 2 ^ k)]) [attempt..<n])
       @ [finnhub_request symbol apiKey]"
proof (induction reg upstream clock symbol apiKey retries attempt rule: fetchIndicator_loop.induct)
  case (1 reg upstream clock symbol apiKey retries attempt)
  note n = "1.prems"(1)
  from "1.prems"(1,2) have le: "of_nat attempt \<le> retries" by simp
  from "1.prems"(3) [of attempt] "1.prems"(2) obtain e where
    Throw: "fetchIndicator_try reg (clock attempt) symbol retries attempt (upstream attempt) = Throw e"
    by auto
  have later: "\<And>k. Suc attempt \<le> k \<Longrightarrow> k \<le> n \<Longrightarrow>
      \<exists>e. fetchIndicator_try reg (clock k) symbol retries k (upstream k) = Throw e"
    using "1.prems"(3) by simp
  show ?case
  proof (cases "of_nat attempt = retries")
    case True
    with n have "n = attempt" by simp
    with True Throw show ?thesis by (simp add: fetchIndicator_loop_Throw_last)
  next
    case False
    with le have lt: "of_nat attempt < retries" by simp
    with n have sl: "Suc attempt \<le> n" by simp
    then have upt: "[attempt..<n] = attempt # [Suc attempt..<n]"
      by (simp add: upt_conv_Cons)
    from "1.IH"(2) [OF le Throw False n sl later] Throw lt show ?thesis
      by (simp add: fetchIndicator_loop_Throw_retry upt)
  qed
qed

lemma fetchStockPrice_try_Continue:
  assumes "fetchStockPrice_try reg now ticker retries attempt r = Continue ms"
  shows "of_nat attempt < retries" and "ms = 1000 * (attempt + 1)"
  using assms
  by (auto simp: fetchStockPrice_try_def split: sum.splits if_splits option.splits)

lemma fetchStockPrice_try_Return:
  assumes "fetchStockPrice_try reg now ticker retries attempt r = Return q"
  shows "q_error q = None" and "q_val q \<noteq> None" and "q_symbol q = ticker"
  using assms
  by (auto simp: fetchStockPrice_try_def split: sum.splits if_splits option.splits)


lemma fetchStockPrice_try_rate_limited:
  "rate_limited r \<Longrightarrow> of_nat attempt < retries \<Longrightarrow>
   fetchStockPrice_try reg now ticker retries attempt r = Continue (1000 * (attempt + 1))"
  by (cases r) (auto simp: fetchStockPrice_try_def ok_def split: fetch_outcome.splits)

lemma fetchStockPrice_try_rate_limited_last:
  "rate_limited r \<Longrightarrow> \<not> of_nat attempt < retries \<Longrightarrow>
   fetchStockPrice_try reg now ticker retries attempt r =
     Throw (JsError (''API request failed for '' @ ticker @ '': 429 - '' @
       (case outcome r of Rejects m \<Rightarrow> [] | Resolves response \<Rightarrow>
          (case body_text response of None \<Rightarrow> ''Unknown error'' | Some errorText \<Rightarrow> errorText))))"
  by (cases r) (auto simp: fetchStockPrice_try_def ok_def show_nat.simps split: fetch_outcome.splits)

lemma fetchStockPrice_loop_exit:
  "\<not> of_nat attempt \<le> retries \<Longrightarrow>
   fetchStockPrice_loop reg upstream clock ticker apiKey retries attempt = ([], ReturnsUndefined)"
  by (simp add: fetchStockPrice_loop.simps)

lemma fetchStockPrice_loop_Return:
  "of_nat attempt \<le> retries \<Longrightarrow>
   fetchStockPrice_try reg (clock attempt) ticker retries attempt (upstream attempt) = Return q \<Longrightarrow>
   fetchStockPrice_loop reg upstream clock ticker apiKey retries attempt =
     ([finnhub_request ticker apiKey], Returns q)"
  by (simp add: fetchStockPrice_loop.simps [of _ _ _ _ _ _ attempt])

lemma fetchStockPrice_loop_Continue:
  "fetchStockPrice_try reg (clock attempt) ticker retries attempt (upstream attempt) = Continue ms \<Longrightarrow>
   fetchStockPrice_loop reg upstream clock ticker apiKey retries attempt =
     prepend [finnhub_request ticker apiKey, Sleep ms]
       (fetchStockPrice_loop reg upstream clock ticker apiKey retries (Suc attempt))"
  using fetchStockPrice_try_Continue(1) [of reg "clock attempt" ticker retries attempt "upstream attempt" ms]
  by (simp add: fetchStockPrice_loop.simps [of _ _ _ _ _ _ attempt])

lemma fetchStockPrice_loop_Throw_last:
  "of_nat attempt = retries \<Longrightarrow>
   fetchStockPrice_try reg (clock attempt) ticker retries attempt (upstream attempt) = Throw e \<Longrightarrow>
   fetchStockPrice_loop reg upstream clock ticker apiKey retries attempt =
     ([finnhub_request ticker apiKey], Throws e)"
  by (simp add: fetchStockPrice_loop.simps [of _ _ _ _ _ _ attempt])

lemma fetchStockPrice_loop_Throw_retry:
  "of_nat attempt < retries \<Longrightarrow>
   fetchStockPrice_try reg (clock attempt) ticker retries attempt (upstream attempt) = Throw e \<Longrightarrow>
   fetchStockPrice_loop reg upstream clock ticker apiKey retries attempt =
     prepend [finnhub_request ticker apiKey, Sleep (500 * 2 ^ attempt)]
       (fetchStockPrice_loop reg upstream clock ticker apiKey retries (Suc attempt))"
  by (simp add: fetchStockPrice_loop.simps [of _ _ _ _ _ _ attempt])

lemma fetchStockPrice_loop_defined:
  "retries = of_nat n \<Longrightarrow> attempt \<le> n \<Longrightarrow>
   snd (fetchStockPrice_loop reg upstream clock ticker apiKey retries attempt) \<noteq> ReturnsUndefined"
proof (induction reg upstream clock ticker apiKey retries attempt rule: fetchStockPrice_loop.induct)
  case (1 reg upstream clock ticker apiKey retries attempt)
  note n = "1.prems"(1)
  from "1.prems" have le: "of_nat attempt \<le> retries" by simp
  show ?case
  proof (cases "fetchStockPrice_try reg (clock attempt) ticker retries attempt (upstream attempt)")
    case (Return q)
    with le show ?thesis by (simp add: fetchStockPrice_loop_Return)
  next
    case (Continue ms)
    from fetchStockPrice_try_Continue(1) [OF Continue] n have "Suc attempt \<le> n" by simp
    from "1.IH"(1) [OF le Continue n this] Continue
    show ?thesis by (simp add: fetchStockPrice_loop_Continue)
  next
    case (Throw e)
    show ?thesis
    proof (cases "of_nat attempt = retries")
      case True
      with Throw show ?thesis by (simp add: fetchStockPrice_loop_Throw_last)
    next
      case False
      with le have lt: "of_nat attempt < retries" by simp
      with n have "Suc attempt \<le> n" by simp
      from "1.IH"(2) [OF le Throw False n this] lt Throw show ?thesis
        by (simp add: fetchStockPrice_loop_Throw_retry)
    qed
  qed
qed

lemma fetchStockPrice_loop_requests:
  "length (filter is_request (fst (fetchStockPrice_loop reg upstream clock ticker apiKey retries attempt)))
     \<le> nat (\<lfloor>retries\<rfloor> + 1 - int attempt)"
proof (induction reg upstream clock ticker apiKey retries attempt rule: fetchStockPrice_loop.induct)
  case (1 reg upstream clock ticker apiKey retries attempt)
  show ?case
  proof (cases "of_nat attempt \<le> retries")
    case False
    then show ?thesis by (simp add: fetchStockPrice_loop_exit)
  next
    case le: True
    then have fl: "int attempt \<le> \<lfloor>retries\<rfloor>" by (simp add: le_floor_iff)
    show ?thesis
    proof (cases "fetchStockPrice_try reg (clock attempt) ticker retries attempt (upstream attempt)")
      case (Return q)
      with le fl show ?thesis
        by (simp add: fetchStockPrice_loop_Return finnhub_request_def)
    next
      case (Continue ms)
      with fl "1.IH"(1) [OF le Continue]
      show ?thesis
        by (simp add: fetchStockPrice_loop_Continue finnhub_request_def)
    next
      case (Throw e)
      show ?thesis
      proof (cases "of_nat attempt = retries")
        case True
        with Throw fl show ?thesis by (simp add: fetchStockPrice_loop_Throw_last finnhub_request_def)
      next
        case False
        with le have lt: "of_nat attempt < retries" by simp
        with fl Throw "1.IH"(2) [OF le Throw False] show ?thesis
          by (simp add: fetchStockPrice_loop_Throw_retry finnhub_request_def)
      qed
    qed
  qed
qed


lemma fetchStockPrice_loop_Throws:
  "snd (fetchStockPrice_loop reg upstream clock ticker apiKey retries attempt) = Throws e \<Longrightarrow>
   \<exists>n. retries = of_nat n \<and> attempt \<le> n \<and>
       fetchStockPrice_try reg (clock n) ticker retries n (upstream n) = Throw e"
proof (induction reg upstream clock ticker apiKey retries attempt rule: fetchStockPrice_loop.induct)
  case (1 reg upstream clock ticker apiKey retries attempt)
  show ?case
  proof (cases "of_nat attempt \<le> retries")
    case False
    with "1.prems" show ?thesis by (simp add: fetchStockPrice_loop_exit)
  next
    case le: True
    show ?thesis
    proof (cases "fetchStockPrice_try reg (clock attempt) ticker retries attempt (upstream attempt)")
      case (Return q)
      with le "1.prems" show ?thesis
        by (simp add: fetchStockPrice_loop_Return)
    next
      case (Continue ms)
      with "1.prems" have "snd (fetchStockPrice_loop reg upstream clock ticker apiKey retries (Suc attempt)) = Throws e"
        by (simp add: fetchStockPrice_loop_Continue)
      from "1.IH"(1) [OF le Continue this] show ?thesis
        by (auto intro: Suc_leD)
    next
      case (Throw e')
      show ?thesis
      proof (cases "of_nat attempt = retries")
        case True
        with Throw "1.prems" have "e' = e" by (simp add: fetchStockPrice_loop_Throw_last)
        with True Throw show ?thesis by auto
      next
        case False
        with le have lt: "of_nat attempt < retries" by simp
        with Throw "1.prems" have "snd (fetchStockPrice_loop reg upstream clock ticker apiKey retries (Suc attempt)) = Throws e"
          by (simp add: fetchStockPrice_loop_Throw_retry)
        from "1.IH"(2) [OF le Throw False this] show ?thesis
          by (auto intro: Suc_leD)
      qed
    qed
  qed
qed

lemma fetchStockPrice_loop_Returns:
  "snd (fetchStockPrice_loop reg upstream clock ticker apiKey retries attempt) = Returns q \<Longrightarrow>
   \<exists>k. attempt \<le> k \<and> of_nat k \<le> retries \<and>
       fetchStockPrice_try reg (clock k) ticker retries k (upstream k) = Return q"
proof (induction reg upstream clock ticker apiKey retries attempt rule: fetchStockPrice_loop.induct)
  case (1 reg upstream clock ticker apiKey retries attempt)
  show ?case
  proof (cases "of_nat attempt \<le> retries")
    case False
    with "1.prems" show ?thesis by (simp add: fetchStockPrice_loop_exit)
  next
    case le: True
    show ?thesis
    proof (cases "fetchStockPrice_try reg (clock attempt) ticker retries attempt (upstream attempt)")
      case (Return q')
      with le "1.prems" show ?thesis
        by (auto simp: fetchStockPrice_loop_Return)
    next
      case (Continue ms)
      with "1.prems" have "snd (fetchStockPrice_loop reg upstream clock ticker apiKey retries (Suc attempt)) = Returns q"
        by (simp add: fetchStockPrice_loop_Continue)
      from "1.IH"(1) [OF le Continue this] show ?thesis
        by (auto intro: Suc_leD)
    next
      case (Throw e')
      show ?thesis
      proof (cases "of_nat attempt = retries")
        case True
        with Throw "1.prems" show ?thesis by (simp add: fetchStockPrice_loop_Throw_last)
      next
        case False
        with le have lt: "of_nat attempt < retries" by simp
        with Throw "1.prems" have "snd (fetchStockPrice_loop reg upstream clock ticker apiKey retries (Suc attempt)) = Returns q"
          by (simp add: fetchStockPrice_loop_Throw_retry)
        from "1.IH"(2) [OF le Throw False this] show ?thesis
          by (auto intro: Suc_leD)
      qed
    qed
  qed
qed

lemma fetchStockPrice_loop_all_fail:
  "retries = of_nat n \<Longrightarrow> attempt \<le> n \<Longrightarrow>
   (\<And>k q. attempt \<le> k \<Longrightarrow> k \<le> n \<Longrightarrow>
      fetchStockPrice_try reg (clock k) ticker retries k (upstream k) \<noteq> Return q) \<Longrightarrow>
   \<exists>e. fetchStockPrice_try reg (clock n) ticker retries n (upstream n) = Throw e \<and>
       snd (fetchStockPrice_loop reg upstream clock ticker apiKey retries attempt) = Throws e"
proof (induction reg upstream clock ticker apiKey retries attempt rule: fetchStockPrice_loop.induct)
  case (1 reg upstream clock ticker apiKey retries attempt)
  note n = "1.prems"(1)
  from "1.prems"(1,2) have le: "of_nat attempt \<le> retries" by simp
  have later: "\<And>k q. Suc attempt \<le> k \<Longrightarrow> k \<le> n \<Longrightarrow>
      fetchStockPrice_try reg (clock k) ticker retries k (upstream k) \<noteq> Return q"
    using "1.prems"(3) by simp
  show ?case
  proof (cases "fetchStockPrice_try reg (clock attempt) ticker retries attempt (upstream attempt)")
    case (Return q)
    with "1.prems"(3) [of attempt q] "1.prems"(2) show ?thesis by simp
  next
    case (Continue ms)
    from fetchStockPrice_try_Continue(1) [OF Continue] n have "Suc attempt \<le> n" by simp
    from "1.IH"(1) [OF le Continue n this later] Continue
    show ?thesis
      by (simp add: fetchStockPrice_loop_Continue)
  next
    case (Throw e')
    show ?thesis
    proof (cases "of_nat attempt = retries")
      case True
      with n have "n = attempt" by simp
      with True Throw show ?thesis by (simp add: fetchStockPrice_loop_Throw_last)
    next
      case False
      with le have lt: "of_nat attempt < retries" by simp
      with n have "Suc attempt \<le> n" by simp
      from "1.IH"(2) [OF le Throw False n this later] Throw lt show ?thesis
        by (simp add: fetchStockPrice_loop_Throw_retry)
    qed
  qed
qed

lemma fetchStockPrice_loop_all_throw_trace:
  "retries = of_nat n \<Longrightarrow> attempt \<le> n \<Longrightarrow>
   (\<And>k. attempt \<le> k \<Longrightarrow> k \<le> n \<Longrightarrow>
      \<exists>e. fetchStockPrice_try reg (clock k) ticker retries k (upstream k) = Throw e) \<Longrightarrow>
   fst (fetchStockPrice_loop reg upstream clock ticker apiKey retries attempt) =
     concat (map (\<lambda>k. [finnhub_request ticker apiKey, Sleep (500 * 2 ^ k)]) [attempt..<n])
       @ [finnhub_request ticker apiKey]"
proof (induction reg upstream clock ticker apiKey retries attempt rule: fetchStockPrice_loop.induct)
  case (1 reg upstream clock ticker apiKey retries attempt)
  note n = "1.prems"(1)
  from "1.prems"(1,2) have le: "of_nat attempt \<le> retries" by simp
  from "1.prems"(3) [of attempt] "1.prems"(2) obtain e where
    Throw: "fetchStockPrice_try reg (clock attempt) ticker retries attempt (upstream attempt) = Throw e"
    by auto
  have later: "\<And>k. Suc attempt \<le> k \<Longrightarrow> k \<le> n \<Longrightarrow>
      \<exists>e. fetchStockPrice_try reg (clock k) ticker retries k (upstream k) = Throw e"
    using "1.prems"(3) by simp
  show ?case
  proof (cases "of_nat attempt = retries")
    case True
    with n have "n = attempt" by simp
    with True Throw show ?thesis by (simp add: fetchStockPrice_loop_Throw_last)
  next
    case False
    with le have lt: "of_nat attempt < retries" by simp
    with n have sl: "Suc attempt \<le> n" by simp
    then have upt: "[attempt..<n] = attempt # [Suc attempt..<n]"
      by (simp add: upt_conv_Cons)
    from "1.IH"(2) [OF le Throw False n sl later] Throw lt show ?thesis
      by (simp add: fetchStockPrice_loop_Throw_retry upt)
  qed
qed

lemma show_nat_samples: "show_nat 500 = ''500''" "show_nat 503 = ''503''" "show_nat 429 = ''429''"
  by (simp_all add: show_nat.simps)

section \<open>Properties of the handlers\<close>

lemma promise_all_settled:
  "(\<And>x. x \<in> set xs \<Longrightarrow> \<exists>q. f x = Inr (Some q) \<and> R x q) \<Longrightarrow>
   \<exists>qs. promise_all (map f xs) = Inr (map Some qs) \<and> list_all2 R xs qs"
proof (induction xs)
  case Nil
  then show ?case by simp
next
  case (Cons x xs)
  from Cons.prems [of x] obtain q where q: "f x = Inr (Some q)" "R x q" by auto
  from Cons.IH Cons.prems obtain qs where
    qs: "promise_all (map f xs) = Inr (map Some qs)" "list_all2 R xs qs"
    by auto
  from q qs have "promise_all (map f (x # xs)) = Inr (map Some (q # qs)) \<and> list_all2 R (x # xs) (q # qs)"
    by simp
  then show ?case by blast
qed

lemma read_all_Some: "read_all (map Some qs) = Inr qs"
  by (induction qs) simp_all

lemma fetchIndicator_default_defined:
  "snd (fetchIndicator_default reg up clk symbol apiKey) \<noteq> ReturnsUndefined"
  using fetchIndicator_loop_defined [of 2 2 0 reg up clk symbol apiKey]
  by (simp add: fetchIndicator_default_def fetchIndicator_def)

lemma fetchIndicator_default_symbol:
  "snd (fetchIndicator_default reg up clk symbol apiKey) = Returns q \<Longrightarrow> q_symbol q = symbol"
  using fetchIndicator_loop_Returns [of reg up clk symbol apiKey 2 0 q]
    fetchIndicator_try_Return(3)
  unfolding fetchIndicator_default_def fetchIndicator_def by blast

lemma fetchIndicator_default_success:
  "snd (fetchIndicator_default reg up clk symbol apiKey) = Returns q \<Longrightarrow> q_error q = None"
  using fetchIndicator_loop_Returns [of reg up clk symbol apiKey 2 0 q]
    fetchIndicator_try_Return(1)
  unfolding fetchIndicator_default_def fetchIndicator_def by blast

lemma indicatorPromise_settles:
  assumes "map_of reg symbol = Some info"
  shows "\<exists>q. indicatorPromise reg w apiKey ts symbol = Inr (Some q) \<and>
    settles_to (snd (fetchIndicator_default reg (w_upstream w symbol) (w_clock w symbol) symbol apiKey))
      (\<lambda>e. indicator_failure symbol info e ts) q"
proof (cases "snd (fetchIndicator_default reg (w_upstream w symbol) (w_clock w symbol) symbol apiKey)")
  case (Returns q)
  then show ?thesis by (simp add: indicatorPromise_def)
next
  case (Throws e)
  with assms show ?thesis by (simp add: indicatorPromise_def)
next
  case ReturnsUndefined
  with fetchIndicator_default_defined show ?thesis by blast
qed

lemma indicatorData_settles:
  assumes "distinct (map fst reg)"
  shows "\<exists>data. indicatorData reg w apiKey ts = Inr (map Some data) \<and>
    list_all2 (\<lambda>entry q.
      settles_to (snd (fetchIndicator_default reg (w_upstream w (fst entry)) (w_clock w (fst entry)) (fst entry) apiKey))
        (\<lambda>e. indicator_failure (fst entry) (snd entry) e ts) q) reg data"
proof -
  have "\<And>entry. entry \<in> set reg \<Longrightarrow>
      \<exists>q. (indicatorPromise reg w apiKey ts \<circ> fst) entry = Inr (Some q) \<and>
        settles_to (snd (fetchIndicator_default reg (w_upstream w (fst entry)) (w_clock w (fst entry)) (fst entry) apiKey))
          (\<lambda>e. indicator_failure (fst entry) (snd entry) e ts) q"
  proof -
    fix entry assume "entry \<in> set reg"
    with assms have "map_of reg (fst entry) = Some (snd entry)"
      by (simp add: map_of_eq_Some_iff)
    from indicatorPromise_settles [OF this, of w apiKey ts]
    show "\<exists>q. (indicatorPromise reg w apiKey ts \<circ> fst) entry = Inr (Some q) \<and>
        settles_to (snd (fetchIndicator_default reg (w_upstream w (fst entry)) (w_clock w (fst entry)) (fst entry) apiKey))
          (\<lambda>e. indicator_failure (fst entry) (snd entry) e ts) q"
      by simp
  qed
  from promise_all_settled [of reg "indicatorPromise reg w apiKey ts \<circ> fst", OF this]
  show ?thesis by (simp add: indicatorData_def)
qed

lemma economic_try_sent:
  assumes "API_KEY (w_env w) = Some apiKey" "apiKey \<noteq> []"
    and "indicatorData reg w apiKey (w_now w) = Inr (map Some data)"
  shows "fst (economic_try reg w r) =
    Inr (if list_all (\<lambda>indicator. truthy (q_error indicator)) data
         then res_json (UnavailableBody ''Service unavailable''
                ''Unable to fetch economic indicator data from API'' data) (res_status 503 r)
         else res_json (SuccessBody (w_now w) data (Some (foldl group_step [] data))) (res_status 200 r))"
  using assms by (simp add: economic_try_def Let_def read_all_Some)

lemma economic_try_calls:
  assumes "API_KEY (w_env w) = Some apiKey" "apiKey \<noteq> []"
  shows "snd (economic_try reg w r) =
    map (\<lambda>symbol. (symbol,
      fst (fetchIndicator_default reg (w_upstream w symbol) (w_clock w symbol) symbol apiKey))) (map fst reg)"
  using assms by (simp add: economic_try_def Let_def split: sum.splits)

lemma economic_handler_GET:
  assumes "req_method rq = ''GET''"
    and "API_KEY (w_env w) = Some apiKey" "apiKey \<noteq> []"
    and "indicatorData reg w apiKey (w_now w) = Inr (map Some data)"
  shows "fst (economic_handler reg w rq r0) =
    (if list_all (\<lambda>indicator. truthy (q_error indicator)) data
     then res_json (UnavailableBody ''Service unavailable''
            ''Unable to fetch economic indicator data from API'' data) (res_status 503 (cors r0))
     else res_json (SuccessBody (w_now w) data (Some (foldl group_step [] data))) (res_status 200 (cors r0)))"
proof -
  obtain calls where "economic_try reg w (cors r0) =
      (Inr (if list_all (\<lambda>indicator. truthy (q_error indicator)) data
         then res_json (UnavailableBody ''Service unavailable''
                ''Unable to fetch economic indicator data from API'' data) (res_status 503 (cors r0))
         else res_json (SuccessBody (w_now w) data (Some (foldl group_step [] data))) (res_status 200 (cors r0))), calls)"
    using economic_try_sent [OF assms(2,3,4), of "cors r0"]
    by (cases "economic_try reg w (cors r0)") simp
  with assms(1) show ?thesis
    by (simp add: economic_handler_def Let_def)
qed

lemma group_step_lookup:
  "map_of (group_step acc q) t =
     (if \<not> truthy (q_error q) \<and> type_key q = t
      then Some ((case map_of acc t of None \<Rightarrow> [] | Some xs \<Rightarrow> xs) @ [q])
      else map_of acc t)"
  by (auto simp: group_step_def update_conv' map_add_def split: option.splits)

lemma foldl_group_step_lookup:
  "map_of (foldl group_step acc data) t =
     (let xs = filter (\<lambda>q. \<not> truthy (q_error q) \<and> type_key q = t) data in
      case map_of acc t of
        None \<Rightarrow> if xs = [] then None else Some xs
      | Some ys \<Rightarrow> Some (ys @ xs))"
proof (induction data arbitrary: acc)
  case Nil
  then show ?case by (simp split: option.splits)
next
  case (Cons q data)
  show ?case
    by (simp add: Cons.IH group_step_lookup Let_def split: option.splits)
qed

lemma fetchStockPrice_default_defined:
  "snd (fetchStockPrice_default reg up clk symbol apiKey) \<noteq> ReturnsUndefined"
  using fetchStockPrice_loop_defined [of 2 2 0 reg up clk symbol apiKey]
  by (simp add: fetchStockPrice_default_def fetchStockPrice_def)

lemma fetchStockPrice_default_symbol:
  "snd (fetchStockPrice_default reg up clk symbol apiKey) = Returns q \<Longrightarrow> q_symbol q = symbol"
  using fetchStockPrice_loop_Returns [of reg up clk symbol apiKey 2 0 q]
    fetchStockPrice_try_Return(3)
  unfolding fetchStockPrice_default_def fetchStockPrice_def by blast

lemma fetchStockPrice_default_success:
  "snd (fetchStockPrice_default reg up clk symbol apiKey) = Returns q \<Longrightarrow> q_error q = None"
  using fetchStockPrice_loop_Returns [of reg up clk symbol apiKey 2 0 q]
    fetchStockPrice_try_Return(1)
  unfolding fetchStockPrice_default_def fetchStockPrice_def by blast

lemma stockPromise_settles:
  assumes "map_of reg symbol = Some info"
  shows "\<exists>q. stockPromise reg w apiKey ts symbol = Inr (Some q) \<and>
    settles_to (snd (fetchStockPrice_default reg (w_upstream w symbol) (w_clock w symbol) symbol apiKey))
      (\<lambda>e. stock_failure symbol info e ts) q"
proof (cases "snd (fetchStockPrice_default reg (w_upstream w symbol) (w_clock w symbol) symbol apiKey)")
  case (Returns q)
  then show ?thesis by (simp add: stockPromise_def)
next
  case (Throws e)
  with assms show ?thesis by (simp add: stockPromise_def)
next
  case ReturnsUndefined
  with fetchStockPrice_default_defined show ?thesis by blast
qed

lemma stockData_settles:
  assumes "distinct (map fst reg)"
  shows "\<exists>data. stockData reg w apiKey ts = Inr (map Some data) \<and>
    list_all2 (\<lambda>entry q.
      settles_to (snd (fetchStockPrice_default reg (w_upstream w (fst entry)) (w_clock w (fst entry)) (fst entry) apiKey))
        (\<lambda>e. stock_failure (fst entry) (snd entry) e ts) q) reg data"
proof -
  have "\<And>entry. entry \<in> set reg \<Longrightarrow>
      \<exists>q. (stockPromise reg w apiKey ts \<circ> fst) entry = Inr (Some q) \<and>
        settles_to (snd (fetchStockPrice_default reg (w_upstream w (fst entry)) (w_clock w (fst entry)) (fst entry) apiKey))
          (\<lambda>e. stock_failure (fst entry) (snd entry) e ts) q"
  proof -
    fix entry assume "entry \<in> set reg"
    with assms have "map_of reg (fst entry) = Some (snd entry)"
      by (simp add: map_of_eq_Some_iff)
    from stockPromise_settles [OF this, of w apiKey ts]
    show "\<exists>q. (stockPromise reg w apiKey ts \<circ> fst) entry = Inr (Some q) \<and>
        settles_to (snd (fetchStockPrice_default reg (w_upstream w (fst entry)) (w_clock w (fst entry)) (fst entry) apiKey))
          (\<lambda>e. stock_failure (fst entry) (snd entry) e ts) q"
      by simp
  qed
  from promise_all_settled [of reg "stockPromise reg w apiKey ts \<circ> fst", OF this]
  show ?thesis by (simp add: stockData_def)
qed

lemma stocks_try_sent:
  assumes "API_KEY (w_env w) = Some apiKey" "apiKey \<noteq> []"
    and "stockData reg w apiKey (w_now w) = Inr (map Some data)"
  shows "fst (stocks_try reg w r) =
    Inr (if list_all (\<lambda>indicator. truthy (q_error indicator)) data
         then res_json (UnavailableBody ''Service unavailable''
                ''Unable to fetch stock data from API'' data) (res_status 503 r)
         else res_json (SuccessBody (w_now w) data None) (res_status 200 r))"
  using assms by (simp add: stocks_try_def Let_def read_all_Some)

lemma stocks_try_calls:
  assumes "API_KEY (w_env w) = Some apiKey" "apiKey \<noteq> []"
  shows "snd (stocks_try reg w r) =
    map (\<lambda>symbol. (symbol,
      fst (fetchStockPrice_default reg (w_upstream w symbol) (w_clock w symbol) symbol apiKey))) (map fst reg)"
  using assms by (simp add: stocks_try_def Let_def split: sum.splits)

lemma stocks_handler_GET:
  assumes "req_method rq = ''GET''"
    and "API_KEY (w_env w) = Some apiKey" "apiKey \<noteq> []"
    and "stockData reg w apiKey (w_now w) = Inr (map Some data)"
  shows "fst (stocks_handler reg w rq r0) =
    (if list_all (\<lambda>indicator. truthy (q_error indicator)) data
     then res_json (UnavailableBody ''Service unavailable''
            ''Unable to fetch stock data from API'' data) (res_status 503 (cors r0))
     else res_json (SuccessBody (w_now w) data None) (res_status 200 (cors r0)))"
proof -
  obtain calls where "stocks_try reg w (cors r0) =
      (Inr (if list_all (\<lambda>indicator. truthy (q_error indicator)) data
         then res_json (UnavailableBody ''Service unavailable''
                ''Unable to fetch stock data from API'' data) (res_status 503 (cors r0))
         else res_json (SuccessBody (w_now w) data None) (res_status 200 (cors r0))), calls)"
    using stocks_try_sent [OF assms(2,3,4), of "cors r0"]
    by (cases "stocks_try reg w (cors r0)") simp
  with assms(1) show ?thesis
    by (simp add: stocks_handler_def Let_def)
qed

lemma api_try_sent:
  assumes "API_KEY (w_env w) = Some apiKey" "apiKey \<noteq> []"
  shows "api_try reg w r =
    (Inr (if list_all (\<lambda>stock. truthy (q_error stock)) (api_stockData reg w apiKey (w_now w))
         then res_json (UnavailableBody ''Service unavailable''
                ''Unable to fetch stock data from API'' (api_stockData reg w apiKey (w_now w))) (res_status 503 r)
         else res_json (SuccessBody (w_now w) (api_stockData reg w apiKey (w_now w)) None) (res_status 200 r)),
     map (\<lambda>ticker. (ticker,
       fst (api_fetchStockPrice reg (w_upstream w ticker 0) (w_clock w ticker 0) ticker apiKey))) (map fst reg))"
  using assms by (simp add: api_try_def Let_def)

lemma api_handler_GET:
  assumes "req_method rq = ''GET''"
    and "API_KEY (w_env w) = Some apiKey" "apiKey \<noteq> []"
  shows "fst (api_handler reg w rq r0) =
    (if list_all (\<lambda>stock. truthy (q_error stock)) (api_stockData reg w apiKey (w_now w))
     then res_json (UnavailableBody ''Service unavailable''
            ''Unable to fetch stock data from API'' (api_stockData reg w apiKey (w_now w))) (res_status 503 (cors r0))
     else res_json (SuccessBody (w_now w) (api_stockData reg w apiKey (w_now w)) None) (res_status 200 (cors r0)))"
  using assms by (simp add: api_handler_def Let_def api_try_sent)

lemma truthy_iff: "truthy k \<longleftrightarrow> (\<exists>s. k = Some s \<and> s \<noteq> [])"
  by (cases k) simp_all

lemma economic_try_unconfigured:
  "\<not> truthy (API_KEY (w_env w)) \<Longrightarrow>
   economic_try reg w r = (Inr (res_json config_error_body (res_status 500 r)), [])"
  by (cases "API_KEY (w_env w)") (simp_all add: economic_try_def)

lemma stocks_try_unconfigured:
  "\<not> truthy (API_KEY (w_env w)) \<Longrightarrow>
   stocks_try reg w r = (Inr (res_json config_error_body (res_status 500 r)), [])"
  by (cases "API_KEY (w_env w)") (simp_all add: stocks_try_def)

lemma api_try_unconfigured:
  "\<not> truthy (API_KEY (w_env w)) \<Longrightarrow>
   api_try reg w r = (Inr (res_json config_error_body (res_status 500 r)), [])"
  by (cases "API_KEY (w_env w)") (simp_all add: api_try_def)

lemma res_headers_simps [simp]:
  "res_headers (res_json b r) = res_headers r"
  "res_headers (res_status code r) = res_headers r"
  "res_headers (res_end r) = res_headers r"
  by (simp_all add: res_json_def res_status_def res_end_def)

lemma res_statusCode_simps [simp]:
  "res_statusCode (res_json b r) = res_statusCode r"
  "res_statusCode (res_status code r) = code"
  "res_statusCode (res_end r) = res_statusCode r"
  by (simp_all add: res_json_def res_status_def res_end_def)

lemma res_body_simps [simp]:
  "res_body (res_json b r) = Some b"
  "res_body (res_status code r) = res_body r"
  by (simp_all add: res_json_def res_status_def)

lemma cors_headers:
  "map_of (res_headers (cors r0)) ''Access-Control-Allow-Origin'' = Some ''*''"
  "map_of (res_headers (cors r0)) ''Access-Control-Allow-Methods'' = Some ''GET, OPTIONS''"
  "map_of (res_headers (cors r0)) ''Access-Control-Allow-Headers'' = Some ''Content-Type''"
  by (simp_all add: cors_def setHeader_def update_conv')

lemma economic_try_headers:
  "fst (economic_try reg w r) = Inr sent \<Longrightarrow> res_headers sent = res_headers r"
  by (auto simp: economic_try_def Let_def split: option.splits if_splits sum.splits)

lemma stocks_try_headers:
  "fst (stocks_try reg w r) = Inr sent \<Longrightarrow> res_headers sent = res_headers r"
  by (auto simp: stocks_try_def Let_def split: option.splits if_splits sum.splits)

lemma api_try_headers:
  "fst (api_try reg w r) = Inr sent \<Longrightarrow> res_headers sent = res_headers r"
  by (auto simp: api_try_def Let_def split: option.splits if_splits sum.splits)

lemma economic_handler_headers:
  "res_headers (fst (economic_handler reg w rq r0)) = res_headers (cors r0)"
proof (cases "economic_try reg w (cors r0)")
  case (Pair outcome calls)
  then show ?thesis
    using economic_try_headers [of reg w "cors r0"]
    by (cases outcome) (simp_all add: economic_handler_def Let_def)
qed

lemma stocks_handler_headers:
  "res_headers (fst (stocks_handler reg w rq r0)) = res_headers (cors r0)"
proof (cases "stocks_try reg w (cors r0)")
  case (Pair outcome calls)
  then show ?thesis
    using stocks_try_headers [of reg w "cors r0"]
    by (cases outcome) (simp_all add: stocks_handler_def Let_def)
qed

lemma api_handler_headers:
  "res_headers (fst (api_handler reg w rq r0)) = res_headers (cors r0)"
proof (cases "api_try reg w (cors r0)")
  case (Pair outcome calls)
  then show ?thesis
    using api_try_headers [of reg w "cors r0"]
    by (cases outcome) (simp_all add: api_handler_def Let_def)
qed

lemma list_all2_map_eq:
  "list_all2 (\<lambda>x y. g y = f x) xs ys \<Longrightarrow> map g ys = map f xs"
  by (induction rule: list_all2_induct) auto

lemma indicator_settles_symbol:
  "settles_to (snd (fetchIndicator_default reg up clk symbol apiKey))
     (\<lambda>e. indicator_failure symbol info e ts) q \<Longrightarrow> q_symbol q = symbol"
  by (cases "snd (fetchIndicator_default reg up clk symbol apiKey)")
    (simp_all add: fetchIndicator_default_symbol indicator_failure_def)

lemma stock_settles_symbol:
  "settles_to (snd (fetchStockPrice_default reg up clk symbol apiKey))
     (\<lambda>e. stock_failure symbol info e ts) q \<Longrightarrow> q_symbol q = symbol"
  by (cases "snd (fetchStockPrice_default reg up clk symbol apiKey)")
    (simp_all add: fetchStockPrice_default_symbol stock_failure_def)

lemma api_fetchStockPrice_symbol:
  "snd (api_fetchStockPrice reg r now ticker apiKey) = Inr q \<Longrightarrow> q_symbol q = ticker"
  by (auto simp: api_fetchStockPrice_def split: sum.splits if_splits)

lemma api_stockPromise_symbol: "q_symbol (api_stockPromise reg w apiKey ts ticker) = ticker"
  by (cases "snd (api_fetchStockPrice reg (w_upstream w ticker 0) (w_clock w ticker 0) ticker apiKey)")
    (simp_all add: api_stockPromise_def api_failure_def api_fetchStockPrice_symbol)

lemma api_fanout:
  "length (api_stockData reg w apiKey ts) = length reg \<and>
   map q_symbol (api_stockData reg w apiKey ts) = map fst reg \<and>
   list_all2 (\<lambda>entry q.
     q = (case snd (api_fetchStockPrice reg (w_upstream w (fst entry) 0) (w_clock w (fst entry) 0) (fst entry) apiKey) of
            Inr q' \<Rightarrow> q'
          | Inl e \<Rightarrow> api_failure reg (fst entry) e ts)) reg (api_stockData reg w apiKey ts)"
proof -
  have "map q_symbol (api_stockData reg w apiKey ts) = map fst reg"
    by (simp add: api_stockData_def api_stockPromise_symbol)
  moreover have "list_all2 (\<lambda>entry q.
     q = (case snd (api_fetchStockPrice reg (w_upstream w (fst entry) 0) (w_clock w (fst entry) 0) (fst entry) apiKey) of
            Inr q' \<Rightarrow> q'
          | Inl e \<Rightarrow> api_failure reg (fst entry) e ts)) reg (api_stockData reg w apiKey ts)"
    by (simp add: api_stockData_def list_all2_map2 list_all2_same api_stockPromise_def)
  ultimately show ?thesis
    by (simp add: api_stockData_def)
qed

lemma sent_data_simps [simp]:
  "sent_data (res_json (UnavailableBody err msg d) r) = d"
  "sent_data (res_json (SuccessBody ts d g) r) = d"
  by (simp_all add: sent_data_def)

lemma economic_fanout:
  assumes "req_method rq = ''GET''" "API_KEY (w_env w) = Some apiKey" "apiKey \<noteq> []"
    and "distinct (map fst reg)"
  shows "\<exists>data. indicatorData reg w apiKey (w_now w) = Inr (map Some data) \<and>
        sent_data (fst (economic_handler reg w rq r0)) = data \<and>
        length data = length reg \<and> map q_symbol data = map fst reg \<and>
        list_all2 (\<lambda>entry q.
          settles_to (snd (fetchIndicator_default reg (w_upstream w (fst entry)) (w_clock w (fst entry)) (fst entry) apiKey))
            (\<lambda>e. indicator_failure (fst entry) (snd entry) e (w_now w)) q) reg data"
proof -
  from indicatorData_settles [OF assms(4), of w apiKey "w_now w"] obtain data where
    d: "indicatorData reg w apiKey (w_now w) = Inr (map Some data)"
    and rel: "list_all2 (\<lambda>entry q.
          settles_to (snd (fetchIndicator_default reg (w_upstream w (fst entry)) (w_clock w (fst entry)) (fst entry) apiKey))
            (\<lambda>e. indicator_failure (fst entry) (snd entry) e (w_now w)) q) reg data"
    by blast
  have sent: "sent_data (fst (economic_handler reg w rq r0)) = data"
    by (simp add: economic_handler_GET [OF assms(1,2,3) d])
  from rel have len: "length data = length reg"
    by (simp add: list_all2_lengthD)
  from rel have "list_all2 (\<lambda>entry q. q_symbol q = fst entry) reg data"
    by (rule list_all2_mono) (rule indicator_settles_symbol)
  then have "map q_symbol data = map fst reg"
    by (rule list_all2_map_eq)
  with d sent len rel show ?thesis by blast
qed

lemma stocks_fanout:
  assumes "req_method rq = ''GET''" "API_KEY (w_env w) = Some apiKey" "apiKey \<noteq> []"
    and "distinct (map fst reg)"
  shows "\<exists>data. stockData reg w apiKey (w_now w) = Inr (map Some data) \<and>
        sent_data (fst (stocks_handler reg w rq r0)) = data \<and>
        length data = length reg \<and> map q_symbol data = map fst reg \<and>
        list_all2 (\<lambda>entry q.
          settles_to (snd (fetchStockPrice_default reg (w_upstream w (fst entry)) (w_clock w (fst entry)) (fst entry) apiKey))
            (\<lambda>e. stock_failure (fst entry) (snd entry) e (w_now w)) q) reg data"
proof -
  from stockData_settles [OF assms(4), of w apiKey "w_now w"] obtain data where
    d: "stockData reg w apiKey (w_now w) = Inr (map Some data)"
    and rel: "list_all2 (\<lambda>entry q.
          settles_to (snd (fetchStockPrice_default reg (w_upstream w (fst entry)) (w_clock w (fst entry)) (fst entry) apiKey))
            (\<lambda>e. stock_failure (fst entry) (snd entry) e (w_now w)) q) reg data"
    by blast
  have sent: "sent_data (fst (stocks_handler reg w rq r0)) = data"
    by (simp add: stocks_handler_GET [OF assms(1,2,3) d])
  from rel have len: "length data = length reg"
    by (simp add: list_all2_lengthD)
  from rel have "list_all2 (\<lambda>entry q. q_symbol q = fst entry) reg data"
    by (rule list_all2_mono) (rule stock_settles_symbol)
  then have "map q_symbol data = map fst reg"
    by (rule list_all2_map_eq)
  with d sent len rel show ?thesis by blast
qed

lemma settles_to_Returns_mem:
  assumes "list_all2 (\<lambda>entry q. settles_to (f entry) (g entry) q) reg data"
    and "entry \<in> set reg" and "f entry = Returns q"
  shows "q \<in> set data"
proof -
  from assms(2) obtain i where i: "i < length reg" "reg ! i = entry"
    by (auto simp: in_set_conv_nth)
  with assms(1) have "settles_to (f entry) (g entry) (data ! i)" and "i < length data"
    by (auto simp: list_all2_conv_all_nth)
  with assms(3) show ?thesis by auto
qed

lemma distinct_INDICATORS: "distinct (map fst INDICATORS)"
  by (simp add: INDICATORS_def)

lemma distinct_COMPANIES: "distinct (map fst COMPANIES)"
  by (simp add: COMPANIES_def)

lemma sample_economic_data:
  "sent_data (fst (economic_handler INDICATORS sample_world get_req fresh_res)) ! 4 =
     indicator_failure ''^VIX''
       \<lparr>info_name = ''CBOE Volatility Index'', info_type = ''Volatility'', info_description = ''Market Fear Gauge''\<rparr>
       (JsError ''API request failed for ^VIX: 500 - oops'') ''2024-01-02T03:03:59.000Z''"
  by (simp add: economic_handler_def economic_try_def sample_world_def get_req_def fresh_res_def
      indicatorData_def indicatorPromise_def fetchIndicator_default_def fetchIndicator_def
      fetchIndicator_loop.simps fetchIndicator_try_def ok_def status_reply_def quote_reply_def
      INDICATORS_def cors_def setHeader_def res_json_def res_status_def sent_data_def Let_def
      indicator_failure_def show_nat_samples)

section \<open>Claims about the Quote Fetchers\<close>

text \<open>
  C3. The Quote Fetcher makes attempts numbered \<open>0..retries\<close>, one request per attempt:
  at most \<open>retries + 1\<close> requests (rounded down), at most 3 with the default
  \<open>retries = 2\<close>, and none for an attempt number beyond \<open>retries\<close>. A failed attempt
  is one whose \<open>try\<close> block throws (timeout, network error, a non-ok status that is not
  a retried 429, unreadable JSON, the no-data sentinel); a 429 answer with attempts
  remaining does not throw but takes the rate-limit wait of C6. After a failed attempt \<open>k < retries\<close> the fetcher waits
  \<open>500 * 2 ^ k\<close> ms and goes on with attempt \<open>k + 1\<close>; after a failed last attempt it
  throws at once. When every attempt fails the effects are exactly request, wait 500,
  request, wait 1000, ..., request. Called without the third argument, as the handlers
  do, either fetcher is the call with \<open>retries = 2\<close>: an attempt 0 that succeeds gives
  one request and the quote, and three failing attempts 0, 1, 2 give request, wait 500,
  request, wait 1000, request and the error of attempt 2.
\<close>

theorem attempts_and_exponential_backoff:
  "length (filter is_request (fst (fetchIndicator reg up clk symbol apiKey retries))) \<le> nat (\<lfloor>retries\<rfloor> + 1) \<and>
   length (filter is_request (fst (fetchIndicator_default reg up clk symbol apiKey))) \<le> 3 \<and>
   (of_nat attempt < retries \<and>
    fetchIndicator_try reg (clk attempt) symbol retries attempt (up attempt) = Throw e \<longrightarrow>
      fetchIndicator_loop reg up clk symbol apiKey retries attempt =
        prepend [finnhub_request symbol apiKey, Sleep (500 * 2 ^ attempt)]
          (fetchIndicator_loop reg up clk symbol apiKey retries (Suc attempt))) \<and>
   (of_nat attempt = retries \<and>
    fetchIndicator_try reg (clk attempt) symbol retries attempt (up attempt) = Throw e \<longrightarrow>
      fetchIndicator_loop reg up clk symbol apiKey retries attempt =
        ([finnhub_request symbol apiKey], Throws e)) \<and>
   (retries < of_nat attempt \<longrightarrow>
      fetchIndicator_loop reg up clk symbol apiKey retries attempt = ([], ReturnsUndefined)) \<and>
   (retries = of_nat n \<and>
    (\<forall>k \<le> n. \<exists>e'. fetchIndicator_try reg (clk k) symbol retries k (up k) = Throw e') \<longrightarrow>
      fst (fetchIndicator reg up clk symbol apiKey retries) =
        concat (map (\<lambda>k. [finnhub_request symbol apiKey, Sleep (500 * 2 ^ k)]) [0..<n])
          @ [finnhub_request symbol apiKey]) \<and>
   length (filter is_request (fst (fetchStockPrice creg up clk symbol apiKey retries))) \<le> nat (\<lfloor>retries\<rfloor> + 1) \<and>
   length (filter is_request (fst (fetchStockPrice_default creg up clk symbol apiKey))) \<le> 3 \<and>
   (of_nat attempt < retries \<and>
    fetchStockPrice_try creg (clk attempt) symbol retries attempt (up attempt) = Throw e \<longrightarrow>
      fetchStockPrice_loop creg up clk symbol apiKey retries attempt =
        prepend [finnhub_request symbol apiKey, Sleep (500 * 2 ^ attempt)]
          (fetchStockPrice_loop creg up clk symbol apiKey retries (Suc attempt))) \<and>
   (of_nat attempt = retries \<and>
    fetchStockPrice_try creg (clk attempt) symbol retries attempt (up attempt) = Throw e \<longrightarrow>
      fetchStockPrice_loop creg up clk symbol apiKey retries attempt =
        ([finnhub_request symbol apiKey], Throws e)) \<and>
   (retries < of_nat attempt \<longrightarrow>
      fetchStockPrice_loop creg up clk symbol apiKey retries attempt = ([], ReturnsUndefined)) \<and>
   (retries = of_nat n \<and>
    (\<forall>k \<le> n. \<exists>e'. fetchStockPrice_try creg (clk k) symbol retries k (up k) = Throw e') \<longrightarrow>
      fst (fetchStockPrice creg up clk symbol apiKey retries) =
        concat (map (\<lambda>k. [finnhub_request symbol apiKey, Sleep (500 * 2 ^ k)]) [0..<n])
          @ [finnhub_request symbol apiKey]) \<and>
   fetchIndicator_default reg up clk symbol apiKey = fetchIndicator reg up clk symbol apiKey 2 \<and>
   fetchStockPrice_default creg up clk symbol apiKey = fetchStockPrice creg up clk symbol apiKey 2 \<and>
   (fetchIndicator_try reg (clk 0) symbol 2 0 (up 0) = Return q \<longrightarrow>
      fetchIndicator_default reg up clk symbol apiKey = ([finnhub_request symbol apiKey], Returns q)) \<and>
   (fetchStockPrice_try creg (clk 0) symbol 2 0 (up 0) = Return q' \<longrightarrow>
      fetchStockPrice_default creg up clk symbol apiKey = ([finnhub_request symbol apiKey], Returns q')) \<and>
   (fetchIndicator_try reg (clk 0) symbol 2 0 (up 0) = Throw e0 \<and>
    fetchIndicator_try reg (clk 1) symbol 2 1 (up 1) = Throw e1 \<and>
    fetchIndicator_try reg (clk 2) symbol 2 2 (up 2) = Throw e2 \<longrightarrow>
      fetchIndicator_default reg up clk symbol apiKey =
        ([finnhub_request symbol apiKey, Sleep 500,
          finnhub_request symbol apiKey, Sleep 1000,
          finnhub_request symbol apiKey], Throws e2)) \<and>
   (fetchStockPrice_try creg (clk 0) symbol 2 0 (up 0) = Throw e0 \<and>
    fetchStockPrice_try creg (clk 1) symbol 2 1 (up 1) = Throw e1 \<and>
    fetchStockPrice_try creg (clk 2) symbol 2 2 (up 2) = Throw e2 \<longrightarrow>
      fetchStockPrice_default creg up clk symbol apiKey =
        ([finnhub_request symbol apiKey, Sleep 500,
          finnhub_request symbol apiKey, Sleep 1000,
          finnhub_request symbol apiKey], Throws e2))"
proof -
  have i1: "length (filter is_request (fst (fetchIndicator reg up clk symbol apiKey retries))) \<le> nat (\<lfloor>retries\<rfloor> + 1)"
    using fetchIndicator_loop_requests [of reg up clk symbol apiKey retries 0]
    by (simp add: fetchIndicator_def)
  have i2: "length (filter is_request (fst (fetchIndicator_default reg up clk symbol apiKey))) \<le> 3"
    using fetchIndicator_loop_requests [of reg up clk symbol apiKey 2 0]
    by (simp add: fetchIndicator_default_def fetchIndicator_def)
  have i3: "retries = of_nat n \<and>
    (\<forall>k \<le> n. \<exists>e'. fetchIndicator_try reg (clk k) symbol retries k (up k) = Throw e') \<longrightarrow>
      fst (fetchIndicator reg up clk symbol apiKey retries) =
        concat (map (\<lambda>k. [finnhub_request symbol apiKey, Sleep (500 * 2 ^ k)]) [0..<n])
          @ [finnhub_request symbol apiKey]"
    using fetchIndicator_loop_all_throw_trace [of retries n 0 reg clk symbol up apiKey]
    by (auto simp: fetchIndicator_def)
  have s1: "length (filter is_request (fst (fetchStockPrice creg up clk symbol apiKey retries))) \<le> nat (\<lfloor>retries\<rfloor> + 1)"
    using fetchStockPrice_loop_requests [of creg up clk symbol apiKey retries 0]
    by (simp add: fetchStockPrice_def)
  have s2: "length (filter is_request (fst (fetchStockPrice_default creg up clk symbol apiKey))) \<le> 3"
    using fetchStockPrice_loop_requests [of creg up clk symbol apiKey 2 0]
    by (simp add: fetchStockPrice_default_def fetchStockPrice_def)
  have s3: "retries = of_nat n \<and>
    (\<forall>k \<le> n. \<exists>e'. fetchStockPrice_try creg (clk k) symbol retries k (up k) = Throw e') \<longrightarrow>
      fst (fetchStockPrice creg up clk symbol apiKey retries) =
        concat (map (\<lambda>k. [finnhub_request symbol apiKey, Sleep (500 * 2 ^ k)]) [0..<n])
          @ [finnhub_request symbol apiKey]"
    using fetchStockPrice_loop_all_throw_trace [of retries n 0 creg clk symbol up apiKey]
    by (auto simp: fetchStockPrice_def)
  have di0: "fetchIndicator_default reg up clk symbol apiKey = fetchIndicator reg up clk symbol apiKey 2"
    by (simp add: fetchIndicator_default_def)
  have di1: "fetchIndicator_try reg (clk 0) symbol 2 0 (up 0) = Return q \<longrightarrow>
      fetchIndicator_default reg up clk symbol apiKey = ([finnhub_request symbol apiKey], Returns q)"
    by (simp add: fetchIndicator_default_def fetchIndicator_def fetchIndicator_loop_Return)
  have di2: "fetchIndicator_try reg (clk 0) symbol 2 0 (up 0) = Throw e0 \<and>
    fetchIndicator_try reg (clk 1) symbol 2 1 (up 1) = Throw e1 \<and>
    fetchIndicator_try reg (clk 2) symbol 2 2 (up 2) = Throw e2 \<longrightarrow>
      fetchIndicator_default reg up clk symbol apiKey =
        ([finnhub_request symbol apiKey, Sleep 500,
          finnhub_request symbol apiKey, Sleep 1000,
          finnhub_request symbol apiKey], Throws e2)"
  proof (intro impI, elim conjE)
    assume t0: "fetchIndicator_try reg (clk 0) symbol 2 0 (up 0) = Throw e0"
      and t1: "fetchIndicator_try reg (clk 1) symbol 2 1 (up 1) = Throw e1"
      and t2: "fetchIndicator_try reg (clk 2) symbol 2 2 (up 2) = Throw e2"
    have l0: "fetchIndicator_loop reg up clk symbol apiKey 2 0 =
        prepend [finnhub_request symbol apiKey, Sleep (500 * 2 ^ 0)]
          (fetchIndicator_loop reg up clk symbol apiKey 2 (Suc 0))"
      by (rule fetchIndicator_loop_Throw_retry) (simp, rule t0)
    have l1: "fetchIndicator_loop reg up clk symbol apiKey 2 (Suc 0) =
        prepend [finnhub_request symbol apiKey, Sleep (500 * 2 ^ Suc 0)]
          (fetchIndicator_loop reg up clk symbol apiKey 2 (Suc (Suc 0)))"
      by (rule fetchIndicator_loop_Throw_retry) (simp, use t1 in simp)
    have l2: "fetchIndicator_loop reg up clk symbol apiKey 2 (Suc (Suc 0)) =
        ([finnhub_request symbol apiKey], Throws e2)"
      by (rule fetchIndicator_loop_Throw_last) (simp, use t2 in \<open>simp add: numeral_2_eq_2\<close>)
    show "fetchIndicator_default reg up clk symbol apiKey =
        ([finnhub_request symbol apiKey, Sleep 500,
          finnhub_request symbol apiKey, Sleep 1000,
          finnhub_request symbol apiKey], Throws e2)"
      by (simp add: fetchIndicator_default_def fetchIndicator_def l0 l1 l2)
  qed
  have ds0: "fetchStockPrice_default creg up clk symbol apiKey = fetchStockPrice creg up clk symbol apiKey 2"
    by (simp add: fetchStockPrice_default_def)
  have ds1: "fetchStockPrice_try creg (clk 0) symbol 2 0 (up 0) = Return q' \<longrightarrow>
      fetchStockPrice_default creg up clk symbol apiKey = ([finnhub_request symbol apiKey], Returns q')"
    by (simp add: fetchStockPrice_default_def fetchStockPrice_def fetchStockPrice_loop_Return)
  have ds2: "fetchStockPrice_try creg (clk 0) symbol 2 0 (up 0) = Throw e0 \<and>
    fetchStockPrice_try creg (clk 1) symbol 2 1 (up 1) = Throw e1 \<and>
    fetchStockPrice_try creg (clk 2) symbol 2 2 (up 2) = Throw e2 \<longrightarrow>
      fetchStockPrice_default creg up clk symbol apiKey =
        ([finnhub_request symbol apiKey, Sleep 500,
          finnhub_request symbol apiKey, Sleep 1000,
          finnhub_request symbol apiKey], Throws e2)"
  proof (intro impI, elim conjE)
    assume t0: "fetchStockPrice_try creg (clk 0) symbol 2 0 (up 0) = Throw e0"
      and t1: "fetchStockPrice_try creg (clk 1) symbol 2 1 (up 1) = Throw e1"
      and t2: "fetchStockPrice_try creg (clk 2) symbol 2 2 (up 2) = Throw e2"
    have l0: "fetchStockPrice_loop creg up clk symbol apiKey 2 0 =
        prepend [finnhub_request symbol apiKey, Sleep (500 * 2 ^ 0)]
          (fetchStockPrice_loop creg up clk symbol apiKey 2 (Suc 0))"
      by (rule fetchStockPrice_loop_Throw_retry) (simp, rule t0)
    have l1: "fetchStockPrice_loop creg up clk symbol apiKey 2 (Suc 0) =
        prepend [finnhub_request symbol apiKey, Sleep (500 * 2 ^ Suc 0)]
          (fetchStockPrice_loop creg up clk symbol apiKey 2 (Suc (Suc 0)))"
      by (rule fetchStockPrice_loop_Throw_retry) (simp, use t1 in simp)
    have l2: "fetchStockPrice_loop creg up clk symbol apiKey 2 (Suc (Suc 0)) =
        ([finnhub_request symbol apiKey], Throws e2)"
      by (rule fetchStockPrice_loop_Throw_last) (simp, use t2 in \<open>simp add: numeral_2_eq_2\<close>)
    show "fetchStockPrice_default creg up clk symbol apiKey =
        ([finnhub_request symbol apiKey, Sleep 500,
          finnhub_request symbol apiKey, Sleep 1000,
          finnhub_request symbol apiKey], Throws e2)"
      by (simp add: fetchStockPrice_default_def fetchStockPrice_def l0 l1 l2)
  qed
  have st1: "of_nat attempt < retries \<and>
    fetchIndicator_try reg (clk attempt) symbol retries attempt (up attempt) = Throw e \<longrightarrow>
      fetchIndicator_loop reg up clk symbol apiKey retries attempt =
        prepend [finnhub_request symbol apiKey, Sleep (500 * 2 ^ attempt)]
          (fetchIndicator_loop reg up clk symbol apiKey retries (Suc attempt))"
    by (simp add: fetchIndicator_loop_Throw_retry)
  have st2: "of_nat attempt = retries \<and>
    fetchIndicator_try reg (clk attempt) symbol retries attempt (up attempt) = Throw e \<longrightarrow>
      fetchIndicator_loop reg up clk symbol apiKey retries attempt =
        ([finnhub_request symbol apiKey], Throws e)"
    by (simp add: fetchIndicator_loop_Throw_last)
  have st3: "retries < of_nat attempt \<longrightarrow>
      fetchIndicator_loop reg up clk symbol apiKey retries attempt = ([], ReturnsUndefined)"
    by (simp add: fetchIndicator_loop_exit)
  have st4: "of_nat attempt < retries \<and>
    fetchStockPrice_try creg (clk attempt) symbol retries attempt (up attempt) = Throw e \<longrightarrow>
      fetchStockPrice_loop creg up clk symbol apiKey retries attempt =
        prepend [finnhub_request symbol apiKey, Sleep (500 * 2 ^ attempt)]
          (fetchStockPrice_loop creg up clk symbol apiKey retries (Suc attempt))"
    by (simp add: fetchStockPrice_loop_Throw_retry)
  have st5: "of_nat attempt = retries \<and>
    fetchStockPrice_try creg (clk attempt) symbol retries attempt (up attempt) = Throw e \<longrightarrow>
      fetchStockPrice_loop creg up clk symbol apiKey retries attempt =
        ([finnhub_request symbol apiKey], Throws e)"
    by (simp add: fetchStockPrice_loop_Throw_last)
  have st6: "retries < of_nat attempt \<longrightarrow>
      fetchStockPrice_loop creg up clk symbol apiKey retries attempt = ([], ReturnsUndefined)"
    by (simp add: fetchStockPrice_loop_exit)
  show ?thesis
    by (intro conjI i1 i2 st1 st2 st3 i3 s1 s2 st4 st5 st6 s3 di0 ds0 di1 ds1 di2 ds2)
qed

theorem attempts_and_exponential_backoff_witness:
  "fetchIndicator_default INDICATORS (\<lambda>k. status_reply 503 ''busy'') sample_clock ''^GSPC'' ''key'' =
     ([finnhub_request ''^GSPC'' ''key'', Sleep 500,
       finnhub_request ''^GSPC'' ''key'', Sleep 1000,
       finnhub_request ''^GSPC'' ''key''],
      Throws (JsError ''API request failed for ^GSPC: 503 - busy'')) \<and>
   fetchStockPrice_default COMPANIES failing_upstream sample_clock ''MSFT'' ''key'' =
     ([finnhub_request ''MSFT'' ''key'', Sleep 500,
       finnhub_request ''MSFT'' ''key'', Sleep 1000,
       finnhub_request ''MSFT'' ''key''],
      Throws (JsError ''API request failed for MSFT: 503 - last'')) \<and>
   fetchStockPrice_default COMPANIES (\<lambda>k. quote_reply 120 150 100) sample_clock ''MSFT'' ''key'' =
     ([finnhub_request ''MSFT'' ''key''],
      Returns \<lparr>q_symbol = ''MSFT'', q_name = Some ''Microsoft Corporation'',
        q_category = Some ''Technology'', q_description = None,
        q_val = Some (Num 150), q_previousClose = Some (Num 100), q_change = Some (Num 50),
        q_changePercent = Some (Num 50), q_high = Some (Num 150), q_low = Some (Num 100),
        q_error = None, q_timestamp = sample_clock 0\<rparr>) \<and>
   fst (fetchStockPrice COMPANIES (\<lambda>k. status_reply 503 ''busy'') sample_clock ''MSFT'' ''key'' 3) =
     [finnhub_request ''MSFT'' ''key'', Sleep 500,
      finnhub_request ''MSFT'' ''key'', Sleep 1000,
      finnhub_request ''MSFT'' ''key'', Sleep 2000,
      finnhub_request ''MSFT'' ''key'']"
proof -
  have tI: "\<And>k. fetchIndicator_try INDICATORS (sample_clock k) ''^GSPC'' 2 k (status_reply 503 ''busy'')
      = Throw (JsError ''API request failed for ^GSPC: 503 - busy'')"
    by (simp add: fetchIndicator_try_def status_reply_def ok_def show_nat_samples)
  have tS: "\<And>k. fetchStockPrice_try COMPANIES (sample_clock k) ''MSFT'' 3 k (status_reply 503 ''busy'')
      = Throw (JsError ''API request failed for MSFT: 503 - busy'')"
    by (simp add: fetchStockPrice_try_def status_reply_def ok_def show_nat_samples)
  have f0: "fetchStockPrice_try COMPANIES (sample_clock 0) ''MSFT'' 2 0 (failing_upstream 0)
      = Throw (JsError ''fetch failed'')"
    by (simp add: fetchStockPrice_try_def failing_upstream_def down_reply_def)
  have f1: "fetchStockPrice_try COMPANIES (sample_clock 1) ''MSFT'' 2 1 (failing_upstream 1)
      = Throw (JsError ''API request failed for MSFT: 500 - first'')"
    by (simp add: fetchStockPrice_try_def failing_upstream_def status_reply_def ok_def show_nat_samples)
  have f2: "fetchStockPrice_try COMPANIES (sample_clock 2) ''MSFT'' 2 2 (failing_upstream 2)
      = Throw (JsError ''API request failed for MSFT: 503 - last'')"
    by (simp add: fetchStockPrice_try_def failing_upstream_def status_reply_def ok_def show_nat_samples)
  have g0: "fetchStockPrice_try COMPANIES (sample_clock 0) ''MSFT'' 2 0 (quote_reply 120 150 100)
      = Return \<lparr>q_symbol = ''MSFT'', q_name = Some ''Microsoft Corporation'',
        q_category = Some ''Technology'', q_description = None,
        q_val = Some (Num 150), q_previousClose = Some (Num 100), q_change = Some (Num 50),
        q_changePercent = Some (Num 50), q_high = Some (Num 150), q_low = Some (Num 100),
        q_error = None, q_timestamp = sample_clock 0\<rparr>"
    by (simp add: fetchStockPrice_try_def quote_reply_def ok_def COMPANIES_def)
  note a = attempts_and_exponential_backoff [where reg = INDICATORS and up = "\<lambda>k. status_reply 503 ''busy''"
      and clk = sample_clock and symbol = "''^GSPC''" and apiKey = "''key''"
      and ?e0.0 = "JsError ''API request failed for ^GSPC: 503 - busy''"
      and ?e1.0 = "JsError ''API request failed for ^GSPC: 503 - busy''"
      and ?e2.0 = "JsError ''API request failed for ^GSPC: 503 - busy''", THEN conjunct2, THEN conjunct2, THEN conjunct2, THEN conjunct2, THEN conjunct2, THEN conjunct2, THEN conjunct2, THEN conjunct2, THEN conjunct2, THEN conjunct2, THEN conjunct2, THEN conjunct2, THEN conjunct2, THEN conjunct2, THEN conjunct2, THEN conjunct2, THEN conjunct1]
  note b = attempts_and_exponential_backoff [where up = "\<lambda>k. status_reply 503 ''busy''"
      and clk = sample_clock and symbol = "''MSFT''" and apiKey = "''key''" and retries = 3
      and creg = COMPANIES and n = 3, THEN conjunct2, THEN conjunct2, THEN conjunct2, THEN conjunct2, THEN conjunct2, THEN conjunct2, THEN conjunct2, THEN conjunct2, THEN conjunct2, THEN conjunct2, THEN conjunct2, THEN conjunct1]
  note c = attempts_and_exponential_backoff [where up = failing_upstream
      and clk = sample_clock and symbol = "''MSFT''" and apiKey = "''key''" and creg = COMPANIES
      and ?e0.0 = "JsError ''fetch failed''"
      and ?e1.0 = "JsError ''API request failed for MSFT: 500 - first''"
      and ?e2.0 = "JsError ''API request failed for MSFT: 503 - last''", THEN conjunct2, THEN conjunct2, THEN conjunct2, THEN conjunct2, THEN conjunct2, THEN conjunct2, THEN conjunct2, THEN conjunct2, THEN conjunct2, THEN conjunct2, THEN conjunct2, THEN conjunct2, THEN conjunct2, THEN conjunct2, THEN conjunct2, THEN conjunct2, THEN conjunct2]
  note d = attempts_and_exponential_backoff [where up = "\<lambda>k. quote_reply 120 150 100"
      and clk = sample_clock and symbol = "''MSFT''" and apiKey = "''key''" and creg = COMPANIES, THEN conjunct2, THEN conjunct2, THEN conjunct2, THEN conjunct2, THEN conjunct2, THEN conjunct2, THEN conjunct2, THEN conjunct2, THEN conjunct2, THEN conjunct2, THEN conjunct2, THEN conjunct2, THEN conjunct2, THEN conjunct2, THEN conjunct2, THEN conjunct1]
  have up4: "[0..<3] = [0, Suc 0, Suc (Suc 0)]"
    by (simp add: upt_conv_Cons)
  from a tI have w1: "fetchIndicator_default INDICATORS (\<lambda>k. status_reply 503 ''busy'') sample_clock ''^GSPC'' ''key'' =
     ([finnhub_request ''^GSPC'' ''key'', Sleep 500,
       finnhub_request ''^GSPC'' ''key'', Sleep 1000,
       finnhub_request ''^GSPC'' ''key''],
      Throws (JsError ''API request failed for ^GSPC: 503 - busy''))"
    by simp
  from c f0 f1 f2 have w2: "fetchStockPrice_default COMPANIES failing_upstream sample_clock ''MSFT'' ''key'' =
     ([finnhub_request ''MSFT'' ''key'', Sleep 500,
       finnhub_request ''MSFT'' ''key'', Sleep 1000,
       finnhub_request ''MSFT'' ''key''],
      Throws (JsError ''API request failed for MSFT: 503 - last''))"
    by simp
  from d g0 have w3: "fetchStockPrice_default COMPANIES (\<lambda>k. quote_reply 120 150 100) sample_clock ''MSFT'' ''key'' =
     ([finnhub_request ''MSFT'' ''key''],
      Returns \<lparr>q_symbol = ''MSFT'', q_name = Some ''Microsoft Corporation'',
        q_category = Some ''Technology'', q_description = None,
        q_val = Some (Num 150), q_previousClose = Some (Num 100), q_change = Some (Num 50),
        q_changePercent = Some (Num 50), q_high = Some (Num 150), q_low = Some (Num 100),
        q_error = None, q_timestamp = sample_clock 0\<rparr>)"
    by simp
  from b tS have w4: "fst (fetchStockPrice COMPANIES (\<lambda>k. status_reply 503 ''busy'') sample_clock ''MSFT'' ''key'' 3) =
     [finnhub_request ''MSFT'' ''key'', Sleep 500,
      finnhub_request ''MSFT'' ''key'', Sleep 1000,
      finnhub_request ''MSFT'' ''key'', Sleep 2000,
      finnhub_request ''MSFT'' ''key'']"
    by (simp add: up4)
  from w1 w2 w3 w4 show ?thesis by (intro conjI)
qed




text \<open>
  C6. When the upstream answers attempt \<open>k\<close> with status 429 and attempts remain
  (\<open>k < retries\<close>), the fetcher waits \<open>1000 * (k + 1)\<close> ms and goes on with attempt
  \<open>k + 1\<close>, whose outcome decides the result; only on the last attempt does a 429 become
  the thrown error. With the default two retries, 429 on attempts 0 and 1 and a good
  quote on attempt 2 give that quote after exactly the waits 1000 and 2000.
\<close>

theorem rate_limit_waits_and_retries:
  "(rate_limited (up attempt) \<and> of_nat attempt < retries \<longrightarrow>
      fetchIndicator_loop reg up clk symbol apiKey retries attempt =
        prepend [finnhub_request symbol apiKey, Sleep (1000 * (attempt + 1))]
          (fetchIndicator_loop reg up clk symbol apiKey retries (Suc attempt)) \<and>
      fetchStockPrice_loop creg up clk symbol apiKey retries attempt =
        prepend [finnhub_request symbol apiKey, Sleep (1000 * (attempt + 1))]
          (fetchStockPrice_loop creg up clk symbol apiKey retries (Suc attempt))) \<and>
   (rate_limited (up attempt) \<and> of_nat attempt = retries \<longrightarrow>
      (\<exists>errorText. fetchIndicator_loop reg up clk symbol apiKey retries attempt =
         ([finnhub_request symbol apiKey],
          Throws (JsError (''API request failed for '' @ symbol @ '': 429 - '' @ errorText)))) \<and>
      (\<exists>errorText. fetchStockPrice_loop creg up clk symbol apiKey retries attempt =
         ([finnhub_request symbol apiKey],
          Throws (JsError (''API request failed for '' @ symbol @ '': 429 - '' @ errorText))))) \<and>
   (rate_limited (up 0) \<and> rate_limited (up 1) \<and>
    fetchIndicator_try reg (clk 2) symbol 2 2 (up 2) = Return q \<longrightarrow>
      fetchIndicator_default reg up clk symbol apiKey =
        ([finnhub_request symbol apiKey, Sleep 1000,
          finnhub_request symbol apiKey, Sleep 2000,
          finnhub_request symbol apiKey], Returns q)) \<and>
   (rate_limited (up 0) \<and> rate_limited (up 1) \<and>
    fetchStockPrice_try creg (clk 2) symbol 2 2 (up 2) = Return q' \<longrightarrow>
      fetchStockPrice_default creg up clk symbol apiKey =
        ([finnhub_request symbol apiKey, Sleep 1000,
          finnhub_request symbol apiKey, Sleep 2000,
          finnhub_request symbol apiKey], Returns q'))"
proof (intro conjI impI; (elim conjE)?)
  assume rl: "rate_limited (up attempt)" and lt: "of_nat attempt < retries"
  from fetchIndicator_try_rate_limited [OF rl lt]
  show "fetchIndicator_loop reg up clk symbol apiKey retries attempt =
        prepend [finnhub_request symbol apiKey, Sleep (1000 * (attempt + 1))]
          (fetchIndicator_loop reg up clk symbol apiKey retries (Suc attempt))"
    by (rule fetchIndicator_loop_Continue)
  from fetchStockPrice_try_rate_limited [OF rl lt]
  show "fetchStockPrice_loop creg up clk symbol apiKey retries attempt =
        prepend [finnhub_request symbol apiKey, Sleep (1000 * (attempt + 1))]
          (fetchStockPrice_loop creg up clk symbol apiKey retries (Suc attempt))"
    by (rule fetchStockPrice_loop_Continue)
next
  assume rl: "rate_limited (up attempt)" and eq: "of_nat attempt = retries"
  then have nlt: "\<not> of_nat attempt < retries" by simp
  from fetchIndicator_loop_Throw_last [of attempt retries reg clk symbol up _ apiKey, OF eq
      fetchIndicator_try_rate_limited_last [OF rl nlt, of reg "clk attempt" symbol]]
  show "\<exists>errorText. fetchIndicator_loop reg up clk symbol apiKey retries attempt =
         ([finnhub_request symbol apiKey],
          Throws (JsError (''API request failed for '' @ symbol @ '': 429 - '' @ errorText)))"
    by blast
  from fetchStockPrice_loop_Throw_last [of attempt retries creg clk symbol up _ apiKey, OF eq
      fetchStockPrice_try_rate_limited_last [OF rl nlt, of creg "clk attempt" symbol]]
  show "\<exists>errorText. fetchStockPrice_loop creg up clk symbol apiKey retries attempt =
         ([finnhub_request symbol apiKey],
          Throws (JsError (''API request failed for '' @ symbol @ '': 429 - '' @ errorText)))"
    by blast
next
  assume r0: "rate_limited (up 0)" and r1: "rate_limited (up 1)"
    and r2: "fetchIndicator_try reg (clk 2) symbol 2 2 (up 2) = Return q"
  have t0: "fetchIndicator_try reg (clk 0) symbol 2 0 (up 0) = Continue 1000"
    using fetchIndicator_try_rate_limited [OF r0, of 0 2] by simp
  have t1: "fetchIndicator_try reg (clk (Suc 0)) symbol 2 (Suc 0) (up (Suc 0)) = Continue 2000"
    using fetchIndicator_try_rate_limited [of "up 1" 1 2] r1 by simp
  have t2: "fetchIndicator_try reg (clk (Suc (Suc 0))) symbol 2 (Suc (Suc 0)) (up (Suc (Suc 0))) = Return q"
    using r2 by (simp add: numeral_2_eq_2)
  show "fetchIndicator_default reg up clk symbol apiKey =
        ([finnhub_request symbol apiKey, Sleep 1000,
          finnhub_request symbol apiKey, Sleep 2000,
          finnhub_request symbol apiKey], Returns q)"
  proof -
    have l0: "fetchIndicator_loop reg up clk symbol apiKey 2 0 =
        prepend [finnhub_request symbol apiKey, Sleep 1000]
          (fetchIndicator_loop reg up clk symbol apiKey 2 (Suc 0))"
      by (rule fetchIndicator_loop_Continue) (rule t0)
    have l1: "fetchIndicator_loop reg up clk symbol apiKey 2 (Suc 0) =
        prepend [finnhub_request symbol apiKey, Sleep 2000]
          (fetchIndicator_loop reg up clk symbol apiKey 2 (Suc (Suc 0)))"
      by (rule fetchIndicator_loop_Continue) (rule t1)
    have l2: "fetchIndicator_loop reg up clk symbol apiKey 2 (Suc (Suc 0)) =
        ([finnhub_request symbol apiKey], Returns q)"
      by (rule fetchIndicator_loop_Return) (simp, rule t2)
    show ?thesis
      by (simp add: fetchIndicator_default_def fetchIndicator_def l0 l1 l2)
  qed
next
  assume r0: "rate_limited (up 0)" and r1: "rate_limited (up 1)"
    and r2: "fetchStockPrice_try creg (clk 2) symbol 2 2 (up 2) = Return q'"
  have t0: "fetchStockPrice_try creg (clk 0) symbol 2 0 (up 0) = Continue 1000"
    using fetchStockPrice_try_rate_limited [OF r0, of 0 2] by simp
  have t1: "fetchStockPrice_try creg (clk (Suc 0)) symbol 2 (Suc 0) (up (Suc 0)) = Continue 2000"
    using fetchStockPrice_try_rate_limited [of "up 1" 1 2] r1 by simp
  have t2: "fetchStockPrice_try creg (clk (Suc (Suc 0))) symbol 2 (Suc (Suc 0)) (up (Suc (Suc 0))) = Return q'"
    using r2 by (simp add: numeral_2_eq_2)
  show "fetchStockPrice_default creg up clk symbol apiKey =
        ([finnhub_request symbol apiKey, Sleep 1000,
          finnhub_request symbol apiKey, Sleep 2000,
          finnhub_request symbol apiKey], Returns q')"
  proof -
    have l0: "fetchStockPrice_loop creg up clk symbol apiKey 2 0 =
        prepend [finnhub_request symbol apiKey, Sleep 1000]
          (fetchStockPrice_loop creg up clk symbol apiKey 2 (Suc 0))"
      by (rule fetchStockPrice_loop_Continue) (rule t0)
    have l1: "fetchStockPrice_loop creg up clk symbol apiKey 2 (Suc 0) =
        prepend [finnhub_request symbol apiKey, Sleep 2000]
          (fetchStockPrice_loop creg up clk symbol apiKey 2 (Suc (Suc 0)))"
      by (rule fetchStockPrice_loop_Continue) (rule t1)
    have l2: "fetchStockPrice_loop creg up clk symbol apiKey 2 (Suc (Suc 0)) =
        ([finnhub_request symbol apiKey], Returns q')"
      by (rule fetchStockPrice_loop_Return) (simp, rule t2)
    show ?thesis
      by (simp add: fetchStockPrice_default_def fetchStockPrice_def l0 l1 l2)
  qed
qed

theorem rate_limit_waits_and_retries_witness:
  "rate_limited (limited_then_ok 0) \<and> rate_limited (limited_then_ok 1) \<and>
   fetchIndicator_default INDICATORS limited_then_ok sample_clock ''^VIX'' ''key'' =
     ([finnhub_request ''^VIX'' ''key'', Sleep 1000,
       finnhub_request ''^VIX'' ''key'', Sleep 2000,
       finnhub_request ''^VIX'' ''key''],
      Returns \<lparr>q_symbol = ''^VIX'', q_name = Some ''CBOE Volatility Index'',
        q_category = Some ''Volatility'', q_description = Some ''Market Fear Gauge'',
        q_val = Some (Num 150), q_previousClose = Some (Num 100), q_change = Some (Num 50),
        q_changePercent = Some (Num 50), q_high = Some (Num 150), q_low = Some (Num 100),
        q_error = None, q_timestamp = sample_clock 2\<rparr>)"
proof -
  have r0: "rate_limited (limited_then_ok 0)" and r1: "rate_limited (limited_then_ok 1)"
    by (simp_all add: limited_then_ok_def status_reply_def)
  have r2: "fetchIndicator_try INDICATORS (sample_clock 2) ''^VIX'' 2 2 (limited_then_ok 2) =
      Return \<lparr>q_symbol = ''^VIX'', q_name = Some ''CBOE Volatility Index'',
        q_category = Some ''Volatility'', q_description = Some ''Market Fear Gauge'',
        q_val = Some (Num 150), q_previousClose = Some (Num 100), q_change = Some (Num 50),
        q_changePercent = Some (Num 50), q_high = Some (Num 150), q_low = Some (Num 100),
        q_error = None, q_timestamp = sample_clock 2\<rparr>"
    by (simp add: fetchIndicator_try_def limited_then_ok_def quote_reply_def ok_def INDICATORS_def)
  from rate_limit_waits_and_retries [where up = limited_then_ok and attempt = 0 and retries = 2
      and reg = INDICATORS and clk = sample_clock and symbol = "''^VIX''" and apiKey = "''key''"
      and creg = COMPANIES] r0 r1 r2
  show ?thesis by simp
qed

text \<open>
  C7. If every attempt of a fetcher call fails (none of the attempts \<open>0..retries\<close>
  returns a quote, \<open>retries\<close> being a number of attempts), the call throws, and the error
  thrown is the one the last attempt (number \<open>retries\<close>) raised; indeed whenever the call
  throws, it throws the error of attempt \<open>retries\<close>. What the fetcher returns is never a
  failure object: it has no \<open>error\<close> and a non-null value. The failure object is built
  by the handler's \<open>.catch\<close> callback from the thrown error's message and the symbol's
  registry entry.
\<close>

theorem exhausted_retries_throw_last_error:
  "(retries = of_nat n \<and>
    (\<forall>k \<le> n. \<forall>q. fetchIndicator_try reg (clk k) symbol retries k (up k) \<noteq> Return q) \<longrightarrow>
      (\<exists>e. fetchIndicator_try reg (clk n) symbol retries n (up n) = Throw e \<and>
           snd (fetchIndicator reg up clk symbol apiKey retries) = Throws e)) \<and>
   (snd (fetchIndicator reg up clk symbol apiKey retries) = Throws e1 \<longrightarrow>
      (\<exists>m. retries = of_nat m \<and>
           fetchIndicator_try reg (clk m) symbol retries m (up m) = Throw e1)) \<and>
   (snd (fetchIndicator reg up clk symbol apiKey retries) = Returns q1 \<longrightarrow>
      q_error q1 = None \<and> q_val q1 \<noteq> None) \<and>
   (snd (fetchIndicator_default reg (w_upstream w symbol) (w_clock w symbol) symbol apiKey) = Throws e2 \<and>
    map_of reg symbol = Some info \<longrightarrow>
      indicatorPromise reg w apiKey ts symbol = Inr (Some (indicator_failure symbol info e2 ts)) \<and>
      q_error (indicator_failure symbol info e2 ts) = Some (message e2) \<and>
      q_val (indicator_failure symbol info e2 ts) = None) \<and>
   (retries = of_nat n \<and>
    (\<forall>k \<le> n. \<forall>q. fetchStockPrice_try creg (clk k) symbol retries k (up k) \<noteq> Return q) \<longrightarrow>
      (\<exists>e. fetchStockPrice_try creg (clk n) symbol retries n (up n) = Throw e \<and>
           snd (fetchStockPrice creg up clk symbol apiKey retries) = Throws e)) \<and>
   (snd (fetchStockPrice creg up clk symbol apiKey retries) = Throws e3 \<longrightarrow>
      (\<exists>m. retries = of_nat m \<and>
           fetchStockPrice_try creg (clk m) symbol retries m (up m) = Throw e3)) \<and>
   (snd (fetchStockPrice creg up clk symbol apiKey retries) = Returns q2 \<longrightarrow>
      q_error q2 = None \<and> q_val q2 \<noteq> None) \<and>
   (snd (fetchStockPrice_default creg (w_upstream w symbol) (w_clock w symbol) symbol apiKey) = Throws e4 \<and>
    map_of creg symbol = Some cinfo \<longrightarrow>
      stockPromise creg w apiKey ts symbol = Inr (Some (stock_failure symbol cinfo e4 ts)) \<and>
      q_error (stock_failure symbol cinfo e4 ts) = Some (message e4) \<and>
      q_val (stock_failure symbol cinfo e4 ts) = None)"
proof -
  have i1: "retries = of_nat n \<and>
    (\<forall>k \<le> n. \<forall>q. fetchIndicator_try reg (clk k) symbol retries k (up k) \<noteq> Return q) \<longrightarrow>
      (\<exists>e. fetchIndicator_try reg (clk n) symbol retries n (up n) = Throw e \<and>
           snd (fetchIndicator reg up clk symbol apiKey retries) = Throws e)"
  proof (intro impI, elim conjE)
    assume n: "retries = of_nat n"
      and fail: "\<forall>k \<le> n. \<forall>q. fetchIndicator_try reg (clk k) symbol retries k (up k) \<noteq> Return q"
    have "\<And>k q. 0 \<le> k \<Longrightarrow> k \<le> n \<Longrightarrow>
        fetchIndicator_try reg (clk k) symbol retries k (up k) \<noteq> Return q"
      using fail by simp
    from fetchIndicator_loop_all_fail [of retries n 0 reg clk symbol up apiKey, OF n _ this]
    show "\<exists>e. fetchIndicator_try reg (clk n) symbol retries n (up n) = Throw e \<and>
           snd (fetchIndicator reg up clk symbol apiKey retries) = Throws e"
      by (simp add: fetchIndicator_def)
  qed
  have i2: "snd (fetchIndicator reg up clk symbol apiKey retries) = Throws e1 \<longrightarrow>
      (\<exists>m. retries = of_nat m \<and>
           fetchIndicator_try reg (clk m) symbol retries m (up m) = Throw e1)"
    using fetchIndicator_loop_Throws [of reg up clk symbol apiKey retries 0 e1]
    unfolding fetchIndicator_def by blast
  have i3: "snd (fetchIndicator reg up clk symbol apiKey retries) = Returns q1 \<longrightarrow>
      q_error q1 = None \<and> q_val q1 \<noteq> None"
  proof
    assume "snd (fetchIndicator reg up clk symbol apiKey retries) = Returns q1"
    then obtain k where "fetchIndicator_try reg (clk k) symbol retries k (up k) = Return q1"
      using fetchIndicator_loop_Returns [of reg up clk symbol apiKey retries 0 q1]
      unfolding fetchIndicator_def by blast
    then show "q_error q1 = None \<and> q_val q1 \<noteq> None"
      using fetchIndicator_try_Return(1,2) by blast
  qed
  have i4: "snd (fetchIndicator_default reg (w_upstream w symbol) (w_clock w symbol) symbol apiKey) = Throws e2 \<and>
    map_of reg symbol = Some info \<longrightarrow>
      indicatorPromise reg w apiKey ts symbol = Inr (Some (indicator_failure symbol info e2 ts)) \<and>
      q_error (indicator_failure symbol info e2 ts) = Some (message e2) \<and>
      q_val (indicator_failure symbol info e2 ts) = None"
    by (simp add: indicatorPromise_def indicator_failure_def)
  have s1: "retries = of_nat n \<and>
    (\<forall>k \<le> n. \<forall>q. fetchStockPrice_try creg (clk k) symbol retries k (up k) \<noteq> Return q) \<longrightarrow>
      (\<exists>e. fetchStockPrice_try creg (clk n) symbol retries n (up n) = Throw e \<and>
           snd (fetchStockPrice creg up clk symbol apiKey retries) = Throws e)"
  proof (intro impI, elim conjE)
    assume n: "retries = of_nat n"
      and fail: "\<forall>k \<le> n. \<forall>q. fetchStockPrice_try creg (clk k) symbol retries k (up k) \<noteq> Return q"
    have "\<And>k q. 0 \<le> k \<Longrightarrow> k \<le> n \<Longrightarrow>
        fetchStockPrice_try creg (clk k) symbol retries k (up k) \<noteq> Return q"
      using fail by simp
    from fetchStockPrice_loop_all_fail [of retries n 0 creg clk symbol up apiKey, OF n _ this]
    show "\<exists>e. fetchStockPrice_try creg (clk n) symbol retries n (up n) = Throw e \<and>
           snd (fetchStockPrice creg up clk symbol apiKey retries) = Throws e"
      by (simp add: fetchStockPrice_def)
  qed
  have s2: "snd (fetchStockPrice creg up clk symbol apiKey retries) = Throws e3 \<longrightarrow>
      (\<exists>m. retries = of_nat m \<and>
           fetchStockPrice_try creg (clk m) symbol retries m (up m) = Throw e3)"
    using fetchStockPrice_loop_Throws [of creg up clk symbol apiKey retries 0 e3]
    unfolding fetchStockPrice_def by blast
  have s3: "snd (fetchStockPrice creg up clk symbol apiKey retries) = Returns q2 \<longrightarrow>
      q_error q2 = None \<and> q_val q2 \<noteq> None"
  proof
    assume "snd (fetchStockPrice creg up clk symbol apiKey retries) = Returns q2"
    then obtain k where "fetchStockPrice_try creg (clk k) symbol retries k (up k) = Return q2"
      using fetchStockPrice_loop_Returns [of creg up clk symbol apiKey retries 0 q2]
      unfolding fetchStockPrice_def by blast
    then show "q_error q2 = None \<and> q_val q2 \<noteq> None"
      using fetchStockPrice_try_Return(1,2) by blast
  qed
  have s4: "snd (fetchStockPrice_default creg (w_upstream w symbol) (w_clock w symbol) symbol apiKey) = Throws e4 \<and>
    map_of creg symbol = Some cinfo \<longrightarrow>
      stockPromise creg w apiKey ts symbol = Inr (Some (stock_failure symbol cinfo e4 ts)) \<and>
      q_error (stock_failure symbol cinfo e4 ts) = Some (message e4) \<and>
      q_val (stock_failure symbol cinfo e4 ts) = None"
    by (simp add: stockPromise_def stock_failure_def)
  show ?thesis
    by (intro conjI i1 i2 i3 i4 s1 s2 s3 s4)
qed

theorem exhausted_retries_throw_last_error_witness:
  "fetchIndicator_try INDICATORS (sample_clock 0) ''^TNX'' 2 0 (failing_upstream 0) = Throw (JsError ''fetch failed'') \<and>
   fetchIndicator_try INDICATORS (sample_clock 1) ''^TNX'' 2 1 (failing_upstream 1)
     = Throw (JsError ''API request failed for ^TNX: 500 - first'') \<and>
   fetchIndicator_try INDICATORS (sample_clock 2) ''^TNX'' 2 2 (failing_upstream 2)
     = Throw (JsError ''API request failed for ^TNX: 503 - last'') \<and>
   snd (fetchIndicator INDICATORS failing_upstream sample_clock ''^TNX'' ''key'' 2)
     = Throws (JsError ''API request failed for ^TNX: 503 - last'')"
proof -
  have t0: "fetchIndicator_try INDICATORS (sample_clock 0) ''^TNX'' 2 0 (failing_upstream 0) = Throw (JsError ''fetch failed'')"
    by (simp add: fetchIndicator_try_def failing_upstream_def down_reply_def)
  have t1: "fetchIndicator_try INDICATORS (sample_clock 1) ''^TNX'' 2 1 (failing_upstream 1)
     = Throw (JsError ''API request failed for ^TNX: 500 - first'')"
    by (simp add: fetchIndicator_try_def failing_upstream_def status_reply_def ok_def show_nat_samples)
  have t2: "fetchIndicator_try INDICATORS (sample_clock 2) ''^TNX'' 2 2 (failing_upstream 2)
     = Throw (JsError ''API request failed for ^TNX: 503 - last'')"
    by (simp add: fetchIndicator_try_def failing_upstream_def status_reply_def ok_def show_nat_samples)
  have all: "\<forall>k \<le> 2. \<forall>q. fetchIndicator_try INDICATORS (sample_clock k) ''^TNX'' 2 k (failing_upstream k) \<noteq> Return q"
  proof (intro allI impI)
    fix k :: nat and q
    assume "k \<le> 2"
    then have "k = 0 \<or> k = 1 \<or> k = 2" by arith
    then show "fetchIndicator_try INDICATORS (sample_clock k) ''^TNX'' 2 k (failing_upstream k) \<noteq> Return q"
      using t0 t1 t2 by (elim disjE) simp_all
  qed
  have two: "(2::rat) = of_nat 2" by simp
  from exhausted_retries_throw_last_error [where retries = 2 and n = 2 and reg = INDICATORS
      and clk = sample_clock and symbol = "''^TNX''" and up = failing_upstream and apiKey = "''key''",
      THEN conjunct1, rule_format, OF conjI, OF two all]
  obtain e where e: "fetchIndicator_try INDICATORS (sample_clock 2) ''^TNX'' 2 2 (failing_upstream 2) = Throw e"
    and r: "snd (fetchIndicator INDICATORS failing_upstream sample_clock ''^TNX'' ''key'' 2) = Throws e"
    by blast
  from e t2 have "e = JsError ''API request failed for ^TNX: 503 - last''" by simp
  with r have "snd (fetchIndicator INDICATORS failing_upstream sample_clock ''^TNX'' ''key'' 2)
     = Throws (JsError ''API request failed for ^TNX: 503 - last'')"
    by simp
  with t0 t1 t2 show ?thesis by simp
qed

text \<open>
  C9. As stated the claim fails: \<open>retries >= 0\<close> is not enough. With \<open>retries = 0.5\<close>
  and an upstream that answers 500, attempt 0 fails, is not the last attempt
  (\<open>0 === 0.5\<close> is false), the fetcher waits and the loop condition \<open>1 <= 0.5\<close> ends
  the loop: the call returns \<open>undefined\<close>.
\<close>

theorem fractional_retries_return_undefined:
  "fetchIndicator INDICATORS (\<lambda>k. status_reply 500 ''oops'') sample_clock ''^VIX'' ''key'' (1 / 2) =
     ([finnhub_request ''^VIX'' ''key'', Sleep 500], ReturnsUndefined)"
  by (simp add: fetchIndicator_def fetchIndicator_loop.simps fetchIndicator_try_def ok_def
      status_reply_def)

text \<open>
  C9, amended. The retrying fetch routines give a proper result when \<open>retries\<close> is a
  non-negative integer: then the attempt loop issues at most \<open>retries + 1\<close> requests (one
  per iteration) and the call either returns a quote object or throws an error. For
  \<open>retries < 0\<close> the loop body never runs, no request is issued and the call returns
  \<open>undefined\<close>. For any \<open>retries\<close> the number of requests is at most
  \<open>floor retries + 1\<close>, and the call throws only when \<open>retries\<close> is a non-negative
  integer. Holds for \<open>fetchIndicator\<close> and for the retrying \<open>fetchStockPrice\<close>.
\<close>

theorem fetch_total_for_natural_retries:
  "(retries = of_nat n \<longrightarrow>
      ((\<exists>q. snd (fetchIndicator reg up clk symbol apiKey retries) = Returns q) \<or>
       (\<exists>e. snd (fetchIndicator reg up clk symbol apiKey retries) = Throws e)) \<and>
      length (filter is_request (fst (fetchIndicator reg up clk symbol apiKey retries))) \<le> n + 1 \<and>
      ((\<exists>q. snd (fetchStockPrice creg up clk symbol apiKey retries) = Returns q) \<or>
       (\<exists>e. snd (fetchStockPrice creg up clk symbol apiKey retries) = Throws e)) \<and>
      length (filter is_request (fst (fetchStockPrice creg up clk symbol apiKey retries))) \<le> n + 1) \<and>
   (retries < 0 \<longrightarrow>
      fetchIndicator reg up clk symbol apiKey retries = ([], ReturnsUndefined) \<and>
      fetchStockPrice creg up clk symbol apiKey retries = ([], ReturnsUndefined)) \<and>
   length (filter is_request (fst (fetchIndicator reg up clk symbol apiKey retries)))
     \<le> nat (\<lfloor>retries\<rfloor> + 1) \<and>
   length (filter is_request (fst (fetchStockPrice creg up clk symbol apiKey retries)))
     \<le> nat (\<lfloor>retries\<rfloor> + 1) \<and>
   (snd (fetchIndicator reg up clk symbol apiKey retries) = Throws e1 \<longrightarrow> (\<exists>m. retries = of_nat m)) \<and>
   (snd (fetchStockPrice creg up clk symbol apiKey retries) = Throws e2 \<longrightarrow> (\<exists>m. retries = of_nat m))"
proof -
  have ri: "length (filter is_request (fst (fetchIndicator reg up clk symbol apiKey retries)))
     \<le> nat (\<lfloor>retries\<rfloor> + 1)"
    using fetchIndicator_loop_requests [of reg up clk symbol apiKey retries 0]
    by (simp add: fetchIndicator_def)
  have rs: "length (filter is_request (fst (fetchStockPrice creg up clk symbol apiKey retries)))
     \<le> nat (\<lfloor>retries\<rfloor> + 1)"
    using fetchStockPrice_loop_requests [of creg up clk symbol apiKey retries 0]
    by (simp add: fetchStockPrice_def)
  have nat: "retries = of_nat n \<longrightarrow>
      ((\<exists>q. snd (fetchIndicator reg up clk symbol apiKey retries) = Returns q) \<or>
       (\<exists>e. snd (fetchIndicator reg up clk symbol apiKey retries) = Throws e)) \<and>
      length (filter is_request (fst (fetchIndicator reg up clk symbol apiKey retries))) \<le> n + 1 \<and>
      ((\<exists>q. snd (fetchStockPrice creg up clk symbol apiKey retries) = Returns q) \<or>
       (\<exists>e. snd (fetchStockPrice creg up clk symbol apiKey retries) = Throws e)) \<and>
      length (filter is_request (fst (fetchStockPrice creg up clk symbol apiKey retries))) \<le> n + 1"
  proof
    assume n: "retries = of_nat n"
    then have fl: "nat (\<lfloor>retries\<rfloor> + 1) = n + 1" by simp
    from fetchIndicator_loop_defined [OF n, of 0 reg up clk symbol apiKey]
    have di: "(\<exists>q. snd (fetchIndicator reg up clk symbol apiKey retries) = Returns q) \<or>
        (\<exists>e. snd (fetchIndicator reg up clk symbol apiKey retries) = Throws e)"
      unfolding fetchIndicator_def
      by (cases "snd (fetchIndicator_loop reg up clk symbol apiKey retries 0)") simp_all
    from fetchStockPrice_loop_defined [OF n, of 0 creg up clk symbol apiKey]
    have ds: "(\<exists>q. snd (fetchStockPrice creg up clk symbol apiKey retries) = Returns q) \<or>
        (\<exists>e. snd (fetchStockPrice creg up clk symbol apiKey retries) = Throws e)"
      unfolding fetchStockPrice_def
      by (cases "snd (fetchStockPrice_loop creg up clk symbol apiKey retries 0)") simp_all
    from di ds ri rs fl
    show "((\<exists>q. snd (fetchIndicator reg up clk symbol apiKey retries) = Returns q) \<or>
       (\<exists>e. snd (fetchIndicator reg up clk symbol apiKey retries) = Throws e)) \<and>
      length (filter is_request (fst (fetchIndicator reg up clk symbol apiKey retries))) \<le> n + 1 \<and>
      ((\<exists>q. snd (fetchStockPrice creg up clk symbol apiKey retries) = Returns q) \<or>
       (\<exists>e. snd (fetchStockPrice creg up clk symbol apiKey retries) = Throws e)) \<and>
      length (filter is_request (fst (fetchStockPrice creg up clk symbol apiKey retries))) \<le> n + 1"
      by simp
  qed
  have neg: "retries < 0 \<longrightarrow>
      fetchIndicator reg up clk symbol apiKey retries = ([], ReturnsUndefined) \<and>
      fetchStockPrice creg up clk symbol apiKey retries = ([], ReturnsUndefined)"
    by (simp add: fetchIndicator_def fetchIndicator_loop_exit fetchStockPrice_def fetchStockPrice_loop_exit)
  have ti: "snd (fetchIndicator reg up clk symbol apiKey retries) = Throws e1 \<longrightarrow> (\<exists>m. retries = of_nat m)"
    using fetchIndicator_loop_Throws [of reg up clk symbol apiKey retries 0 e1]
    unfolding fetchIndicator_def by blast
  have ts: "snd (fetchStockPrice creg up clk symbol apiKey retries) = Throws e2 \<longrightarrow> (\<exists>m. retries = of_nat m)"
    using fetchStockPrice_loop_Throws [of creg up clk symbol apiKey retries 0 e2]
    unfolding fetchStockPrice_def by blast
  show ?thesis
    by (intro conjI nat neg ri rs ti ts)
qed

theorem fetch_total_for_natural_retries_witness:
  "(2::rat) = of_nat 2 \<and> (-1::rat) < 0 \<and>
   snd (fetchIndicator INDICATORS (\<lambda>k. status_reply 500 ''oops'') sample_clock ''^VIX'' ''key'' 2)
     = Throws (JsError ''API request failed for ^VIX: 500 - oops'') \<and>
   length (filter is_request
     (fst (fetchIndicator INDICATORS (\<lambda>k. status_reply 500 ''oops'') sample_clock ''^VIX'' ''key'' 2))) \<le> 3 \<and>
   fetchIndicator INDICATORS (\<lambda>k. status_reply 500 ''oops'') sample_clock ''^VIX'' ''key'' (-1)
     = ([], ReturnsUndefined) \<and>
   fetchStockPrice COMPANIES (\<lambda>k. status_reply 500 ''oops'') sample_clock ''^VIX'' ''key'' (-1)
     = ([], ReturnsUndefined)"
proof -
  have two: "(2::rat) = of_nat 2" by simp
  have neg: "(-1::rat) < 0" by simp
  note th2 = fetch_total_for_natural_retries [of 2 2 INDICATORS "\<lambda>k. status_reply 500 ''oops''" sample_clock
      "''^VIX''" "''key''" COMPANIES]
  note thn = fetch_total_for_natural_retries [of "-1" 0 INDICATORS "\<lambda>k. status_reply 500 ''oops''" sample_clock
      "''^VIX''" "''key''" COMPANIES]
  from th2 [THEN conjunct1, rule_format, OF two]
  have a: "length (filter is_request
     (fst (fetchIndicator INDICATORS (\<lambda>k. status_reply 500 ''oops'') sample_clock ''^VIX'' ''key'' 2))) \<le> 3"
    by simp
  from thn [THEN conjunct2, THEN conjunct1, rule_format, OF neg]
  have b: "fetchIndicator INDICATORS (\<lambda>k. status_reply 500 ''oops'') sample_clock ''^VIX'' ''key'' (-1)
     = ([], ReturnsUndefined)"
    and c: "fetchStockPrice COMPANIES (\<lambda>k. status_reply 500 ''oops'') sample_clock ''^VIX'' ''key'' (-1)
     = ([], ReturnsUndefined)"
    by simp_all
  have d: "snd (fetchIndicator INDICATORS (\<lambda>k. status_reply 500 ''oops'') sample_clock ''^VIX'' ''key'' 2)
     = Throws (JsError ''API request failed for ^VIX: 500 - oops'')"
    by (simp add: fetchIndicator_def fetchIndicator_loop.simps fetchIndicator_try_def ok_def
      status_reply_def show_nat_samples)
  from two neg a b c d show ?thesis by (intro conjI)
qed

section \<open>Claims about the handlers\<close>

text \<open>
  C1. For every registry (with unique symbol identifiers) and every behaviour of the
  upstream, latencies included, the \<open>data\<close> sequence sent by the economic and the
  retrying stock handler has exactly one quote result per registry entry, in the
  registry's declaration order and with the entry's symbol: the quote the symbol's fetch
  returned, or, when that fetch threw, the failure object built from the entry's
  metadata, the error's message and the handler's timestamp. No symbol is dropped. The
  order is fixed by the registry and does not depend on how long any fetch takes: in the
  sample run the first symbol's fetch is the last to complete. The handler of
  \<open>src/api/stocks.js\<close> does the same with its single-request fetcher.
\<close>

theorem fanout_one_result_per_symbol_in_order:
  "(req_method rq = ''GET'' \<and> API_KEY (w_env w) = Some apiKey \<and> apiKey \<noteq> [] \<and>
    distinct (map fst reg) \<longrightarrow>
      (\<exists>data. indicatorData reg w apiKey (w_now w) = Inr (map Some data) \<and>
        sent_data (fst (economic_handler reg w rq r0)) = data \<and>
        length data = length reg \<and> map q_symbol data = map fst reg \<and>
        list_all2 (\<lambda>entry q.
          settles_to (snd (fetchIndicator_default reg (w_upstream w (fst entry)) (w_clock w (fst entry)) (fst entry) apiKey))
            (\<lambda>e. indicator_failure (fst entry) (snd entry) e (w_now w)) q) reg data)) \<and>
   (req_method rq = ''GET'' \<and> API_KEY (w_env w) = Some apiKey \<and> apiKey \<noteq> [] \<and>
    distinct (map fst creg) \<longrightarrow>
      (\<exists>data. stockData creg w apiKey (w_now w) = Inr (map Some data) \<and>
        sent_data (fst (stocks_handler creg w rq r0)) = data \<and>
        length data = length creg \<and> map q_symbol data = map fst creg \<and>
        list_all2 (\<lambda>entry q.
          settles_to (snd (fetchStockPrice_default creg (w_upstream w (fst entry)) (w_clock w (fst entry)) (fst entry) apiKey))
            (\<lambda>e. stock_failure (fst entry) (snd entry) e (w_now w)) q) creg data)) \<and>
   (req_method rq = ''GET'' \<and> API_KEY (w_env aw) = Some apiKey \<and> apiKey \<noteq> [] \<longrightarrow>
      sent_data (fst (api_handler areg aw rq r0)) = api_stockData areg aw apiKey (w_now aw) \<and>
      length (api_stockData areg aw apiKey (w_now aw)) = length areg \<and>
      map q_symbol (api_stockData areg aw apiKey (w_now aw)) = map fst areg \<and>
      list_all2 (\<lambda>entry q.
        q = (case snd (api_fetchStockPrice areg (w_upstream aw (fst entry) 0) (w_clock aw (fst entry) 0) (fst entry) apiKey) of
               Inr q' \<Rightarrow> q'
             | Inl e \<Rightarrow> api_failure areg (fst entry) e (w_now aw))) areg (api_stockData areg aw apiKey (w_now aw))) \<and>
   indicator_failure symbol info e ts =
     \<lparr>q_symbol = symbol, q_name = Some (info_name info), q_category = Some (info_type info),
      q_description = Some (info_description info), q_val = None, q_previousClose = None,
      q_change = None, q_changePercent = None, q_high = None, q_low = None,
      q_error = Some (message e), q_timestamp = ts\<rparr> \<and>
   stock_failure symbol cinfo e ts =
     \<lparr>q_symbol = symbol, q_name = Some (co_name cinfo), q_category = Some (co_sector cinfo),
      q_description = None, q_val = None, q_previousClose = None,
      q_change = None, q_changePercent = None, q_high = None, q_low = None,
      q_error = Some (message e), q_timestamp = ts\<rparr> \<and>
   api_failure areg symbol e ts =
     \<lparr>q_symbol = symbol, q_name = map_of areg symbol, q_category = None,
      q_description = None, q_val = None, q_previousClose = None,
      q_change = None, q_changePercent = None, q_high = None, q_low = None,
      q_error = Some (message e), q_timestamp = ts\<rparr>"
proof -
  have api: "req_method rq = ''GET'' \<and> API_KEY (w_env aw) = Some apiKey \<and> apiKey \<noteq> [] \<longrightarrow>
      sent_data (fst (api_handler areg aw rq r0)) = api_stockData areg aw apiKey (w_now aw)"
    by (simp add: api_handler_GET)
  show ?thesis
    using economic_fanout [of rq w apiKey reg r0] stocks_fanout [of rq w apiKey creg r0]
      api api_fanout [of areg aw apiKey "w_now aw"]
    by (simp add: indicator_failure_def stock_failure_def api_failure_def)
qed

lemma sample_economic_elapsed:
  "map (\<lambda>(symbol, effects). (symbol, elapsed (w_upstream sample_world symbol) 0 effects))
     (snd (economic_handler INDICATORS sample_world get_req fresh_res)) =
     [(''^GSPC'', 4000), (''^DJI'', 100), (''^IXIC'', 100), (''^RUT'', 100), (''^VIX'', 1740),
      (''^TNX'', 100), (''GC=F'', 100), (''CL=F'', 100)]"
  by (simp add: economic_handler_def economic_try_def sample_world_def get_req_def fresh_res_def
      indicatorData_def indicatorPromise_def fetchIndicator_default_def fetchIndicator_def
      fetchIndicator_loop.simps fetchIndicator_try_def ok_def status_reply_def quote_reply_def
      INDICATORS_def cors_def setHeader_def res_json_def res_status_def Let_def
      indicator_failure_def show_nat_samples finnhub_request_def)

theorem fanout_one_result_per_symbol_in_order_witness:
  "req_method get_req = ''GET'' \<and> API_KEY (w_env sample_world) = Some ''key'' \<and>
   distinct (map fst INDICATORS) \<and> distinct (map fst COMPANIES) \<and>
   map q_symbol (sent_data (fst (economic_handler INDICATORS sample_world get_req fresh_res))) =
     [''^GSPC'', ''^DJI'', ''^IXIC'', ''^RUT'', ''^VIX'', ''^TNX'', ''GC=F'', ''CL=F''] \<and>
   sent_data (fst (economic_handler INDICATORS sample_world get_req fresh_res)) ! 4 =
     indicator_failure ''^VIX''
       \<lparr>info_name = ''CBOE Volatility Index'', info_type = ''Volatility'', info_description = ''Market Fear Gauge''\<rparr>
       (JsError ''API request failed for ^VIX: 500 - oops'') ''2024-01-02T03:03:59.000Z'' \<and>
   map (\<lambda>(symbol, effects). (symbol, elapsed (w_upstream sample_world symbol) 0 effects))
     (snd (economic_handler INDICATORS sample_world get_req fresh_res)) =
     [(''^GSPC'', 4000), (''^DJI'', 100), (''^IXIC'', 100), (''^RUT'', 100), (''^VIX'', 1740),
      (''^TNX'', 100), (''GC=F'', 100), (''CL=F'', 100)] \<and>
   map q_symbol (sent_data (fst (stocks_handler COMPANIES sample_world get_req fresh_res))) =
     [''AAPL'', ''MSFT'', ''GOOGL'', ''META'', ''NVDA'', ''JNJ'', ''UNH'', ''PFE'', ''JPM'', ''BAC'',
      ''GS'', ''XOM'', ''CVX'', ''AMZN'', ''WMT'', ''COST'', ''BA'', ''CAT'']"
proof -
  have g: "req_method get_req = ''GET''" by (simp add: get_req_def)
  have k: "API_KEY (w_env sample_world) = Some ''key''" by (simp add: sample_world_def)
  have ne: "''key'' \<noteq> []" by simp
  note th = fanout_one_result_per_symbol_in_order [where rq = get_req and w = sample_world
      and apiKey = "''key''" and reg = INDICATORS and ?r0.0 = fresh_res and creg = COMPANIES]
  from th [THEN conjunct1, rule_format, OF conjI [OF g conjI [OF k conjI [OF ne distinct_INDICATORS]]]]
  have a: "map q_symbol (sent_data (fst (economic_handler INDICATORS sample_world get_req fresh_res))) = map fst INDICATORS"
    by blast
  from th [THEN conjunct2, THEN conjunct1, rule_format, OF conjI [OF g conjI [OF k conjI [OF ne distinct_COMPANIES]]]]
  have b: "map q_symbol (sent_data (fst (stocks_handler COMPANIES sample_world get_req fresh_res))) = map fst COMPANIES"
    by blast
  from a have a': "map q_symbol (sent_data (fst (economic_handler INDICATORS sample_world get_req fresh_res))) =
     [''^GSPC'', ''^DJI'', ''^IXIC'', ''^RUT'', ''^VIX'', ''^TNX'', ''GC=F'', ''CL=F'']"
    by (simp add: INDICATORS_def)
  from b have b': "map q_symbol (sent_data (fst (stocks_handler COMPANIES sample_world get_req fresh_res))) =
     [''AAPL'', ''MSFT'', ''GOOGL'', ''META'', ''NVDA'', ''JNJ'', ''UNH'', ''PFE'', ''JPM'', ''BAC'',
      ''GS'', ''XOM'', ''CVX'', ''AMZN'', ''WMT'', ''COST'', ''BA'', ''CAT'']"
    by (simp add: COMPANIES_def)
  from g k distinct_INDICATORS distinct_COMPANIES a' b' sample_economic_data sample_economic_elapsed
  show ?thesis
    by (intro conjI)
qed

text \<open>
  C2. For a GET request with the credential configured, the response is decided by the
  fan-out's results \<open>data\<close> (which always exist): if every result is a failure (its
  \<open>error\<close> is set and not empty) the status is 503 and the body is
  \<open>{error: 'Service unavailable', message, data}\<close> with the full \<open>data\<close>; otherwise the
  status is 200 and the body is \<open>{success: true, timestamp, data}\<close> with the full ordered
  \<open>data\<close>, failures included. The economic handler adds \<open>grouped\<close>: for every type the
  list, in \<open>data\<close> order, of the successful results of that type, and no entry for a type
  without a successful result. The two stock handlers send no grouping.
\<close>

theorem response_policy:
  "(req_method rq = ''GET'' \<and> API_KEY (w_env w) = Some apiKey \<and> apiKey \<noteq> [] \<and>
    distinct (map fst reg) \<longrightarrow>
      (\<exists>data. indicatorData reg w apiKey (w_now w) = Inr (map Some data) \<and>
         (list_all (\<lambda>q. truthy (q_error q)) data \<longrightarrow>
            res_statusCode (fst (economic_handler reg w rq r0)) = 503 \<and>
            res_body (fst (economic_handler reg w rq r0)) =
              Some (UnavailableBody ''Service unavailable''
                ''Unable to fetch economic indicator data from API'' data)) \<and>
         (\<not> list_all (\<lambda>q. truthy (q_error q)) data \<longrightarrow>
            res_statusCode (fst (economic_handler reg w rq r0)) = 200 \<and>
            (\<exists>grouped.
               res_body (fst (economic_handler reg w rq r0)) =
                 Some (SuccessBody (w_now w) data (Some grouped)) \<and>
               (\<forall>t. map_of grouped t =
                  (if filter (\<lambda>q. \<not> truthy (q_error q) \<and> type_key q = t) data = [] then None
                   else Some (filter (\<lambda>q. \<not> truthy (q_error q) \<and> type_key q = t) data))))))) \<and>
   (req_method rq = ''GET'' \<and> API_KEY (w_env w) = Some apiKey \<and> apiKey \<noteq> [] \<and>
    distinct (map fst creg) \<longrightarrow>
      (\<exists>data. stockData creg w apiKey (w_now w) = Inr (map Some data) \<and>
         (list_all (\<lambda>q. truthy (q_error q)) data \<longrightarrow>
            res_statusCode (fst (stocks_handler creg w rq r0)) = 503 \<and>
            res_body (fst (stocks_handler creg w rq r0)) =
              Some (UnavailableBody ''Service unavailable''
                ''Unable to fetch stock data from API'' data)) \<and>
         (\<not> list_all (\<lambda>q. truthy (q_error q)) data \<longrightarrow>
            res_statusCode (fst (stocks_handler creg w rq r0)) = 200 \<and>
            res_body (fst (stocks_handler creg w rq r0)) =
              Some (SuccessBody (w_now w) data None)))) \<and>
   (req_method rq = ''GET'' \<and> API_KEY (w_env aw) = Some apiKey \<and> apiKey \<noteq> [] \<longrightarrow>
      (list_all (\<lambda>q. truthy (q_error q)) (api_stockData areg aw apiKey (w_now aw)) \<longrightarrow>
         res_statusCode (fst (api_handler areg aw rq r0)) = 503 \<and>
         res_body (fst (api_handler areg aw rq r0)) =
           Some (UnavailableBody ''Service unavailable''
             ''Unable to fetch stock data from API'' (api_stockData areg aw apiKey (w_now aw)))) \<and>
      (\<not> list_all (\<lambda>q. truthy (q_error q)) (api_stockData areg aw apiKey (w_now aw)) \<longrightarrow>
         res_statusCode (fst (api_handler areg aw rq r0)) = 200 \<and>
         res_body (fst (api_handler areg aw rq r0)) =
           Some (SuccessBody (w_now aw) (api_stockData areg aw apiKey (w_now aw)) None)))"
proof (intro conjI impI; (elim conjE)?)
  assume g: "req_method rq = ''GET''" and k: "API_KEY (w_env w) = Some apiKey" "apiKey \<noteq> []"
    and d: "distinct (map fst reg)"
  from indicatorData_settles [OF d, of w apiKey "w_now w"] obtain data where
    data: "indicatorData reg w apiKey (w_now w) = Inr (map Some data)" by blast
  note h = economic_handler_GET [OF g k data, of r0]
  have grp: "\<forall>t. map_of (foldl group_step [] data) t =
      (if filter (\<lambda>q. \<not> truthy (q_error q) \<and> type_key q = t) data = [] then None
       else Some (filter (\<lambda>q. \<not> truthy (q_error q) \<and> type_key q = t) data))"
    by (simp add: foldl_group_step_lookup Let_def)
  have "(list_all (\<lambda>q. truthy (q_error q)) data \<longrightarrow>
            res_statusCode (fst (economic_handler reg w rq r0)) = 503 \<and>
            res_body (fst (economic_handler reg w rq r0)) =
              Some (UnavailableBody ''Service unavailable''
                ''Unable to fetch economic indicator data from API'' data)) \<and>
         (\<not> list_all (\<lambda>q. truthy (q_error q)) data \<longrightarrow>
            res_statusCode (fst (economic_handler reg w rq r0)) = 200 \<and>
            (\<exists>grouped.
               res_body (fst (economic_handler reg w rq r0)) =
                 Some (SuccessBody (w_now w) data (Some grouped)) \<and>
               (\<forall>t. map_of grouped t =
                  (if filter (\<lambda>q. \<not> truthy (q_error q) \<and> type_key q = t) data = [] then None
                   else Some (filter (\<lambda>q. \<not> truthy (q_error q) \<and> type_key q = t) data)))))"
    using grp by (simp add: h)
  with data show "\<exists>data. indicatorData reg w apiKey (w_now w) = Inr (map Some data) \<and>
         (list_all (\<lambda>q. truthy (q_error q)) data \<longrightarrow>
            res_statusCode (fst (economic_handler reg w rq r0)) = 503 \<and>
            res_body (fst (economic_handler reg w rq r0)) =
              Some (UnavailableBody ''Service unavailable''
                ''Unable to fetch economic indicator data from API'' data)) \<and>
         (\<not> list_all (\<lambda>q. truthy (q_error q)) data \<longrightarrow>
            res_statusCode (fst (economic_handler reg w rq r0)) = 200 \<and>
            (\<exists>grouped.
               res_body (fst (economic_handler reg w rq r0)) =
                 Some (SuccessBody (w_now w) data (Some grouped)) \<and>
               (\<forall>t. map_of grouped t =
                  (if filter (\<lambda>q. \<not> truthy (q_error q) \<and> type_key q = t) data = [] then None
                   else Some (filter (\<lambda>q. \<not> truthy (q_error q) \<and> type_key q = t) data)))))"
    by blast
next
  assume g: "req_method rq = ''GET''" and k: "API_KEY (w_env w) = Some apiKey" "apiKey \<noteq> []"
    and d: "distinct (map fst creg)"
  from stockData_settles [OF d, of w apiKey "w_now w"] obtain data where
    data: "stockData creg w apiKey (w_now w) = Inr (map Some data)" by blast
  note h = stocks_handler_GET [OF g k data, of r0]
  have "(list_all (\<lambda>q. truthy (q_error q)) data \<longrightarrow>
            res_statusCode (fst (stocks_handler creg w rq r0)) = 503 \<and>
            res_body (fst (stocks_handler creg w rq r0)) =
              Some (UnavailableBody ''Service unavailable''
                ''Unable to fetch stock data from API'' data)) \<and>
         (\<not> list_all (\<lambda>q. truthy (q_error q)) data \<longrightarrow>
            res_statusCode (fst (stocks_handler creg w rq r0)) = 200 \<and>
            res_body (fst (stocks_handler creg w rq r0)) =
              Some (SuccessBody (w_now w) data None))"
    by (simp add: h)
  with data show "\<exists>data. stockData creg w apiKey (w_now w) = Inr (map Some data) \<and>
         (list_all (\<lambda>q. truthy (q_error q)) data \<longrightarrow>
            res_statusCode (fst (stocks_handler creg w rq r0)) = 503 \<and>
            res_body (fst (stocks_handler creg w rq r0)) =
              Some (UnavailableBody ''Service unavailable''
                ''Unable to fetch stock data from API'' data)) \<and>
         (\<not> list_all (\<lambda>q. truthy (q_error q)) data \<longrightarrow>
            res_statusCode (fst (stocks_handler creg w rq r0)) = 200 \<and>
            res_body (fst (stocks_handler creg w rq r0)) =
              Some (SuccessBody (w_now w) data None))"
    by blast
next
  assume g: "req_method rq = ''GET''" and k: "API_KEY (w_env aw) = Some apiKey" "apiKey \<noteq> []"
    and all: "list_all (\<lambda>q. truthy (q_error q)) (api_stockData areg aw apiKey (w_now aw))"
  from all show "res_statusCode (fst (api_handler areg aw rq r0)) = 503"
    by (simp add: api_handler_GET [OF g k])
  from all show "res_body (fst (api_handler areg aw rq r0)) =
           Some (UnavailableBody ''Service unavailable''
             ''Unable to fetch stock data from API'' (api_stockData areg aw apiKey (w_now aw)))"
    by (simp add: api_handler_GET [OF g k])
next
  assume g: "req_method rq = ''GET''" and k: "API_KEY (w_env aw) = Some apiKey" "apiKey \<noteq> []"
    and some: "\<not> list_all (\<lambda>q. truthy (q_error q)) (api_stockData areg aw apiKey (w_now aw))"
  from some show "res_statusCode (fst (api_handler areg aw rq r0)) = 200"
    by (simp add: api_handler_GET [OF g k])
  from some show "res_body (fst (api_handler areg aw rq r0)) =
           Some (SuccessBody (w_now aw) (api_stockData areg aw apiKey (w_now aw)) None)"
    by (simp add: api_handler_GET [OF g k])
qed

theorem response_policy_witness:
  "req_method get_req = ''GET'' \<and> API_KEY (w_env sample_world) = Some ''key'' \<and>
   res_statusCode (fst (economic_handler INDICATORS sample_world get_req fresh_res)) = 200 \<and>
   (case res_body (fst (economic_handler INDICATORS sample_world get_req fresh_res)) of
      Some (SuccessBody ts d (Some g)) \<Rightarrow>
        map q_symbol d = [''^GSPC'', ''^DJI'', ''^IXIC'', ''^RUT'', ''^VIX'', ''^TNX'', ''GC=F'', ''CL=F''] \<and>
        map (\<lambda>(t, qs). (t, map q_symbol qs)) g =
          [(''Index'', [''^GSPC'', ''^DJI'', ''^IXIC'', ''^RUT'']), (''Bonds'', [''^TNX'']),
           (''Commodities'', [''GC=F'', ''CL=F''])]
    | _ \<Rightarrow> False) \<and>
   res_statusCode (fst (economic_handler INDICATORS outage_world get_req fresh_res)) = 503 \<and>
   (case res_body (fst (economic_handler INDICATORS outage_world get_req fresh_res)) of
      Some (UnavailableBody err msg d) \<Rightarrow>
        err = ''Service unavailable'' \<and>
        map q_symbol d = [''^GSPC'', ''^DJI'', ''^IXIC'', ''^RUT'', ''^VIX'', ''^TNX'', ''GC=F'', ''CL=F''] \<and>
        list_all (\<lambda>q. q_error q = Some ''fetch failed'') d
    | _ \<Rightarrow> False) \<and>
   res_statusCode (fst (api_handler COMPANIES_api api_sample_world get_req fresh_res)) = 200 \<and>
   map q_error (sent_data (fst (api_handler COMPANIES_api api_sample_world get_req fresh_res))) =
     [None, None, None, Some ''fetch failed'', None]"
proof -
  note th = response_policy [of get_req sample_world "''key''" INDICATORS fresh_res COMPANIES
      api_sample_world COMPANIES_api]
  have g: "req_method get_req = ''GET''" by (simp add: get_req_def)
  have k: "API_KEY (w_env sample_world) = Some ''key''" by (simp add: sample_world_def)
  have ak: "API_KEY (w_env api_sample_world) = Some ''key''" by (simp add: api_sample_world_def)
  have ne: "''key'' \<noteq> []" by simp
  have adata: "map q_error (api_stockData COMPANIES_api api_sample_world ''key'' (w_now api_sample_world)) =
      [None, None, None, Some ''fetch failed'', None]"
    by (simp add: api_stockData_def api_stockPromise_def api_fetchStockPrice_def api_failure_def
        api_sample_world_def COMPANIES_api_def ok_def)
  have some: "\<not> list_all (\<lambda>q. truthy (q_error q)) (api_stockData COMPANIES_api api_sample_world ''key'' (w_now api_sample_world))"
    by (simp add: api_stockData_def api_stockPromise_def api_fetchStockPrice_def api_failure_def
        api_sample_world_def COMPANIES_api_def ok_def)
  from th [THEN conjunct2, THEN conjunct2, rule_format, OF conjI [OF g conjI [OF ak ne]], THEN conjunct2, rule_format, OF some]
  have a1: "res_statusCode (fst (api_handler COMPANIES_api api_sample_world get_req fresh_res)) = 200"
    and a2: "res_body (fst (api_handler COMPANIES_api api_sample_world get_req fresh_res)) =
           Some (SuccessBody (w_now api_sample_world) (api_stockData COMPANIES_api api_sample_world ''key'' (w_now api_sample_world)) None)"
    by simp_all
  from a2 adata have a3: "map q_error (sent_data (fst (api_handler COMPANIES_api api_sample_world get_req fresh_res))) =
     [None, None, None, Some ''fetch failed'', None]"
    by (simp add: sent_data_def)
  have e1: "res_statusCode (fst (economic_handler INDICATORS sample_world get_req fresh_res)) = 200 \<and>
   (case res_body (fst (economic_handler INDICATORS sample_world get_req fresh_res)) of
      Some (SuccessBody ts d (Some g)) \<Rightarrow>
        map q_symbol d = [''^GSPC'', ''^DJI'', ''^IXIC'', ''^RUT'', ''^VIX'', ''^TNX'', ''GC=F'', ''CL=F''] \<and>
        map (\<lambda>(t, qs). (t, map q_symbol qs)) g =
          [(''Index'', [''^GSPC'', ''^DJI'', ''^IXIC'', ''^RUT'']), (''Bonds'', [''^TNX'']),
           (''Commodities'', [''GC=F'', ''CL=F''])]
    | _ \<Rightarrow> False)"
    by (simp add: economic_handler_def economic_try_def sample_world_def get_req_def fresh_res_def
      indicatorData_def indicatorPromise_def fetchIndicator_default_def fetchIndicator_def
      fetchIndicator_loop.simps fetchIndicator_try_def ok_def status_reply_def quote_reply_def
      INDICATORS_def cors_def setHeader_def res_json_def res_status_def Let_def
      indicator_failure_def show_nat_samples group_step_def type_key_def)
  have e2: "res_statusCode (fst (economic_handler INDICATORS outage_world get_req fresh_res)) = 503 \<and>
   (case res_body (fst (economic_handler INDICATORS outage_world get_req fresh_res)) of
      Some (UnavailableBody err msg d) \<Rightarrow>
        err = ''Service unavailable'' \<and>
        map q_symbol d = [''^GSPC'', ''^DJI'', ''^IXIC'', ''^RUT'', ''^VIX'', ''^TNX'', ''GC=F'', ''CL=F''] \<and>
        list_all (\<lambda>q. q_error q = Some ''fetch failed'') d
    | _ \<Rightarrow> False)"
    by (simp add: economic_handler_def economic_try_def outage_world_def get_req_def fresh_res_def
      indicatorData_def indicatorPromise_def fetchIndicator_default_def fetchIndicator_def
      fetchIndicator_loop.simps fetchIndicator_try_def ok_def
      INDICATORS_def cors_def setHeader_def res_json_def res_status_def Let_def
      indicator_failure_def)
  from g k e1 e2 a1 a3 show ?thesis by (intro conjI) simp_all
qed

text \<open>
  C5. As stated the claim fails: with a current value of 5 and a previous close of 0 the
  percent change is \<open>+Infinity\<close>, which is not \<open>NaN\<close>.
\<close>

theorem zero_previous_close_gives_infinity:
  "fetchIndicator_try INDICATORS ''2024-01-02T03:04:05.000Z'' ''^TNX'' 2 0 (quote_reply 100 5 0) =
     Return \<lparr>q_symbol = ''^TNX'', q_name = Some ''US 10-Year Treasury Yield'',
       q_category = Some ''Bonds'', q_description = Some ''10-Year Bond Yield'',
       q_val = Some (Num 5), q_previousClose = Some (Num 0), q_change = Some (Num 5),
       q_changePercent = Some PosInf, q_high = Some (Num 5), q_low = Some (Num 0),
       q_error = None, q_timestamp = ''2024-01-02T03:04:05.000Z''\<rparr>"
  by (simp add: fetchIndicator_try_def quote_reply_def ok_def INDICATORS_def)

text \<open>
  C5, amended. On a successful attempt the fetcher sets \<open>change\<close> to current minus
  previous close and \<open>changePercent\<close> to \<open>(change / previousClose) * 100\<close> with no
  zero guard. When the previous close is 0 the percent change is not a finite number:
  \<open>NaN\<close> when the current value is 0 too (and the capture time is not, or the attempt
  fails for lack of data), \<open>+Infinity\<close> for a positive and \<open>-Infinity\<close> for a negative
  current value. Nothing is thrown: the attempt returns the quote, and
  any quote a symbol's fetch returns is in the handler's \<open>data\<close> unchanged, without an
  \<open>error\<close>, and the response has status 200.
\<close>

theorem change_percent_unguarded:
  "(js_fetch (Some 5000) r = Inr response \<and> ok response \<and> body_json response = Inr data \<and>
    \<not> (data_c data = Num 0 \<and> data_t data = Num 0) \<longrightarrow>
      (map_of reg symbol = Some info \<longrightarrow>
         (\<exists>q. fetchIndicator_try reg now symbol retries attempt r = Return q \<and>
            q_val q = Some (data_c data) \<and> q_previousClose q = Some (data_pc data) \<and>
            q_change q = Some (js_sub (data_c data) (data_pc data)) \<and>
            q_changePercent q =
              Some (js_mul (js_div (js_sub (data_c data) (data_pc data)) (data_pc data)) (Num 100)) \<and>
            q_error q = None)) \<and>
      (map_of creg symbol = Some cinfo \<longrightarrow>
         (\<exists>q. fetchStockPrice_try creg now symbol retries attempt r = Return q \<and>
            q_val q = Some (data_c data) \<and> q_previousClose q = Some (data_pc data) \<and>
            q_change q = Some (js_sub (data_c data) (data_pc data)) \<and>
            q_changePercent q =
              Some (js_mul (js_div (js_sub (data_c data) (data_pc data)) (data_pc data)) (Num 100)) \<and>
            q_error q = None))) \<and>
   js_mul (js_div (js_sub (Num a) (Num 0)) (Num 0)) (Num 100) =
     (if a = 0 then NaN else if 0 < a then PosInf else NegInf) \<and>
   \<not> is_finite (js_mul (js_div (js_sub (Num a) (Num 0)) (Num 0)) (Num 100)) \<and>
   (req_method rq = ''GET'' \<and> API_KEY (w_env w) = Some apiKey \<and> apiKey \<noteq> [] \<and>
    distinct (map fst reg) \<and> entry \<in> set reg \<and>
    snd (fetchIndicator_default reg (w_upstream w (fst entry)) (w_clock w (fst entry)) (fst entry) apiKey) = Returns q1 \<longrightarrow>
      q1 \<in> set (sent_data (fst (economic_handler reg w rq r0))) \<and> q_error q1 = None \<and>
      res_statusCode (fst (economic_handler reg w rq r0)) = 200) \<and>
   (req_method rq = ''GET'' \<and> API_KEY (w_env w) = Some apiKey \<and> apiKey \<noteq> [] \<and>
    distinct (map fst creg) \<and> centry \<in> set creg \<and>
    snd (fetchStockPrice_default creg (w_upstream w (fst centry)) (w_clock w (fst centry)) (fst centry) apiKey) = Returns q2 \<longrightarrow>
      q2 \<in> set (sent_data (fst (stocks_handler creg w rq r0))) \<and> q_error q2 = None \<and>
      res_statusCode (fst (stocks_handler creg w rq r0)) = 200)"
proof -
  have t: "js_fetch (Some 5000) r = Inr response \<and> ok response \<and> body_json response = Inr data \<and>
    \<not> (data_c data = Num 0 \<and> data_t data = Num 0) \<longrightarrow>
      (map_of reg symbol = Some info \<longrightarrow>
         (\<exists>q. fetchIndicator_try reg now symbol retries attempt r = Return q \<and>
            q_val q = Some (data_c data) \<and> q_previousClose q = Some (data_pc data) \<and>
            q_change q = Some (js_sub (data_c data) (data_pc data)) \<and>
            q_changePercent q =
              Some (js_mul (js_div (js_sub (data_c data) (data_pc data)) (data_pc data)) (Num 100)) \<and>
            q_error q = None)) \<and>
      (map_of creg symbol = Some cinfo \<longrightarrow>
         (\<exists>q. fetchStockPrice_try creg now symbol retries attempt r = Return q \<and>
            q_val q = Some (data_c data) \<and> q_previousClose q = Some (data_pc data) \<and>
            q_change q = Some (js_sub (data_c data) (data_pc data)) \<and>
            q_changePercent q =
              Some (js_mul (js_div (js_sub (data_c data) (data_pc data)) (data_pc data)) (Num 100)) \<and>
            q_error q = None))"
    by (simp add: fetchIndicator_try_def fetchStockPrice_try_def)
  have n1: "js_mul (js_div (js_sub (Num a) (Num 0)) (Num 0)) (Num 100) =
     (if a = 0 then NaN else if 0 < a then PosInf else NegInf)"
    by simp
  have n2: "\<not> is_finite (js_mul (js_div (js_sub (Num a) (Num 0)) (Num 0)) (Num 100))"
    by simp
  have h1: "req_method rq = ''GET'' \<and> API_KEY (w_env w) = Some apiKey \<and> apiKey \<noteq> [] \<and>
    distinct (map fst reg) \<and> entry \<in> set reg \<and>
    snd (fetchIndicator_default reg (w_upstream w (fst entry)) (w_clock w (fst entry)) (fst entry) apiKey) = Returns q1 \<longrightarrow>
      q1 \<in> set (sent_data (fst (economic_handler reg w rq r0))) \<and> q_error q1 = None \<and>
      res_statusCode (fst (economic_handler reg w rq r0)) = 200"
  proof (intro impI, elim conjE)
    assume g: "req_method rq = ''GET''" and k: "API_KEY (w_env w) = Some apiKey" "apiKey \<noteq> []"
      and d: "distinct (map fst reg)" and m: "entry \<in> set reg"
      and r: "snd (fetchIndicator_default reg (w_upstream w (fst entry)) (w_clock w (fst entry)) (fst entry) apiKey) = Returns q1"
    from economic_fanout [OF g k d, of r0] obtain data where
      data: "indicatorData reg w apiKey (w_now w) = Inr (map Some data)"
      and sent: "sent_data (fst (economic_handler reg w rq r0)) = data"
      and rel: "list_all2 (\<lambda>entry q.
          settles_to (snd (fetchIndicator_default reg (w_upstream w (fst entry)) (w_clock w (fst entry)) (fst entry) apiKey))
            (\<lambda>e. indicator_failure (fst entry) (snd entry) e (w_now w)) q) reg data"
      by blast
    from settles_to_Returns_mem [OF rel m r] have mem: "q1 \<in> set data" .
    from r have ok1: "q_error q1 = None" by (rule fetchIndicator_default_success)
    then have "\<not> truthy (q_error q1)" by simp
    with mem have "\<not> list_all (\<lambda>q. truthy (q_error q)) data"
      by (auto simp: list_all_iff)
    then have "res_statusCode (fst (economic_handler reg w rq r0)) = 200"
      by (simp add: economic_handler_GET [OF g k data])
    with mem sent ok1 show "q1 \<in> set (sent_data (fst (economic_handler reg w rq r0))) \<and> q_error q1 = None \<and>
      res_statusCode (fst (economic_handler reg w rq r0)) = 200"
      by simp
  qed
  have h2: "req_method rq = ''GET'' \<and> API_KEY (w_env w) = Some apiKey \<and> apiKey \<noteq> [] \<and>
    distinct (map fst creg) \<and> centry \<in> set creg \<and>
    snd (fetchStockPrice_default creg (w_upstream w (fst centry)) (w_clock w (fst centry)) (fst centry) apiKey) = Returns q2 \<longrightarrow>
      q2 \<in> set (sent_data (fst (stocks_handler creg w rq r0))) \<and> q_error q2 = None \<and>
      res_statusCode (fst (stocks_handler creg w rq r0)) = 200"
  proof (intro impI, elim conjE)
    assume g: "req_method rq = ''GET''" and k: "API_KEY (w_env w) = Some apiKey" "apiKey \<noteq> []"
      and d: "distinct (map fst creg)" and m: "centry \<in> set creg"
      and r: "snd (fetchStockPrice_default creg (w_upstream w (fst centry)) (w_clock w (fst centry)) (fst centry) apiKey) = Returns q2"
    from stocks_fanout [OF g k d, of r0] obtain data where
      data: "stockData creg w apiKey (w_now w) = Inr (map Some data)"
      and sent: "sent_data (fst (stocks_handler creg w rq r0)) = data"
      and rel: "list_all2 (\<lambda>entry q.
          settles_to (snd (fetchStockPrice_default creg (w_upstream w (fst entry)) (w_clock w (fst entry)) (fst entry) apiKey))
            (\<lambda>e. stock_failure (fst entry) (snd entry) e (w_now w)) q) creg data"
      by blast
    from settles_to_Returns_mem [OF rel m r] have mem: "q2 \<in> set data" .
    from r have ok1: "q_error q2 = None" by (rule fetchStockPrice_default_success)
    then have "\<not> truthy (q_error q2)" by simp
    with mem have "\<not> list_all (\<lambda>q. truthy (q_error q)) data"
      by (auto simp: list_all_iff)
    then have "res_statusCode (fst (stocks_handler creg w rq r0)) = 200"
      by (simp add: stocks_handler_GET [OF g k data])
    with mem sent ok1 show "q2 \<in> set (sent_data (fst (stocks_handler creg w rq r0))) \<and> q_error q2 = None \<and>
      res_statusCode (fst (stocks_handler creg w rq r0)) = 200"
      by simp
  qed
  show ?thesis
    by (intro conjI t n1 n2 h1 h2)
qed

theorem change_percent_unguarded_witness:
  "fetchIndicator_try INDICATORS (sample_clock 0) ''^VIX'' 2 0 (quote_reply 100 0 0) =
     Return \<lparr>q_symbol = ''^VIX'', q_name = Some ''CBOE Volatility Index'',
       q_category = Some ''Volatility'', q_description = Some ''Market Fear Gauge'',
       q_val = Some (Num 0), q_previousClose = Some (Num 0), q_change = Some (Num 0),
       q_changePercent = Some NaN, q_high = Some (Num 0), q_low = Some (Num 0),
       q_error = None, q_timestamp = sample_clock 0\<rparr> \<and>
   \<lparr>q_symbol = ''^VIX'', q_name = Some ''CBOE Volatility Index'',
       q_category = Some ''Volatility'', q_description = Some ''Market Fear Gauge'',
       q_val = Some (Num 0), q_previousClose = Some (Num 0), q_change = Some (Num 0),
       q_changePercent = Some NaN, q_high = Some (Num 0), q_low = Some (Num 0),
       q_error = None, q_timestamp = sample_clock 0\<rparr>
     \<in> set (sent_data (fst (economic_handler INDICATORS zero_close_world get_req fresh_res))) \<and>
   res_statusCode (fst (economic_handler INDICATORS zero_close_world get_req fresh_res)) = 200"
proof -
  let ?q = "\<lparr>q_symbol = ''^VIX'', q_name = Some ''CBOE Volatility Index'',
       q_category = Some ''Volatility'', q_description = Some ''Market Fear Gauge'',
       q_val = Some (Num 0), q_previousClose = Some (Num 0), q_change = Some (Num 0),
       q_changePercent = Some NaN, q_high = Some (Num 0), q_low = Some (Num 0),
       q_error = None, q_timestamp = sample_clock 0\<rparr>"
  have t: "fetchIndicator_try INDICATORS (sample_clock 0) ''^VIX'' 2 0 (quote_reply 100 0 0) = Return ?q"
    by (simp add: fetchIndicator_try_def quote_reply_def ok_def INDICATORS_def)
  have up: "w_upstream zero_close_world ''^VIX'' 0 = quote_reply 100 0 0"
    and clk: "w_clock zero_close_world ''^VIX'' 0 = sample_clock 0"
    by (simp_all add: zero_close_world_def)
  have r: "snd (fetchIndicator_default INDICATORS (w_upstream zero_close_world (fst (''^VIX'',
        \<lparr>info_name = ''CBOE Volatility Index'', info_type = ''Volatility'', info_description = ''Market Fear Gauge''\<rparr>)))
      (w_clock zero_close_world (fst (''^VIX'',
        \<lparr>info_name = ''CBOE Volatility Index'', info_type = ''Volatility'', info_description = ''Market Fear Gauge''\<rparr>)))
      (fst (''^VIX'',
        \<lparr>info_name = ''CBOE Volatility Index'', info_type = ''Volatility'', info_description = ''Market Fear Gauge''\<rparr>)) ''key'')
      = Returns ?q"
    using t by (simp add: fetchIndicator_default_def fetchIndicator_def fetchIndicator_loop_Return up clk)
  have g: "req_method get_req = ''GET''" by (simp add: get_req_def)
  have k: "API_KEY (w_env zero_close_world) = Some ''key''" by (simp add: zero_close_world_def)
  have ne: "''key'' \<noteq> []" by simp
  have m: "(''^VIX'', \<lparr>info_name = ''CBOE Volatility Index'', info_type = ''Volatility'',
      info_description = ''Market Fear Gauge''\<rparr>) \<in> set INDICATORS"
    by (simp add: INDICATORS_def)
  note th = change_percent_unguarded [where rq = get_req and w = zero_close_world and apiKey = "''key''"
      and reg = INDICATORS and ?r0.0 = fresh_res and ?q1.0 = ?q
      and entry = "(''^VIX'', \<lparr>info_name = ''CBOE Volatility Index'', info_type = ''Volatility'',
      info_description = ''Market Fear Gauge''\<rparr>)"]
  from th [THEN conjunct2, THEN conjunct2, THEN conjunct2, THEN conjunct1, rule_format,
      OF conjI [OF g conjI [OF k conjI [OF ne conjI [OF distinct_INDICATORS conjI [OF m r]]]]]]
  have "?q \<in> set (sent_data (fst (economic_handler INDICATORS zero_close_world get_req fresh_res))) \<and>
   res_statusCode (fst (economic_handler INDICATORS zero_close_world get_req fresh_res)) = 200"
    by simp
  with t show ?thesis by simp
qed

text \<open>
  C8. For a GET request when \<open>API_KEY\<close> is missing from the process configuration (or
  empty), each of the three handlers answers with status 500 and the body
  \<open>{error: 'Configuration error', message}\<close>, and no fetcher call is made.
\<close>

theorem missing_credential_short_circuits:
  "req_method rq = ''GET'' \<and> \<not> truthy (API_KEY (w_env w)) \<and> \<not> truthy (API_KEY (w_env aw)) \<longrightarrow>
     res_statusCode (fst (economic_handler reg w rq r0)) = 500 \<and>
     res_body (fst (economic_handler reg w rq r0)) =
       Some (ErrorBody ''Configuration error''
         ''API key not configured. Please set API_KEY environment variable.'') \<and>
     snd (economic_handler reg w rq r0) = [] \<and>
     res_statusCode (fst (stocks_handler creg w rq r0)) = 500 \<and>
     res_body (fst (stocks_handler creg w rq r0)) =
       Some (ErrorBody ''Configuration error''
         ''API key not configured. Please set API_KEY environment variable.'') \<and>
     snd (stocks_handler creg w rq r0) = [] \<and>
     res_statusCode (fst (api_handler areg aw rq r0)) = 500 \<and>
     res_body (fst (api_handler areg aw rq r0)) =
       Some (ErrorBody ''Configuration error''
         ''API key not configured. Please set API_KEY environment variable.'') \<and>
     snd (api_handler areg aw rq r0) = []"
  by (simp add: economic_handler_def stocks_handler_def api_handler_def Let_def
      economic_try_unconfigured stocks_try_unconfigured api_try_unconfigured config_error_body_def)

theorem missing_credential_short_circuits_witness:
  "req_method get_req = ''GET'' \<and>
   \<not> truthy (API_KEY (w_env (unconfigured_world (quote_reply 100 150 100)))) \<and>
   res_statusCode (fst (economic_handler INDICATORS (unconfigured_world (quote_reply 100 150 100)) get_req fresh_res)) = 500 \<and>
   snd (economic_handler INDICATORS (unconfigured_world (quote_reply 100 150 100)) get_req fresh_res) = [] \<and>
   snd (stocks_handler COMPANIES (unconfigured_world (quote_reply 100 150 100)) get_req fresh_res) = [] \<and>
   snd (api_handler COMPANIES_api (unconfigured_world (Reply 100 (Rejects ''fetch failed''))) get_req fresh_res) = []"
  using missing_credential_short_circuits [of get_req "unconfigured_world (quote_reply 100 150 100)"
      "unconfigured_world (Reply 100 (Rejects ''fetch failed''))" INDICATORS fresh_res COMPANIES COMPANIES_api]
  by (simp add: get_req_def unconfigured_world_def)

text \<open>
  C10. Whatever the request, the configuration and the upstream do, the response of each
  of the three handlers carries \<open>Access-Control-Allow-Origin: *\<close>,
  \<open>Access-Control-Allow-Methods: GET, OPTIONS\<close> and
  \<open>Access-Control-Allow-Headers: Content-Type\<close>: the handler sets them before it looks at
  the method, and no branch (OPTIONS, 405, configuration error, generic error, 503, 200)
  touches the headers afterwards. The last three conjuncts are the response the outer
  \<open>catch\<close> block builds.
\<close>

theorem every_response_has_cors_headers:
  "map_of (res_headers (fst (economic_handler reg w rq r0))) ''Access-Control-Allow-Origin'' = Some ''*'' \<and>
   map_of (res_headers (fst (economic_handler reg w rq r0))) ''Access-Control-Allow-Methods'' = Some ''GET, OPTIONS'' \<and>
   map_of (res_headers (fst (economic_handler reg w rq r0))) ''Access-Control-Allow-Headers'' = Some ''Content-Type'' \<and>
   map_of (res_headers (fst (stocks_handler creg w rq r0))) ''Access-Control-Allow-Origin'' = Some ''*'' \<and>
   map_of (res_headers (fst (stocks_handler creg w rq r0))) ''Access-Control-Allow-Methods'' = Some ''GET, OPTIONS'' \<and>
   map_of (res_headers (fst (stocks_handler creg w rq r0))) ''Access-Control-Allow-Headers'' = Some ''Content-Type'' \<and>
   map_of (res_headers (fst (api_handler areg aw rq r0))) ''Access-Control-Allow-Origin'' = Some ''*'' \<and>
   map_of (res_headers (fst (api_handler areg aw rq r0))) ''Access-Control-Allow-Methods'' = Some ''GET, OPTIONS'' \<and>
   map_of (res_headers (fst (api_handler areg aw rq r0))) ''Access-Control-Allow-Headers'' = Some ''Content-Type'' \<and>
   map_of (res_headers (res_json (InternalErrorBody ''Internal server error'' msg details)
     (res_status 500 (cors r0)))) ''Access-Control-Allow-Origin'' = Some ''*'' \<and>
   map_of (res_headers (res_json (InternalErrorBody ''Internal server error'' msg details)
     (res_status 500 (cors r0)))) ''Access-Control-Allow-Methods'' = Some ''GET, OPTIONS'' \<and>
   map_of (res_headers (res_json (InternalErrorBody ''Internal server error'' msg details)
     (res_status 500 (cors r0)))) ''Access-Control-Allow-Headers'' = Some ''Content-Type''"
  by (simp add: economic_handler_headers stocks_handler_headers api_handler_headers cors_headers)

end
